theory Spec2Isabelle
  imports Complex_Main
begin

section \<open>Python values\<close>

text \<open>
  The values that travel between the modules are JSON documents: the payloads built by
  \<^verbatim>\<open>to_quickbooks_json\<close>, the bodies parsed by \<^verbatim>\<open>response.json()\<close>. A Python
  \<^verbatim>\<open>dict\<close> is an association list in insertion order, \<^verbatim>\<open>None\<close> is \<open>JNull\<close>.
  \<open>JFloat q\<close> stands for the Python float of value \<open>q\<close>; numbers are only passed
  through, never computed with, so the binary rounding of \<^verbatim>\<open>float()\<close> is not spelled
  out.
\<close>

datatype json =
    JNull
  | JBool bool
  | JInt int
  | JFloat rat
  | JStr string
  | JArr "json list"
  | JObj "(string \<times> json) list"

text \<open>
  Exceptions, by class; the code only ever reads \<^verbatim>\<open>str(e)\<close>. A \<open>KeyError\<close> carries
  the \<^verbatim>\<open>repr\<close> of the missing key, which is what \<^verbatim>\<open>str\<close> gives for it.
  \<open>PendingRollbackError\<close> is what the database session raises while it waits for a
  rollback.
\<close>

datatype py_exception =
    Exception string
  | TypeError string
  | ValueError string
  | KeyError string
  | IndexError string
  | AttributeError string
  | PendingRollbackError string

fun str_exc :: "py_exception \<Rightarrow> string" where
  "str_exc (Exception m) = m"
| "str_exc (TypeError m) = m"
| "str_exc (ValueError m) = m"
| "str_exc (KeyError m) = m"
| "str_exc (IndexError m) = m"
| "str_exc (AttributeError m) = m"
| "str_exc (PendingRollbackError m) = m"

text \<open>A text between single quotes, as the interpreter's messages and \<^verbatim>\<open>repr\<close> write names.\<close>

definition quoted :: "string \<Rightarrow> string" where
  "quoted s = [CHR 0x27] @ s @ [CHR 0x27]"

fun type_name :: "json \<Rightarrow> string" where
  "type_name JNull = ''NoneType''"
| "type_name (JBool _) = ''bool''"
| "type_name (JInt _) = ''int''"
| "type_name (JFloat _) = ''float''"
| "type_name (JStr _) = ''str''"
| "type_name (JArr _) = ''list''"
| "type_name (JObj _) = ''dict''"

text \<open>Truthiness, as \<^verbatim>\<open>if x:\<close> tests it.\<close>

fun py_truthy :: "json \<Rightarrow> bool" where
  "py_truthy JNull = False"
| "py_truthy (JBool b) = b"
| "py_truthy (JInt i) = (i \<noteq> 0)"
| "py_truthy (JFloat q) = (q \<noteq> 0)"
| "py_truthy (JStr s) = (s \<noteq> [])"
| "py_truthy (JArr xs) = (xs \<noteq> [])"
| "py_truthy (JObj kvs) = (kvs \<noteq> [])"

text \<open>\<^verbatim>\<open>d.get(k, default)\<close>: only a dict has the method.\<close>

fun py_get :: "json \<Rightarrow> string \<Rightarrow> json \<Rightarrow> py_exception + json" where
  "py_get (JObj kvs) k dflt = Inr (case map_of kvs k of Some v \<Rightarrow> v | None \<Rightarrow> dflt)"
| "py_get v k dflt =
     Inl (AttributeError (quoted (type_name v) @ '' object has no attribute '' @ quoted ''get''))"

text \<open>\<^verbatim>\<open>v[k]\<close> with a string key \<open>k\<close>.\<close>

fun py_getitem :: "json \<Rightarrow> string \<Rightarrow> py_exception + json" where
  "py_getitem (JObj kvs) k =
     (case map_of kvs k of Some v \<Rightarrow> Inr v | None \<Rightarrow> Inl (KeyError (quoted k)))"
| "py_getitem (JArr xs) k = Inl (TypeError ''list indices must be integers or slices, not str'')"
| "py_getitem (JStr s) k = Inl (TypeError (''string indices must be integers, not '' @ quoted ''str''))"
| "py_getitem v k = Inl (TypeError (quoted (type_name v) @ '' object is not subscriptable''))"

text \<open>\<^verbatim>\<open>v[0]\<close>.\<close>

fun py_getitem0 :: "json \<Rightarrow> py_exception + json" where
  "py_getitem0 (JArr []) = Inl (IndexError ''list index out of range'')"
| "py_getitem0 (JArr (x # xs)) = Inr x"
| "py_getitem0 (JStr []) = Inl (IndexError ''string index out of range'')"
| "py_getitem0 (JStr (c # cs)) = Inr (JStr [c])"
| "py_getitem0 (JObj kvs) = Inl (KeyError ''0'')"
| "py_getitem0 v = Inl (TypeError (quoted (type_name v) @ '' object is not subscriptable''))"

text \<open>\<^verbatim>\<open>k in v\<close> for a string \<open>k\<close>: a key of a dict, an element of a list, a substring of a string.\<close>

fun is_prefix :: "string \<Rightarrow> string \<Rightarrow> bool" where
  "is_prefix [] ys = True"
| "is_prefix (x # xs) [] = False"
| "is_prefix (x # xs) (y # ys) = (x = y \<and> is_prefix xs ys)"

fun is_substring :: "string \<Rightarrow> string \<Rightarrow> bool" where
  "is_substring xs [] = (xs = [])"
| "is_substring xs (y # ys) = (is_prefix xs (y # ys) \<or> is_substring xs ys)"

fun py_contains :: "string \<Rightarrow> json \<Rightarrow> py_exception + bool" where
  "py_contains k (JObj kvs) = Inr (k \<in> set (map fst kvs))"
| "py_contains k (JArr xs) = Inr (JStr k \<in> set xs)"
| "py_contains k (JStr s) = Inr (is_substring k s)"
| "py_contains k v =
     Inl (TypeError (''argument of type '' @ quoted (type_name v) @ '' is not iterable''))"

text \<open>\<^verbatim>\<open>d[k] = v\<close> on a dict: an existing key keeps its place, a new one goes last.\<close>

fun dict_set :: "(string \<times> json) list \<Rightarrow> string \<Rightarrow> json \<Rightarrow> (string \<times> json) list" where
  "dict_set [] k v = [(k, v)]"
| "dict_set ((k', v') # kvs) k v = (if k' = k then (k, v) # kvs else (k', v') # dict_set kvs k v)"

fun py_setitem :: "json \<Rightarrow> string \<Rightarrow> json \<Rightarrow> py_exception + json" where
  "py_setitem (JObj kvs) k v = Inr (JObj (dict_set kvs k v))"
| "py_setitem (JArr xs) k v = Inl (TypeError ''list indices must be integers or slices, not str'')"
| "py_setitem d k v =
     Inl (TypeError (quoted (type_name d) @ '' object does not support item assignment''))"

text \<open>\<^verbatim>\<open>for x in v\<close>: the elements of a list, the keys of a dict, the characters of a string.\<close>

fun py_iter :: "json \<Rightarrow> py_exception + json list" where
  "py_iter (JArr xs) = Inr xs"
| "py_iter (JObj kvs) = Inr (map (\<lambda>kv. JStr (fst kv)) kvs)"
| "py_iter (JStr s) = Inr (map (\<lambda>c. JStr [c]) s)"
| "py_iter v = Inl (TypeError (quoted (type_name v) @ '' object is not iterable''))"

text \<open>Decimal rendering of a natural number, as \<^verbatim>\<open>str(n)\<close> and the f-strings give it.\<close>

definition digit_char :: "nat \<Rightarrow> char" where
  "digit_char d = ''0123456789'' ! d"

fun str_nat :: "nat \<Rightarrow> string" where
  "str_nat n = (if n < 10 then [digit_char n] else str_nat (n div 10) @ [digit_char (n mod 10)])"

declare str_nat.simps [simp del]

definition zfill :: "nat \<Rightarrow> string \<Rightarrow> string" where
  "zfill w s = replicate (w - length s) (CHR ''0'') @ s"

section \<open>models.py\<close>

text \<open>
  A \<^verbatim>\<open>datetime.date\<close> and its \<^verbatim>\<open>isoformat()\<close>, \<^verbatim>\<open>'%04d-%02d-%02d'\<close>. A
  \<^verbatim>\<open>datetime.datetime\<close> is kept as a number of ticks; its own \<^verbatim>\<open>isoformat()\<close> is not
  spelled out.
\<close>

datatype date = Date (year: nat) (month: nat) (day: nat)

definition isoformat :: "date \<Rightarrow> string" where
  "isoformat d = zfill 4 (str_nat (year d)) @ ''-'' @ zfill 2 (str_nat (month d)) @ ''-''
     @ zfill 2 (str_nat (day d))"

type_synonym datetime = nat

text \<open>
  The columns that \<^verbatim>\<open>Invoice\<close> and \<^verbatim>\<open>Bill\<close> declare alike, then each class. An
  attribute is an option where the code tests it for absence or where \<^verbatim>\<open>None\<close> changes
  what the code does: \<^verbatim>\<open>float(None)\<close> raises. \<open>row_id\<close> is the column
  \<^verbatim>\<open>id\<close>. \<open>quickbooks_id\<close> holds whatever
  \<^verbatim>\<open>qb_response.get('Id')\<close> gave, \<open>JNull\<close> being \<^verbatim>\<open>None\<close>.
\<close>

record document =
  row_id :: int
  due_date :: "date option"
  line_description :: string
  amount :: "rat option"
  quickbooks_id :: json
  upload_error :: "string option"
  uploaded_at :: "datetime option"

record invoice = document +
  customer_name :: string
  invoice_date :: "date option"
  invoice_number :: string
  tax_code :: "string option"

record bill = document +
  vendor_name :: string
  bill_date :: "date option"
  bill_number :: string
  expense_account :: string

text \<open>\<^verbatim>\<open>float(x)\<close> of a \<^verbatim>\<open>Decimal\<close> attribute that may be \<^verbatim>\<open>None\<close>.\<close>

definition py_float :: "rat option \<Rightarrow> py_exception + json" where
  "py_float x = (case x of
       None \<Rightarrow> Inl (TypeError (''float() argument must be a string or a real number, not ''
                 @ quoted ''NoneType''))
     | Some q \<Rightarrow> Inr (JFloat q))"

text \<open>\<^verbatim>\<open>d.isoformat() if d else None\<close>\<close>

definition isoformat_or_none :: "date option \<Rightarrow> json" where
  "isoformat_or_none d = (case d of None \<Rightarrow> JNull | Some x \<Rightarrow> JStr (isoformat x))"

text \<open>\<^verbatim>\<open>Invoice.to_quickbooks_json\<close>\<close>

definition Invoice_to_quickbooks_json :: "invoice \<Rightarrow> py_exception + json" where
  "Invoice_to_quickbooks_json self =
     (case py_float (amount self) of
        Inl e \<Rightarrow> Inl e
      | Inr amt \<Rightarrow> Inr (JObj [
          (''Line'', JArr [JObj [
             (''Amount'', amt),
             (''DetailType'', JStr ''SalesItemLineDetail''),
             (''SalesItemLineDetail'', JObj [
                (''ItemRef'', JObj [(''value'', JStr ''1''), (''name'', JStr ''Services'')]),
                (''TaxCodeRef'', JObj [(''value'',
                   (case tax_code self of
                      None \<Rightarrow> JStr ''NON''
                    | Some t \<Rightarrow> if t \<noteq> [] then JStr t else JStr ''NON''))])]),
             (''Description'', JStr (line_description self))]]),
          (''CustomerRef'', JObj [(''name'', JStr (customer_name self))]),
          (''DocNumber'', JStr (invoice_number self)),
          (''TxnDate'', isoformat_or_none (invoice_date self)),
          (''DueDate'', isoformat_or_none (due_date self))]))"

text \<open>\<^verbatim>\<open>Bill.to_quickbooks_json\<close>\<close>

definition Bill_to_quickbooks_json :: "bill \<Rightarrow> py_exception + json" where
  "Bill_to_quickbooks_json self =
     (case py_float (amount self) of
        Inl e \<Rightarrow> Inl e
      | Inr amt \<Rightarrow> Inr (JObj [
          (''Line'', JArr [JObj [
             (''Amount'', amt),
             (''DetailType'', JStr ''AccountBasedExpenseLineDetail''),
             (''AccountBasedExpenseLineDetail'', JObj [
                (''AccountRef'', JObj [(''name'', JStr (expense_account self))])]),
             (''Description'', JStr (line_description self))]]),
          (''VendorRef'', JObj [(''name'', JStr (vendor_name self))]),
          (''DocNumber'', JStr (bill_number self)),
          (''TxnDate'', isoformat_or_none (bill_date self)),
          (''DueDate'', isoformat_or_none (due_date self))]))"

text \<open>Every key that occurs anywhere in a document, and the lookup along a path of keys.\<close>

fun all_keys :: "json \<Rightarrow> string list" where
  "all_keys (JArr xs) = concat (map all_keys xs)"
| "all_keys (JObj kvs) = concat (map (\<lambda>(k, v). k # all_keys v) kvs)"
| "all_keys _ = []"

fun at_path :: "json \<Rightarrow> string list \<Rightarrow> json option" where
  "at_path v [] = Some v"
| "at_path (JObj kvs) (k # ks) = (case map_of kvs k of None \<Rightarrow> None | Some v \<Rightarrow> at_path v ks)"
| "at_path v (k # ks) = None"

section \<open>The world outside\<close>

text \<open>
  What the code does not decide is a parameter: the answer of the remote platform to each
  HTTP exchange, whether the database takes each \<^verbatim>\<open>db.session.commit()\<close>, the clock. One
  HTTP exchange ends in one of the ways that \<^verbatim>\<open>_make_request\<close> tells apart by its
  \<^verbatim>\<open>except\<close> clauses (\<^verbatim>\<open>raise_for_status()\<close> raises a \<^verbatim>\<open>RequestException\<close>).
  The answer may depend on everything sent before, so any run of a remote platform, timeouts
  included, is some \<open>transport\<close>.
\<close>

datatype http_request =
  Http_request (http_method: string) (url: string) (headers: "(string \<times> string) list") (body: json)

datatype http_result =
    Timeout
  | RequestException string
  | JSONDecodeError string
  | OtherException string
  | Json json

text \<open>
  A commit of the SQLAlchemy session that the database refuses raises in one of two ways,
  each with the message of the database error. When the flush inside the commit fails, the
  session rolls its transaction back and expires every row. When the commit raises outside
  the flush, the rows stay loaded. Either way the session is left waiting for
  \<^verbatim>\<open>rollback()\<close>.
\<close>

datatype commit_failure =
    Flush_error string
  | Commit_error string

fun failure_message :: "commit_failure \<Rightarrow> string" where
  "failure_message (Flush_error m) = m"
| "failure_message (Commit_error m) = m"

datatype session_state =
    Active
  | Needs_rollback commit_failure

text \<open>
  \<open>commit_error E n\<close> is what the database does to a commit on a usable session when
  \<open>n\<close> calls of \<^verbatim>\<open>commit()\<close> came before it; \<open>pending_rollback_text\<close> is the text
  of the session's \<open>PendingRollbackError\<close>, which quotes the message of the failure it
  waits on.
\<close>

record env =
  base_url :: string
  transport :: "http_request list \<Rightarrow> http_request \<Rightarrow> http_result"
  commit_error :: "nat \<Rightarrow> commit_failure option"
  pending_rollback_text :: "string \<Rightarrow> string"
  utcnow :: "nat \<Rightarrow> datetime"
  str_other :: "json \<Rightarrow> string"

text \<open>
  The state the code acts on besides its arguments: the HTTP requests sent so far (oldest
  first), how many commits and rollbacks the session has been asked for, whether the session
  is usable or waits for a rollback, how often the clock was read, and the records of the
  logger of \<^verbatim>\<open>bulk_upload\<close> (level, message). The logger of
  \<^verbatim>\<open>quickbooks_api\<close> is another logger and is left out.
\<close>

record world =
  sent :: "http_request list"
  commits :: nat
  rollbacks :: nat
  session :: session_state
  clock_reads :: nat
  log :: "(string \<times> string) list"

definition logger :: "string \<Rightarrow> string \<Rightarrow> world \<Rightarrow> world" where
  "logger level msg w = w\<lparr>log := log w @ [(level, msg)]\<rparr>"

definition read_clock :: "env \<Rightarrow> world \<Rightarrow> datetime \<times> world" where
  "read_clock E w = (utcnow E (clock_reads w), w\<lparr>clock_reads := clock_reads w + 1\<rparr>)"

text \<open>
  \<^verbatim>\<open>str(v)\<close> as an f-string renders a value. A name in a payload of
  \<^verbatim>\<open>to_quickbooks_json\<close> is a string; the text Python gives a float or a container
  is a parameter.
\<close>

definition str_int :: "int \<Rightarrow> string" where
  "str_int i = (if i < 0 then ''-'' @ str_nat (nat (- i)) else str_nat (nat i))"

definition py_str :: "env \<Rightarrow> json \<Rightarrow> string" where
  "py_str E v = (case v of
       JStr s \<Rightarrow> s
     | JNull \<Rightarrow> ''None''
     | JBool b \<Rightarrow> (if b then ''True'' else ''False'')
     | JInt i \<Rightarrow> str_int i
     | _ \<Rightarrow> str_other E v)"

text \<open>Sequencing of steps that may raise.\<close>

definition and_then :: "py_exception + 'a \<Rightarrow> ('a \<Rightarrow> py_exception + 'b) \<Rightarrow> py_exception + 'b" where
  "and_then r f = (case r of Inl e \<Rightarrow> Inl e | Inr x \<Rightarrow> f x)"

text \<open>\<^verbatim>\<open>except Exception as e: raise Exception(f"<prefix>{str(e)}")\<close> around a body.\<close>

definition reraise :: "string \<Rightarrow> (py_exception + 'a) \<times> 's \<Rightarrow> (py_exception + 'a) \<times> 's" where
  "reraise prefix r = (case r of
       (Inl e, w) \<Rightarrow> (Inl (Exception (prefix @ str_exc e)), w)
     | (Inr x, w) \<Rightarrow> (Inr x, w))"

section \<open>quickbooks_api.py\<close>

definition upper_char :: "char \<Rightarrow> char" where
  "upper_char c = (let n = (of_char c :: nat) in if 97 \<le> n \<and> n \<le> 122 then char_of (n - 32) else c)"

definition upper :: "string \<Rightarrow> string" where
  "upper s = map upper_char s"

text \<open>The \<^verbatim>\<open>except\<close> clauses of \<^verbatim>\<open>_make_request\<close>, in their order.\<close>

definition request_outcome :: "string \<Rightarrow> http_result \<Rightarrow> py_exception + json" where
  "request_outcome endpoint r = (case r of
       Timeout \<Rightarrow> Inl (Exception (''Request timeout: '' @ endpoint))
     | RequestException m \<Rightarrow> Inl (Exception (''API request failed: '' @ m))
     | JSONDecodeError m \<Rightarrow> Inl (Exception (''Invalid JSON response: '' @ m))
     | OtherException m \<Rightarrow> Inl (Exception (''API error: '' @ m))
     | Json j \<Rightarrow> Inr j)"

text \<open>
  \<^verbatim>\<open>QuickBooksAPI._make_request\<close>, acting on the list of the requests sent so far;
  \<^verbatim>\<open>requests.get\<close> is given no body. The URL and the headers are named, to be referred
  to below.
\<close>

definition request_url :: "env \<Rightarrow> string \<Rightarrow> string \<Rightarrow> string" where
  "request_url E company_id endpoint =
     base_url E @ ''/'' @ ''v3'' @ ''/company/'' @ company_id @ ''/'' @ endpoint"

definition request_headers :: "string \<Rightarrow> (string \<times> string) list" where
  "request_headers access_token =
     [(''Authorization'', ''Bearer '' @ access_token),
      (''Accept'', ''application/json''),
      (''Content-Type'', ''application/json'')]"

definition make_request ::
  "env \<Rightarrow> string \<Rightarrow> string \<Rightarrow> string \<Rightarrow> string \<Rightarrow> json \<Rightarrow> http_request list
     \<Rightarrow> (py_exception + json) \<times> http_request list" where
  "make_request E method endpoint access_token company_id data s =
     (let url' = request_url E company_id endpoint;
          headers' = request_headers access_token;
          rq = (if upper method = ''GET'' then Some (Http_request ''GET'' url' headers' JNull)
                else if upper method = ''POST'' then Some (Http_request ''POST'' url' headers' data)
                else if upper method = ''PUT'' then Some (Http_request ''PUT'' url' headers' data)
                else None)
      in case rq of
           None \<Rightarrow> (Inl (Exception (''API error: '' @ ''Unsupported HTTP method: '' @ method)), s)
         | Some r \<Rightarrow> (request_outcome endpoint (transport E s r), s @ [r]))"

text \<open>\<^verbatim>\<open>QuickBooksAPI._get_or_create_customer\<close>\<close>

definition get_or_create_customer ::
  "env \<Rightarrow> json \<Rightarrow> string \<Rightarrow> string \<Rightarrow> http_request list
     \<Rightarrow> (py_exception + json) \<times> http_request list" where
  "get_or_create_customer E customer_name' access_token company_id s =
     reraise ''Customer operation failed: ''
      (case make_request E ''GET''
              (''query?query=SELECT * FROM Customer WHERE Name = '' @ quoted (py_str E customer_name'))
              access_token company_id JNull s of
         (Inl e, s1) \<Rightarrow> (Inl e, s1)
       | (Inr response, s1) \<Rightarrow>
          (case and_then (py_get response ''QueryResponse'' (JObj []))
                  (\<lambda>qr. py_get qr ''Customer'' (JArr [])) of
             Inl e \<Rightarrow> (Inl e, s1)
           | Inr customers \<Rightarrow>
               if py_truthy customers then (py_getitem0 customers, s1)
               else (case make_request E ''POST'' ''customer'' access_token company_id
                            (JObj [(''Name'', customer_name'), (''CompanyName'', customer_name')]) s1 of
                       (Inl e, s2) \<Rightarrow> (Inl e, s2)
                     | (Inr response', s2) \<Rightarrow> (py_getitem response' ''Customer'', s2))))"

text \<open>\<^verbatim>\<open>QuickBooksAPI._get_or_create_vendor\<close>\<close>

definition get_or_create_vendor ::
  "env \<Rightarrow> json \<Rightarrow> string \<Rightarrow> string \<Rightarrow> http_request list
     \<Rightarrow> (py_exception + json) \<times> http_request list" where
  "get_or_create_vendor E vendor_name' access_token company_id s =
     reraise ''Vendor operation failed: ''
      (case make_request E ''GET''
              (''query?query=SELECT * FROM Vendor WHERE Name = '' @ quoted (py_str E vendor_name'))
              access_token company_id JNull s of
         (Inl e, s1) \<Rightarrow> (Inl e, s1)
       | (Inr response, s1) \<Rightarrow>
          (case and_then (py_get response ''QueryResponse'' (JObj []))
                  (\<lambda>qr. py_get qr ''Vendor'' (JArr [])) of
             Inl e \<Rightarrow> (Inl e, s1)
           | Inr vendors \<Rightarrow>
               if py_truthy vendors then (py_getitem0 vendors, s1)
               else (case make_request E ''POST'' ''vendor'' access_token company_id
                            (JObj [(''Name'', vendor_name'), (''CompanyName'', vendor_name')]) s1 of
                       (Inl e, s2) \<Rightarrow> (Inl e, s2)
                     | (Inr response', s2) \<Rightarrow> (py_getitem response' ''Vendor'', s2))))"

text \<open>\<^verbatim>\<open>QuickBooksAPI._get_or_create_account\<close>\<close>

definition get_or_create_account ::
  "env \<Rightarrow> json \<Rightarrow> string \<Rightarrow> string \<Rightarrow> http_request list
     \<Rightarrow> (py_exception + json) \<times> http_request list" where
  "get_or_create_account E account_name access_token company_id s =
     reraise ''Account operation failed: ''
      (case make_request E ''GET''
              (''query?query=SELECT * FROM Account WHERE Name = '' @ quoted (py_str E account_name))
              access_token company_id JNull s of
         (Inl e, s1) \<Rightarrow> (Inl e, s1)
       | (Inr response, s1) \<Rightarrow>
          (case and_then (py_get response ''QueryResponse'' (JObj []))
                  (\<lambda>qr. py_get qr ''Account'' (JArr [])) of
             Inl e \<Rightarrow> (Inl e, s1)
           | Inr accounts \<Rightarrow>
               if py_truthy accounts then (py_getitem0 accounts, s1)
               else (case make_request E ''POST'' ''account'' access_token company_id
                            (JObj [(''Name'', account_name),
                                   (''AccountType'', JStr ''Expense''),
                                   (''AccountSubType'', JStr ''OtherMiscellaneousServiceCost'')]) s1 of
                       (Inl e, s2) \<Rightarrow> (Inl e, s2)
                     | (Inr response', s2) \<Rightarrow> (py_getitem response' ''Account'', s2))))"

text \<open>
  The two shapes of an answer that \<^verbatim>\<open>create_invoice\<close> and \<^verbatim>\<open>create_bill\<close>
  accept, for the type name \<open>typ\<close>, and the read of \<^verbatim>\<open>'Id'\<close> for the log line that
  follows.
\<close>

definition created_object :: "string \<Rightarrow> json \<Rightarrow> py_exception + json" where
  "created_object typ response =
     and_then
       (and_then (py_contains ''QueryResponse'' response) (\<lambda>has_envelope.
          if has_envelope
          then and_then (py_getitem response ''QueryResponse'') (\<lambda>qr. py_contains typ qr)
          else Inr False))
       (\<lambda>in_envelope.
          and_then
            (if in_envelope
             then and_then (py_getitem response ''QueryResponse'') (\<lambda>qr.
                    and_then (py_getitem qr typ) py_getitem0)
             else and_then (py_contains typ response) (\<lambda>direct.
                    if direct then py_getitem response typ
                    else Inl (Exception ''Unexpected response format from QuickBooks'')))
            (\<lambda>created. and_then (py_get created ''Id'' JNull) (\<lambda>_. Inr created)))"

text \<open>\<^verbatim>\<open>QuickBooksAPI.create_invoice\<close>\<close>

definition create_invoice ::
  "env \<Rightarrow> json \<Rightarrow> string \<Rightarrow> string \<Rightarrow> http_request list
     \<Rightarrow> (py_exception + json) \<times> http_request list" where
  "create_invoice E invoice_data access_token company_id s =
     reraise ''Invoice creation failed: ''
      (case and_then (py_get invoice_data ''DocNumber'' (JStr ''No doc number'')) (\<lambda>_.
              and_then (py_get invoice_data ''CustomerRef'' (JObj [])) (\<lambda>r. py_get r ''name'' JNull)) of
         Inl e \<Rightarrow> (Inl e, s)
       | Inr customer_name' \<Rightarrow>
          (case (if py_truthy customer_name'
                 then (case get_or_create_customer E customer_name' access_token company_id s of
                         (Inl e, s1) \<Rightarrow> (Inl e, s1)
                       | (Inr customer, s1) \<Rightarrow>
                           (and_then (py_getitem customer ''Id'') (\<lambda>i.
                              py_setitem invoice_data ''CustomerRef'' (JObj [(''value'', i)])), s1))
                 else (Inr invoice_data, s)) of
             (Inl e, s1) \<Rightarrow> (Inl e, s1)
           | (Inr invoice_data', s1) \<Rightarrow>
              (case make_request E ''POST'' ''invoice'' access_token company_id invoice_data' s1 of
                 (Inl e, s2) \<Rightarrow> (Inl e, s2)
               | (Inr response, s2) \<Rightarrow> (created_object ''Invoice'' response, s2))))"

text \<open>
  The loop of \<^verbatim>\<open>create_bill\<close> over the lines: a line with an
  \<^verbatim>\<open>AccountBasedExpenseLineDetail\<close> has its account resolved and its reference
  rewritten in place.
\<close>

fun resolve_lines ::
  "env \<Rightarrow> string \<Rightarrow> string \<Rightarrow> json list \<Rightarrow> http_request list
     \<Rightarrow> (py_exception + json list) \<times> http_request list" where
  "resolve_lines E access_token company_id [] s = (Inr [], s)"
| "resolve_lines E access_token company_id (line # rest) s =
     (case py_contains ''AccountBasedExpenseLineDetail'' line of
        Inl e \<Rightarrow> (Inl e, s)
      | Inr False \<Rightarrow>
          (case resolve_lines E access_token company_id rest s of
             (Inl e, s') \<Rightarrow> (Inl e, s')
           | (Inr rest', s') \<Rightarrow> (Inr (line # rest'), s'))
      | Inr True \<Rightarrow>
          (case and_then (py_getitem line ''AccountBasedExpenseLineDetail'') (\<lambda>d.
                  and_then (py_getitem d ''AccountRef'') (\<lambda>r. py_getitem r ''name'')) of
             Inl e \<Rightarrow> (Inl e, s)
           | Inr account_name \<Rightarrow>
              (case get_or_create_account E account_name access_token company_id s of
                 (Inl e, s1) \<Rightarrow> (Inl e, s1)
               | (Inr account, s1) \<Rightarrow>
                  (case and_then (py_getitem account ''Id'') (\<lambda>i.
                          and_then (py_getitem line ''AccountBasedExpenseLineDetail'') (\<lambda>d.
                            and_then (py_setitem d ''AccountRef'' (JObj [(''value'', i)])) (\<lambda>d'.
                              py_setitem line ''AccountBasedExpenseLineDetail'' d'))) of
                     Inl e \<Rightarrow> (Inl e, s1)
                   | Inr line' \<Rightarrow>
                      (case resolve_lines E access_token company_id rest s1 of
                         (Inl e, s') \<Rightarrow> (Inl e, s')
                       | (Inr rest', s') \<Rightarrow> (Inr (line' # rest'), s'))))))"

text \<open>
  The lines are rewritten inside the list that \<^verbatim>\<open>bill_data['Line']\<close> holds; the keys of
  a dict and the characters of a string, which the loop would also run over, are not
  containers of lines.
\<close>

definition store_lines :: "json \<Rightarrow> json \<Rightarrow> json list \<Rightarrow> json" where
  "store_lines bill_data lines_value lines' = (case (bill_data, lines_value) of
       (JObj kvs, JArr _) \<Rightarrow>
          if ''Line'' \<in> set (map fst kvs) then JObj (dict_set kvs ''Line'' (JArr lines')) else bill_data
     | _ \<Rightarrow> bill_data)"

text \<open>\<^verbatim>\<open>QuickBooksAPI.create_bill\<close>\<close>

definition create_bill ::
  "env \<Rightarrow> json \<Rightarrow> string \<Rightarrow> string \<Rightarrow> http_request list
     \<Rightarrow> (py_exception + json) \<times> http_request list" where
  "create_bill E bill_data access_token company_id s =
     reraise ''Bill creation failed: ''
      (case and_then (py_get bill_data ''DocNumber'' (JStr ''No doc number'')) (\<lambda>_.
              and_then (py_get bill_data ''VendorRef'' (JObj [])) (\<lambda>r. py_get r ''name'' JNull)) of
         Inl e \<Rightarrow> (Inl e, s)
       | Inr vendor_name' \<Rightarrow>
          (case (if py_truthy vendor_name'
                 then (case get_or_create_vendor E vendor_name' access_token company_id s of
                         (Inl e, s1) \<Rightarrow> (Inl e, s1)
                       | (Inr vendor, s1) \<Rightarrow>
                           (and_then (py_getitem vendor ''Id'') (\<lambda>i.
                              py_setitem bill_data ''VendorRef'' (JObj [(''value'', i)])), s1))
                 else (Inr bill_data, s)) of
             (Inl e, s1) \<Rightarrow> (Inl e, s1)
           | (Inr bill_data', s1) \<Rightarrow>
              (case and_then (py_get bill_data' ''Line'' (JArr [])) (\<lambda>lines_value.
                      and_then (py_iter lines_value) (\<lambda>ls. Inr (lines_value, ls))) of
                 Inl e \<Rightarrow> (Inl e, s1)
               | Inr (lines_value, ls) \<Rightarrow>
                  (case resolve_lines E access_token company_id ls s1 of
                     (Inl e, s2) \<Rightarrow> (Inl e, s2)
                   | (Inr lines', s2) \<Rightarrow>
                      (case make_request E ''POST'' ''bill'' access_token company_id
                              (store_lines bill_data' lines_value lines') s2 of
                         (Inl e, s3) \<Rightarrow> (Inl e, s3)
                       | (Inr response, s3) \<Rightarrow> (created_object ''Bill'' response, s3))))))"

section \<open>bulk_upload.py\<close>

text \<open>
  The per-variant \<^verbatim>\<open>result\<close> dict, the \<^verbatim>\<open>summary\<close> and the report of
  \<^verbatim>\<open>upload_all\<close>, with the keys of the source as fields; each entry of
  \<^verbatim>\<open>details\<close> is the dict the code appends.
\<close>

record upload_result =
  total :: nat
  successful :: nat
  failed :: nat
  details :: "json list"

record upload_summary =
  total_processed :: nat
  total_successful :: nat
  total_failed :: nat
  upload_timestamp :: datetime

record upload_report =
  invoices :: upload_result
  bills :: upload_result
  summary :: upload_summary

text \<open>
  \<^verbatim>\<open>db.session.commit()\<close>. On a usable session the environment says whether the
  database takes the commit; a refused commit raises and leaves the session waiting for a
  rollback. A session that waits for a rollback refuses every commit with
  \<open>PendingRollbackError\<close>, whatever the database would say.
\<close>

definition session_commit :: "env \<Rightarrow> world \<Rightarrow> py_exception option \<times> world" where
  "session_commit E w = (case session w of
       Active \<Rightarrow>
         (case commit_error E (commits w) of
            None \<Rightarrow> (None, w\<lparr>commits := commits w + 1\<rparr>)
          | Some f \<Rightarrow> (Some (Exception (failure_message f)),
                       w\<lparr>commits := commits w + 1, session := Needs_rollback f\<rparr>))
     | Needs_rollback f \<Rightarrow>
         (Some (PendingRollbackError (pending_rollback_text E (failure_message f))),
          w\<lparr>commits := commits w + 1\<rparr>))"

text \<open>
  Reading an attribute of a row, such as \<^verbatim>\<open>invoice.invoice_number\<close>. A row that a
  failed flush has expired is loaded again at the next read, and the session raises
  \<open>PendingRollbackError\<close> instead as long as it waits for the rollback.
\<close>

definition row_read :: "env \<Rightarrow> world \<Rightarrow> py_exception option" where
  "row_read E w = (case session w of
       Needs_rollback (Flush_error m) \<Rightarrow> Some (PendingRollbackError (pending_rollback_text E m))
     | _ \<Rightarrow> None)"

text \<open>
  \<^verbatim>\<open>db.session.rollback()\<close> makes the session usable again. It also discards what has
  been assigned to the rows since the last commit: that part is written where the rollback
  is called, on the document at hand.
\<close>

definition session_rollback :: "world \<Rightarrow> world" where
  "session_rollback w = w\<lparr>rollbacks := rollbacks w + 1, session := Active\<rparr>"

text \<open>
  The \<^verbatim>\<open>try\<close> block of the loop body of \<^verbatim>\<open>_upload_invoices\<close>. It gives the
  exception raised, if any, and the invoice, the result and the world as they are when the
  block is left: the handler starts from there. \<^verbatim>\<open>invoice.to_quickbooks_json()\<close> is the
  first read of the row.
\<close>

definition upload_invoices_try ::
  "env \<Rightarrow> string \<Rightarrow> string \<Rightarrow> invoice \<Rightarrow> upload_result \<Rightarrow> world
     \<Rightarrow> py_exception option \<times> invoice \<times> upload_result \<times> world" where
  "upload_invoices_try E access_token company_id iv result w =
     (case (case row_read E w of Some e \<Rightarrow> Inl e | None \<Rightarrow> Invoice_to_quickbooks_json iv) of
        Inl e \<Rightarrow> (Some e, iv, result, w)
      | Inr qb_invoice_data \<Rightarrow>
         (case create_invoice E qb_invoice_data access_token company_id (sent w) of
            (Inl e, s1) \<Rightarrow> (Some e, iv, result, w\<lparr>sent := s1\<rparr>)
          | (Inr qb_response, s1) \<Rightarrow>
             (case py_get qb_response ''Id'' JNull of
                Inl e \<Rightarrow> (Some e, iv, result, w\<lparr>sent := s1\<rparr>)
              | Inr qid \<Rightarrow>
                 (case read_clock E (w\<lparr>sent := s1\<rparr>) of (now, w2) \<Rightarrow>
                    (let iv' = iv\<lparr>quickbooks_id := qid, uploaded_at := Some now,
                                     upload_error := None\<rparr>;
                         result1 = result\<lparr>successful := successful result + 1\<rparr>
                     in case py_float (amount iv') of
                          Inl e \<Rightarrow> (Some e, iv', result1, w2)
                        | Inr amt \<Rightarrow>
                           (None, iv',
                            result1\<lparr>details := details result1 @ [JObj [
                               (''id'', JInt (row_id iv')),
                               (''invoice_number'', JStr (invoice_number iv')),
                               (''customer_name'', JStr (customer_name iv')),
                               (''amount'', amt),
                               (''status'', JStr ''success''),
                               (''quickbooks_id'', quickbooks_id iv'),
                               (''message'', JStr ''Successfully uploaded to QuickBooks'')]]\<rparr>,
                            logger ''INFO''
                              (''Successfully uploaded invoice '' @ invoice_number iv') w2))))))"

text \<open>
  The \<^verbatim>\<open>except Exception as e\<close> block of the same loop body. Its log line is the first
  read of the row.
\<close>

definition upload_invoices_except ::
  "env \<Rightarrow> py_exception \<Rightarrow> invoice \<Rightarrow> upload_result \<Rightarrow> world
     \<Rightarrow> py_exception option \<times> invoice \<times> upload_result \<times> world" where
  "upload_invoices_except E e iv result w =
     (let error_message = str_exc e
      in case row_read E w of
           Some e' \<Rightarrow> (Some e', iv, result, w)
         | None \<Rightarrow>
     (let w1 = logger ''ERROR''
                 (''Failed to upload invoice '' @ invoice_number iv @ '': '' @ error_message) w;
          iv' = iv\<lparr>upload_error := Some error_message\<rparr>;
          result1 = result\<lparr>failed := failed result + 1\<rparr>
      in case py_float (amount iv') of
           Inl e' \<Rightarrow> (Some e', iv', result1, w1)
         | Inr amt \<Rightarrow>
            (None, iv',
             result1\<lparr>details := details result1 @ [JObj [
                (''id'', JInt (row_id iv')),
                (''invoice_number'', JStr (invoice_number iv')),
                (''customer_name'', JStr (customer_name iv')),
                (''amount'', amt),
                (''status'', JStr ''failed''),
                (''quickbooks_id'', JNull),
                (''message'', JStr error_message),
                (''error'', JStr error_message)]]\<rparr>,
             w1)))"

text \<open>
  The commit after each invoice, in its own \<^verbatim>\<open>try\<close>; \<open>before\<close> is the invoice as
  the pass found it. The rows of a batch are the result of a query and every pass ends in a
  commit or a rollback, so at the start of a pass the row is what the database has. When the
  commit raises, the handler first formats its log line, which reads
  \<^verbatim>\<open>invoice.invoice_number\<close>: on a row that the failed flush has expired this read
  raises, the exception leaves the handler and \<^verbatim>\<open>rollback()\<close> is not reached. Otherwise
  the line is logged and the rollback discards what the pass has assigned. In both cases
  the database has taken nothing, and the invoice that is given back is the row as the
  database has it.
\<close>

definition commit_invoice ::
  "env \<Rightarrow> invoice \<Rightarrow> invoice \<Rightarrow> world \<Rightarrow> py_exception option \<times> invoice \<times> world" where
  "commit_invoice E before iv w = (case session_commit E w of
       (None, w1) \<Rightarrow> (None, iv, w1)
     | (Some e, w1) \<Rightarrow>
         (case row_read E w1 of
            Some e' \<Rightarrow> (Some e', before, w1)
          | None \<Rightarrow>
             (None, before,
              session_rollback (logger ''ERROR''
                (''Database commit error for invoice '' @ invoice_number iv @ '': '' @ str_exc e) w1))))"

text \<open>
  One pass of the loop body. An exception that leaves the handler of the attempt leaves the
  loop, and the commit of that pass is not reached; so does an exception that leaves the
  handler of the commit.
\<close>

definition upload_invoices_body ::
  "env \<Rightarrow> string \<Rightarrow> string \<Rightarrow> invoice \<Rightarrow> upload_result \<Rightarrow> world
     \<Rightarrow> py_exception option \<times> invoice \<times> upload_result \<times> world" where
  "upload_invoices_body E access_token company_id iv result w =
     (case (case upload_invoices_try E access_token company_id iv result w of
              (None, iv1, result1, w1) \<Rightarrow> (None, iv1, result1, w1)
            | (Some e, iv1, result1, w1) \<Rightarrow> upload_invoices_except E e iv1 result1 w1) of
        (Some e', iv2, result2, w2) \<Rightarrow> (Some e', iv2, result2, w2)
      | (None, iv2, result2, w2) \<Rightarrow>
         (case commit_invoice E iv iv2 w2 of (x, iv3, w3) \<Rightarrow> (x, iv3, result2, w3)))"

fun upload_invoices_loop ::
  "env \<Rightarrow> string \<Rightarrow> string \<Rightarrow> invoice list \<Rightarrow> upload_result \<Rightarrow> world
     \<Rightarrow> py_exception option \<times> invoice list \<times> upload_result \<times> world" where
  "upload_invoices_loop E access_token company_id [] result w = (None, [], result, w)"
| "upload_invoices_loop E access_token company_id (iv # rest) result w =
     (case upload_invoices_body E access_token company_id iv result w of
        (Some e, iv', result', w') \<Rightarrow> (Some e, iv' # rest, result', w')
      | (None, iv', result', w') \<Rightarrow>
         (case upload_invoices_loop E access_token company_id rest result' w' of
            (r, rest', result'', w'') \<Rightarrow> (r, iv' # rest', result'', w'')))"

text \<open>
  \<^verbatim>\<open>BulkUploader._upload_invoices\<close>: the result or the exception that left the loop, the
  invoices as the call leaves them, the world.
\<close>

definition upload_invoices ::
  "env \<Rightarrow> invoice list \<Rightarrow> string \<Rightarrow> string \<Rightarrow> world
     \<Rightarrow> (py_exception + upload_result) \<times> invoice list \<times> world" where
  "upload_invoices E invs access_token company_id w =
     (case upload_invoices_loop E access_token company_id invs
             \<lparr>total = length invs, successful = 0, failed = 0, details = []\<rparr> w of
        (None, invs', result, w') \<Rightarrow> (Inr result, invs', w')
      | (Some e, invs', result, w') \<Rightarrow> (Inl e, invs', w'))"

text \<open>The same for bills: \<^verbatim>\<open>BulkUploader._upload_bills\<close>.\<close>

definition upload_bills_try ::
  "env \<Rightarrow> string \<Rightarrow> string \<Rightarrow> bill \<Rightarrow> upload_result \<Rightarrow> world
     \<Rightarrow> py_exception option \<times> bill \<times> upload_result \<times> world" where
  "upload_bills_try E access_token company_id bl result w =
     (case (case row_read E w of Some e \<Rightarrow> Inl e | None \<Rightarrow> Bill_to_quickbooks_json bl) of
        Inl e \<Rightarrow> (Some e, bl, result, w)
      | Inr qb_bill_data \<Rightarrow>
         (case create_bill E qb_bill_data access_token company_id (sent w) of
            (Inl e, s1) \<Rightarrow> (Some e, bl, result, w\<lparr>sent := s1\<rparr>)
          | (Inr qb_response, s1) \<Rightarrow>
             (case py_get qb_response ''Id'' JNull of
                Inl e \<Rightarrow> (Some e, bl, result, w\<lparr>sent := s1\<rparr>)
              | Inr qid \<Rightarrow>
                 (case read_clock E (w\<lparr>sent := s1\<rparr>) of (now, w2) \<Rightarrow>
                    (let bl' = bl\<lparr>quickbooks_id := qid, uploaded_at := Some now,
                                   upload_error := None\<rparr>;
                         result1 = result\<lparr>successful := successful result + 1\<rparr>
                     in case py_float (amount bl') of
                          Inl e \<Rightarrow> (Some e, bl', result1, w2)
                        | Inr amt \<Rightarrow>
                           (None, bl',
                            result1\<lparr>details := details result1 @ [JObj [
                               (''id'', JInt (row_id bl')),
                               (''bill_number'', JStr (bill_number bl')),
                               (''vendor_name'', JStr (vendor_name bl')),
                               (''amount'', amt),
                               (''status'', JStr ''success''),
                               (''quickbooks_id'', quickbooks_id bl'),
                               (''message'', JStr ''Successfully uploaded to QuickBooks'')]]\<rparr>,
                            logger ''INFO''
                              (''Successfully uploaded bill '' @ bill_number bl') w2))))))"

definition upload_bills_except ::
  "env \<Rightarrow> py_exception \<Rightarrow> bill \<Rightarrow> upload_result \<Rightarrow> world
     \<Rightarrow> py_exception option \<times> bill \<times> upload_result \<times> world" where
  "upload_bills_except E e bl result w =
     (let error_message = str_exc e
      in case row_read E w of
           Some e' \<Rightarrow> (Some e', bl, result, w)
         | None \<Rightarrow>
     (let w1 = logger ''ERROR''
                 (''Failed to upload bill '' @ bill_number bl @ '': '' @ error_message) w;
          bl' = bl\<lparr>upload_error := Some error_message\<rparr>;
          result1 = result\<lparr>failed := failed result + 1\<rparr>
      in case py_float (amount bl') of
           Inl e' \<Rightarrow> (Some e', bl', result1, w1)
         | Inr amt \<Rightarrow>
            (None, bl',
             result1\<lparr>details := details result1 @ [JObj [
                (''id'', JInt (row_id bl')),
                (''bill_number'', JStr (bill_number bl')),
                (''vendor_name'', JStr (vendor_name bl')),
                (''amount'', amt),
                (''status'', JStr ''failed''),
                (''quickbooks_id'', JNull),
                (''message'', JStr error_message),
                (''error'', JStr error_message)]]\<rparr>,
             w1)))"

definition commit_bill ::
  "env \<Rightarrow> bill \<Rightarrow> bill \<Rightarrow> world \<Rightarrow> py_exception option \<times> bill \<times> world" where
  "commit_bill E before bl w = (case session_commit E w of
       (None, w1) \<Rightarrow> (None, bl, w1)
     | (Some e, w1) \<Rightarrow>
         (case row_read E w1 of
            Some e' \<Rightarrow> (Some e', before, w1)
          | None \<Rightarrow>
             (None, before,
              session_rollback (logger ''ERROR''
                (''Database commit error for bill '' @ bill_number bl @ '': '' @ str_exc e) w1))))"

definition upload_bills_body ::
  "env \<Rightarrow> string \<Rightarrow> string \<Rightarrow> bill \<Rightarrow> upload_result \<Rightarrow> world
     \<Rightarrow> py_exception option \<times> bill \<times> upload_result \<times> world" where
  "upload_bills_body E access_token company_id bl result w =
     (case (case upload_bills_try E access_token company_id bl result w of
              (None, bl1, result1, w1) \<Rightarrow> (None, bl1, result1, w1)
            | (Some e, bl1, result1, w1) \<Rightarrow> upload_bills_except E e bl1 result1 w1) of
        (Some e', bl2, result2, w2) \<Rightarrow> (Some e', bl2, result2, w2)
      | (None, bl2, result2, w2) \<Rightarrow>
         (case commit_bill E bl bl2 w2 of (x, bl3, w3) \<Rightarrow> (x, bl3, result2, w3)))"

fun upload_bills_loop ::
  "env \<Rightarrow> string \<Rightarrow> string \<Rightarrow> bill list \<Rightarrow> upload_result \<Rightarrow> world
     \<Rightarrow> py_exception option \<times> bill list \<times> upload_result \<times> world" where
  "upload_bills_loop E access_token company_id [] result w = (None, [], result, w)"
| "upload_bills_loop E access_token company_id (bl # rest) result w =
     (case upload_bills_body E access_token company_id bl result w of
        (Some e, bl', result', w') \<Rightarrow> (Some e, bl' # rest, result', w')
      | (None, bl', result', w') \<Rightarrow>
         (case upload_bills_loop E access_token company_id rest result' w' of
            (r, rest', result'', w'') \<Rightarrow> (r, bl' # rest', result'', w'')))"

definition upload_bills ::
  "env \<Rightarrow> bill list \<Rightarrow> string \<Rightarrow> string \<Rightarrow> world
     \<Rightarrow> (py_exception + upload_result) \<times> bill list \<times> world" where
  "upload_bills E bls access_token company_id w =
     (case upload_bills_loop E access_token company_id bls
             \<lparr>total = length bls, successful = 0, failed = 0, details = []\<rparr> w of
        (None, bls', result, w') \<Rightarrow> (Inr result, bls', w')
      | (Some e, bls', result, w') \<Rightarrow> (Inl e, bls', w'))"

text \<open>
  \<^verbatim>\<open>BulkUploader.upload_all\<close>: the report or the exception that escaped, both lists as
  the call leaves them, the world.
\<close>

definition upload_all ::
  "env \<Rightarrow> invoice list \<Rightarrow> bill list \<Rightarrow> string \<Rightarrow> string \<Rightarrow> world
     \<Rightarrow> (py_exception + upload_report) \<times> invoice list \<times> bill list \<times> world" where
  "upload_all E invs bls access_token company_id w =
     (case read_clock E w of (now, w0) \<Rightarrow>
       (let results = \<lparr>
              invoices = \<lparr>total = length invs, successful = 0, failed = 0, details = []\<rparr>,
              bills = \<lparr>total = length bls, successful = 0, failed = 0, details = []\<rparr>,
              summary = \<lparr>total_processed = length invs + length bls, total_successful = 0,
                         total_failed = 0, upload_timestamp = now\<rparr>\<rparr>
        in case (if invs \<noteq> []
                 then (case upload_invoices E invs access_token company_id
                              (logger ''INFO''
                                 (''Starting bulk upload of '' @ str_nat (length invs) @ '' invoices'') w0) of
                         (Inl e, invs', w1) \<Rightarrow> (Inl e, invs', w1)
                       | (Inr r, invs', w1) \<Rightarrow> (Inr (results\<lparr>invoices := r\<rparr>), invs', w1))
                 else (Inr results, invs, w0)) of
             (Inl e, invs', w1) \<Rightarrow> (Inl e, invs', bls, w1)
           | (Inr results1, invs', w1) \<Rightarrow>
              (case (if bls \<noteq> []
                     then (case upload_bills E bls access_token company_id
                                  (logger ''INFO''
                                     (''Starting bulk upload of '' @ str_nat (length bls) @ '' bills'') w1) of
                             (Inl e, bls', w2) \<Rightarrow> (Inl e, bls', w2)
                           | (Inr r, bls', w2) \<Rightarrow> (Inr (results1\<lparr>bills := r\<rparr>), bls', w2))
                     else (Inr results1, bls, w1)) of
                 (Inl e, bls', w2) \<Rightarrow> (Inl e, invs', bls', w2)
               | (Inr results2, bls', w2) \<Rightarrow>
                  (let results3 = results2\<lparr>summary := (summary results2)\<lparr>total_successful :=
                         successful (invoices results2) + successful (bills results2)\<rparr>\<rparr>;
                       results4 = results3\<lparr>summary := (summary results3)\<lparr>total_failed :=
                         failed (invoices results3) + failed (bills results3)\<rparr>\<rparr>
                   in (Inr results4, invs', bls',
                       logger ''INFO''
                         (''Bulk upload completed: ''
                            @ str_nat (total_successful (summary results4)) @ '' successful, ''
                            @ str_nat (total_failed (summary results4)) @ '' failed out of ''
                            @ str_nat (total_processed (summary results4)) @ '' total'') w2)))))"

text \<open>
  \<^verbatim>\<open>BulkUploader.upload_single_invoice\<close>. The commit is inside the \<^verbatim>\<open>try\<close> block
  here, and the commit of the handler is not guarded: an exception it raises leaves the
  function. After a commit that raised in the \<^verbatim>\<open>try\<close> block the session waits for a
  rollback, which the function never calls, so the commit of the handler raises too. When
  the function is left by an exception the database has taken nothing, and the invoice
  that is given back is the row as the database has it.
\<close>

definition upload_single_invoice ::
  "env \<Rightarrow> invoice \<Rightarrow> string \<Rightarrow> string \<Rightarrow> world \<Rightarrow> (py_exception + json) \<times> invoice \<times> world" where
  "upload_single_invoice E iv access_token company_id w =
     (case (case (case row_read E w of Some e \<Rightarrow> Inl e | None \<Rightarrow> Invoice_to_quickbooks_json iv) of
              Inl e \<Rightarrow> (Some e, iv, w)
            | Inr qb_invoice_data \<Rightarrow>
               (case create_invoice E qb_invoice_data access_token company_id (sent w) of
                  (Inl e, s1) \<Rightarrow> (Some e, iv, w\<lparr>sent := s1\<rparr>)
                | (Inr qb_response, s1) \<Rightarrow>
                   (case py_get qb_response ''Id'' JNull of
                      Inl e \<Rightarrow> (Some e, iv, w\<lparr>sent := s1\<rparr>)
                    | Inr qid \<Rightarrow>
                       (case read_clock E (w\<lparr>sent := s1\<rparr>) of (now, w2) \<Rightarrow>
                          (let iv' = iv\<lparr>quickbooks_id := qid, uploaded_at := Some now,
                                           upload_error := None\<rparr>
                           in case session_commit E w2 of
                                (Some e, w3) \<Rightarrow> (Some e, iv', w3)
                              | (None, w3) \<Rightarrow> (None, iv', w3)))))) of
        (None, iv', w') \<Rightarrow>
          (Inr (JObj [(''status'', JStr ''success''),
                      (''quickbooks_id'', quickbooks_id iv'),
                      (''message'', JStr ''Successfully uploaded to QuickBooks'')]), iv', w')
      | (Some e, iv', w') \<Rightarrow>
          (let error_message = str_exc e;
               iv'' = iv'\<lparr>upload_error := Some error_message\<rparr>
           in case session_commit E w' of
                (Some e', w'') \<Rightarrow> (Inl e', iv, w'')
              | (None, w'') \<Rightarrow>
                 (Inr (JObj [(''status'', JStr ''failed''),
                             (''error'', JStr error_message),
                             (''message'', JStr (''Upload failed: '' @ error_message))]),
                  iv'', w'')))"

text \<open>\<^verbatim>\<open>BulkUploader.upload_single_bill\<close>\<close>

definition upload_single_bill ::
  "env \<Rightarrow> bill \<Rightarrow> string \<Rightarrow> string \<Rightarrow> world \<Rightarrow> (py_exception + json) \<times> bill \<times> world" where
  "upload_single_bill E bl access_token company_id w =
     (case (case (case row_read E w of Some e \<Rightarrow> Inl e | None \<Rightarrow> Bill_to_quickbooks_json bl) of
              Inl e \<Rightarrow> (Some e, bl, w)
            | Inr qb_bill_data \<Rightarrow>
               (case create_bill E qb_bill_data access_token company_id (sent w) of
                  (Inl e, s1) \<Rightarrow> (Some e, bl, w\<lparr>sent := s1\<rparr>)
                | (Inr qb_response, s1) \<Rightarrow>
                   (case py_get qb_response ''Id'' JNull of
                      Inl e \<Rightarrow> (Some e, bl, w\<lparr>sent := s1\<rparr>)
                    | Inr qid \<Rightarrow>
                       (case read_clock E (w\<lparr>sent := s1\<rparr>) of (now, w2) \<Rightarrow>
                          (let bl' = bl\<lparr>quickbooks_id := qid, uploaded_at := Some now,
                                         upload_error := None\<rparr>
                           in case session_commit E w2 of
                                (Some e, w3) \<Rightarrow> (Some e, bl', w3)
                              | (None, w3) \<Rightarrow> (None, bl', w3)))))) of
        (None, bl', w') \<Rightarrow>
          (Inr (JObj [(''status'', JStr ''success''),
                      (''quickbooks_id'', quickbooks_id bl'),
                      (''message'', JStr ''Successfully uploaded to QuickBooks'')]), bl', w')
      | (Some e, bl', w') \<Rightarrow>
          (let error_message = str_exc e;
               bl'' = bl'\<lparr>upload_error := Some error_message\<rparr>
           in case session_commit E w' of
                (Some e', w'') \<Rightarrow> (Inl e', bl, w'')
              | (None, w'') \<Rightarrow>
                 (Inr (JObj [(''status'', JStr ''failed''),
                             (''error'', JStr error_message),
                             (''message'', JStr (''Upload failed: '' @ error_message))]),
                  bl'', w'')))"

text \<open>
  \<^verbatim>\<open>BulkUploader.get_upload_statistics\<close>, over the rows that the queries see.
  \<^verbatim>\<open>isnot(None)\<close> on \<open>quickbooks_id\<close> is \<open>\<noteq> JNull\<close>.
\<close>

definition get_upload_statistics :: "invoice list \<Rightarrow> bill list \<Rightarrow> json" where
  "get_upload_statistics invoice_rows bill_rows =
     (let total_invoices = int (length invoice_rows);
          uploaded_invoices = int (length (filter (\<lambda>r. quickbooks_id r \<noteq> JNull) invoice_rows));
          failed_invoices = int (length (filter (\<lambda>r. upload_error r \<noteq> None) invoice_rows));
          total_bills = int (length bill_rows);
          uploaded_bills = int (length (filter (\<lambda>r. quickbooks_id r \<noteq> JNull) bill_rows));
          failed_bills = int (length (filter (\<lambda>r. upload_error r \<noteq> None) bill_rows))
      in JObj [
           (''invoices'', JObj [
              (''total'', JInt total_invoices),
              (''uploaded'', JInt uploaded_invoices),
              (''pending'', JInt (total_invoices - uploaded_invoices)),
              (''failed'', JInt failed_invoices)]),
           (''bills'', JObj [
              (''total'', JInt total_bills),
              (''uploaded'', JInt uploaded_bills),
              (''pending'', JInt (total_bills - uploaded_bills)),
              (''failed'', JInt failed_bills)]),
           (''overall'', JObj [
              (''total'', JInt (total_invoices + total_bills)),
              (''uploaded'', JInt (uploaded_invoices + uploaded_bills)),
              (''pending'', JInt ((total_invoices - uploaded_invoices) + (total_bills - uploaded_bills))),
              (''failed'', JInt (failed_invoices + failed_bills))])])"

section \<open>Concrete inputs\<close>

text \<open>
  A remote platform that answers the \<open>n\<close>-th request with the \<open>n\<close>-th entry of a script
  and lets every later request time out; environments, documents and answers to run the
  code on.
\<close>

definition scripted :: "http_result list \<Rightarrow> http_request list \<Rightarrow> http_request \<Rightarrow> http_result" where
  "scripted rs hist rq = (if length hist < length rs then rs ! length hist else Timeout)"

definition never_fails :: "nat \<Rightarrow> commit_failure option" where
  "never_fails n = None"

definition flush_fails_first :: "nat \<Rightarrow> commit_failure option" where
  "flush_fails_first n = (if n = 0 then Some (Flush_error ''database is locked'') else None)"

definition commit_raises_first :: "nat \<Rightarrow> commit_failure option" where
  "commit_raises_first n = (if n = 0 then Some (Commit_error ''connection lost'') else None)"

definition example_pending :: "string \<Rightarrow> string" where
  "example_pending m = ''rollback pending after: '' @ m"

definition example_clock :: "nat \<Rightarrow> datetime" where
  "example_clock n = 1000 + n"

definition example_str :: "json \<Rightarrow> string" where
  "example_str v = ''?''"

definition example_env :: "http_result list \<Rightarrow> (nat \<Rightarrow> commit_failure option) \<Rightarrow> env" where
  "example_env rs ce = \<lparr>base_url = ''https://qb'', transport = scripted rs, commit_error = ce,
     pending_rollback_text = example_pending, utcnow = example_clock, str_other = example_str\<rparr>"

definition fresh_world :: world where
  "fresh_world = \<lparr>sent = [], commits = 0, rollbacks = 0, session = Active, clock_reads = 0,
     log = []\<rparr>"

definition invoice_acme :: invoice where
  "invoice_acme = \<lparr>row_id = 1, due_date = None, line_description = ''work'', amount = Some 100,
     quickbooks_id = JNull, upload_error = None, uploaded_at = None, customer_name = ''Acme'',
     invoice_date = Some (Date 2024 3 7), invoice_number = ''INV-1'', tax_code = None\<rparr>"

definition bill_rent :: bill where
  "bill_rent = \<lparr>row_id = 1, due_date = Some (Date 2024 4 1), line_description = ''rent'',
     amount = Some 50, quickbooks_id = JNull, upload_error = None, uploaded_at = None,
     vendor_name = ''Landlord'', bill_date = Some (Date 2024 3 7), bill_number = ''B-1'',
     expense_account = ''Rent''\<rparr>"

definition env_offline :: env where
  "env_offline = example_env [] never_fails"

definition found_customer :: http_result where
  "found_customer = Json (JObj [(''QueryResponse'', JObj [(''Customer'',
     JArr [JObj [(''Id'', JStr ''7''), (''Name'', JStr ''Acme'')]])])])"

definition created_invoice_101 :: http_result where
  "created_invoice_101 = Json (JObj [(''Invoice'', JObj [(''Id'', JStr ''101'')])])"

definition created_invoice_no_id :: http_result where
  "created_invoice_no_id = Json (JObj [(''Invoice'', JObj [(''DocNumber'', JStr ''INV-1'')])])"

definition payload_acme :: json where
  "payload_acme = JObj [
     (''Line'', JArr [JObj [
        (''Amount'', JFloat 100),
        (''DetailType'', JStr ''SalesItemLineDetail''),
        (''SalesItemLineDetail'', JObj [
           (''ItemRef'', JObj [(''value'', JStr ''1''), (''name'', JStr ''Services'')]),
           (''TaxCodeRef'', JObj [(''value'', JStr ''NON'')])]),
        (''Description'', JStr ''work'')]]),
     (''CustomerRef'', JObj [(''name'', JStr ''Acme'')]),
     (''DocNumber'', JStr ''INV-1''),
     (''TxnDate'', JStr ''2024-03-07''),
     (''DueDate'', JNull)]"

definition env_no_id :: env where
  "env_no_id = example_env [found_customer, created_invoice_no_id] never_fails"

definition env_flush_fails :: env where
  "env_flush_fails = example_env [found_customer, created_invoice_101] flush_fails_first"

definition env_commit_raises :: env where
  "env_commit_raises = example_env [found_customer, created_invoice_101] commit_raises_first"

definition env_retry :: env where
  "env_retry = example_env [found_customer, created_invoice_101] never_fails"



definition found_vendor :: http_result where
  "found_vendor = Json (JObj [(''QueryResponse'', JObj [(''Vendor'',
     JArr [JObj [(''Id'', JStr ''9''), (''Name'', JStr ''Landlord'')]])])])"

definition found_account :: http_result where
  "found_account = Json (JObj [(''QueryResponse'', JObj [(''Account'',
     JArr [JObj [(''Id'', JStr ''33''), (''Name'', JStr ''Rent'')]])])])"

definition created_bill_55 :: http_result where
  "created_bill_55 = Json (JObj [(''Bill'', JObj [(''Id'', JStr ''55'')])])"

definition env_bill :: env where
  "env_bill = example_env [found_vendor, found_account, created_bill_55] never_fails"

definition success_branch :: "'a document_scheme \<Rightarrow> 'a document_scheme \<Rightarrow> json \<Rightarrow> datetime \<Rightarrow> bool" where
  "success_branch before after remote_id now =
     (after = before\<lparr>quickbooks_id := remote_id, uploaded_at := Some now, upload_error := None\<rparr>)"

definition failure_branch :: "'a document_scheme \<Rightarrow> 'a document_scheme \<Rightarrow> string \<Rightarrow> bool" where
  "failure_branch before after msg = (after = before\<lparr>upload_error := Some msg\<rparr>)"

text \<open>\<^verbatim>\<open>create_invoice(invoice.to_quickbooks_json(), ...).get('Id')\<close>, the value an attempt reads.\<close>

definition invoice_remote_id :: "env \<Rightarrow> invoice \<Rightarrow> string \<Rightarrow> string \<Rightarrow> world \<Rightarrow> py_exception + json" where
  "invoice_remote_id E iv access_token company_id w =
     and_then (Invoice_to_quickbooks_json iv) (\<lambda>payload.
       and_then (fst (create_invoice E payload access_token company_id (sent w)))
         (\<lambda>qb_response. py_get qb_response ''Id'' JNull))"

definition bill_remote_id :: "env \<Rightarrow> bill \<Rightarrow> string \<Rightarrow> string \<Rightarrow> world \<Rightarrow> py_exception + json" where
  "bill_remote_id E bl access_token company_id w =
     and_then (Bill_to_quickbooks_json bl) (\<lambda>payload.
       and_then (fst (create_bill E payload access_token company_id (sent w)))
         (\<lambda>qb_response. py_get qb_response ''Id'' JNull))"


text \<open>
  The two requests of a resolution as they go on the wire, and
  \<^verbatim>\<open>response.get('QueryResponse', {}).get(kind, [])\<close>, the matches of a lookup.
\<close>

definition lookup_request :: "env \<Rightarrow> string \<Rightarrow> json \<Rightarrow> string \<Rightarrow> string \<Rightarrow> http_request" where
  "lookup_request E kind name access_token company_id =
     Http_request ''GET''
       (request_url E company_id
          (''query?query=SELECT * FROM '' @ kind @ '' WHERE Name = '' @ quoted (py_str E name)))
       (request_headers access_token) JNull"

definition create_request :: "env \<Rightarrow> string \<Rightarrow> json \<Rightarrow> string \<Rightarrow> string \<Rightarrow> http_request" where
  "create_request E endpoint data access_token company_id =
     Http_request ''POST'' (request_url E company_id endpoint) (request_headers access_token) data"

definition query_matches :: "string \<Rightarrow> json \<Rightarrow> py_exception + json" where
  "query_matches kind response =
     and_then (py_get response ''QueryResponse'' (JObj [])) (\<lambda>qr. py_get qr kind (JArr []))"

definition no_match :: http_result where
  "no_match = Json (JObj [(''QueryResponse'', JObj [])])"

definition created_vendor :: http_result where
  "created_vendor = Json (JObj [(''Vendor'', JObj [(''Id'', JStr ''9''), (''Name'', JStr ''Landlord'')])])"

definition created_account :: http_result where
  "created_account = Json (JObj [(''Account'', JObj [(''Id'', JStr ''33''), (''Name'', JStr ''Rent'')])])"

definition env_create_account :: env where
  "env_create_account = example_env [no_match, created_account] never_fails"

definition env_found :: env where
  "env_found = example_env [found_customer] never_fails"

definition env_create :: env where
  "env_create = example_env [no_match, created_vendor] never_fails"


section \<open>Properties\<close>

subsection \<open>Counting\<close>

lemma py_float_Some [simp]: "py_float (Some a) = Inr (JFloat a)"
  by (simp add: py_float_def)

lemma row_read_Active [simp]: "session w = Active \<Longrightarrow> row_read E w = None"
  by (simp add: row_read_def)

lemma upload_invoices_try_present:
  assumes "amount iv = Some a"
  shows "\<exists>x iv' r' w'. upload_invoices_try E tok cid iv result w = (x, iv', r', w') \<and>
     amount iv' = Some a \<and> total r' = total result \<and> session w' = session w \<and> commits w' = commits w \<and>
     (case x of
        None \<Rightarrow> successful r' = Suc (successful result) \<and> failed r' = failed result
                  \<and> length (details r') = Suc (length (details result))
      | Some e \<Rightarrow> r' = result \<and> iv' = iv)"
  using assms
  by (auto simp: upload_invoices_try_def Invoice_to_quickbooks_json_def read_clock_def logger_def Let_def
           split: sum.splits prod.splits option.splits)

lemma upload_invoices_except_present:
  assumes "amount iv = Some a" and "row_read E w = None"
  shows "\<exists>iv' r' w'. upload_invoices_except E e iv result w = (None, iv', r', w') \<and>
     total r' = total result \<and> session w' = session w \<and> commits w' = commits w \<and>
     successful r' = successful result \<and> failed r' = Suc (failed result)
     \<and> length (details r') = Suc (length (details result))"
  using assms by (simp add: upload_invoices_except_def logger_def Let_def)

lemma upload_invoices_try_session:
  "upload_invoices_try E tok cid iv result w = (x, iv', r', w') \<Longrightarrow>
   session w' = session w \<and> commits w' = commits w"
  by (auto simp: upload_invoices_try_def read_clock_def logger_def Let_def
           split: sum.splits prod.splits option.splits)

lemma upload_invoices_except_session:
  "upload_invoices_except E e iv result w = (x, iv', r', w') \<Longrightarrow>
   session w' = session w \<and> commits w' = commits w"
  by (auto simp: upload_invoices_except_def logger_def Let_def split: sum.splits option.splits)

lemma commit_invoice_None:
  "commit_invoice E b iv w = (None, iv', w') \<Longrightarrow> session w' = Active"
  by (auto simp: commit_invoice_def session_commit_def session_rollback_def logger_def row_read_def
           split: session_state.splits option.splits commit_failure.splits)

lemma commit_invoice_no_flush_error:
  assumes "session w = Active" and "\<forall>m. commit_error E (commits w) \<noteq> Some (Flush_error m)"
  shows "\<exists>iv' w'. commit_invoice E b iv w = (None, iv', w') \<and> session w' = Active"
proof (cases "commit_error E (commits w)")
  case None
  with assms(1) show ?thesis by (simp add: commit_invoice_def session_commit_def)
next
  case (Some f)
  with assms(2) obtain m where "f = Commit_error m" by (cases f) auto
  with Some assms(1) show ?thesis
    by (simp add: commit_invoice_def session_commit_def row_read_def session_rollback_def logger_def)
qed

lemma upload_invoices_body_counts:
  assumes "upload_invoices_body E tok cid iv result w = (None, iv', r', w')"
  shows "total r' = total result \<and> successful r' + failed r' = Suc (successful result + failed result)
     \<and> length (details r') = Suc (length (details result)) \<and> session w' = Active"
proof -
  obtain x iv1 r1 w1 where t: "upload_invoices_try E tok cid iv result w = (x, iv1, r1, w1)"
    by (cases "upload_invoices_try E tok cid iv result w") auto
  show ?thesis
  proof (cases "amount iv")
    case None
    then have j: "Invoice_to_quickbooks_json iv = Inl (TypeError (''float() argument must be a string or a real number, not ''
                 @ quoted ''NoneType''))"
      by (simp add: Invoice_to_quickbooks_json_def py_float_def)
    from None j assms show ?thesis
      by (auto simp: upload_invoices_body_def upload_invoices_try_def upload_invoices_except_def Let_def py_float_def
               split: option.splits)
  next
    case (Some a)
    from upload_invoices_try_present [OF Some, where E=E and tok=tok and cid=cid and result=result and w=w] t
    have a1: "amount iv1 = Some a" and tot: "total r1 = total result"
      and c: "case x of
        None \<Rightarrow> successful r1 = Suc (successful result) \<and> failed r1 = failed result
                  \<and> length (details r1) = Suc (length (details result))
      | Some e \<Rightarrow> r1 = result \<and> iv1 = iv" by auto
    show ?thesis
    proof (cases x)
      case None
      with t assms c tot show ?thesis
        by (auto simp: upload_invoices_body_def split: prod.splits dest: commit_invoice_None)
    next
      case (Some e)
      show ?thesis
      proof (cases "row_read E w1")
        case None
        from upload_invoices_except_present [OF a1 None, where e=e and result=r1]
        obtain iv2 r2 w2 where x: "upload_invoices_except E e iv1 r1 w1 = (None, iv2, r2, w2)"
          and "total r2 = total r1" and "successful r2 = successful r1" and "failed r2 = Suc (failed r1)"
          and "length (details r2) = Suc (length (details r1))" by blast
        with Some t assms c tot show ?thesis
          by (auto simp: upload_invoices_body_def split: prod.splits dest: commit_invoice_None)
      next
        case (Some e')
        with \<open>x = Some e\<close> t assms show ?thesis
          by (simp add: upload_invoices_body_def upload_invoices_except_def)
      qed
    qed
  qed
qed

lemma upload_invoices_body_present:
  assumes "amount iv = Some a" and "session w = Active"
    and "\<forall>n m. commit_error E n \<noteq> Some (Flush_error m)"
  shows "\<exists>iv' r' w'. upload_invoices_body E tok cid iv result w = (None, iv', r', w')"
proof -
  obtain x iv1 r1 w1 where t: "upload_invoices_try E tok cid iv result w = (x, iv1, r1, w1)"
    by (cases "upload_invoices_try E tok cid iv result w") auto
  from upload_invoices_try_present [OF assms(1), where E=E and tok=tok and cid=cid and result=result and w=w] t
  have a1: "amount iv1 = Some a" and s1: "session w1 = session w" by auto
  have "\<exists>iv2 r2 w2. (case upload_invoices_try E tok cid iv result w of
              (None, iv1, result1, w1) \<Rightarrow> (None, iv1, result1, w1)
            | (Some e, iv1, result1, w1) \<Rightarrow> upload_invoices_except E e iv1 result1 w1) = (None, iv2, r2, w2)
          \<and> session w2 = Active"
  proof (cases x)
    case None
    with t s1 assms(2) show ?thesis by simp
  next
    case (Some e)
    from s1 assms(2) have "row_read E w1 = None" by simp
    from upload_invoices_except_present [OF a1 this, where e=e and result=r1] Some t s1 assms(2)
    show ?thesis by auto
  qed
  then obtain iv2 r2 w2 where m: "(case upload_invoices_try E tok cid iv result w of
              (None, iv1, result1, w1) \<Rightarrow> (None, iv1, result1, w1)
            | (Some e, iv1, result1, w1) \<Rightarrow> upload_invoices_except E e iv1 result1 w1) = (None, iv2, r2, w2)"
    and s2: "session w2 = Active" by blast
  from assms(3) have "\<forall>m. commit_error E (commits w2) \<noteq> Some (Flush_error m)" by simp
  from commit_invoice_no_flush_error [OF s2 this, where b=iv and iv=iv2]
  obtain iv3 w3 where "commit_invoice E iv iv2 w2 = (None, iv3, w3)" by blast
  with m show ?thesis by (simp add: upload_invoices_body_def)
qed

lemma upload_invoices_loop_counts:
  "upload_invoices_loop E tok cid invs result w = (None, invs', r', w') \<Longrightarrow>
   total r' = total result \<and> successful r' + failed r' = successful result + failed result + length invs
     \<and> length (details r') = length (details result) + length invs
     \<and> (invs \<noteq> [] \<longrightarrow> session w' = Active) \<and> (invs = [] \<longrightarrow> w' = w)"
proof (induction invs arbitrary: result w invs' r' w')
  case Nil
  then show ?case by simp
next
  case (Cons iv rest)
  from Cons.prems obtain iv1 r1 w1 rest1 where
    b: "upload_invoices_body E tok cid iv result w = (None, iv1, r1, w1)"
    and l: "upload_invoices_loop E tok cid rest r1 w1 = (None, rest1, r', w')"
    by (auto split: prod.splits option.splits)
  from upload_invoices_body_counts [OF b] Cons.IH [OF l] show ?case by (cases rest) auto
qed

lemma upload_invoices_loop_present:
  "\<forall>iv\<in>set invs. amount iv \<noteq> None \<Longrightarrow> session w = Active \<Longrightarrow>
   \<forall>n m. commit_error E n \<noteq> Some (Flush_error m) \<Longrightarrow>
   \<exists>invs' r' w'. upload_invoices_loop E tok cid invs result w = (None, invs', r', w')"
proof (induction invs arbitrary: result w)
  case Nil
  then show ?case by simp
next
  case (Cons iv rest)
  then obtain a where "amount iv = Some a" by auto
  from upload_invoices_body_present [OF this Cons.prems(2,3), where tok=tok and cid=cid and result=result]
  obtain iv1 r1 w1 where b: "upload_invoices_body E tok cid iv result w = (None, iv1, r1, w1)" by blast
  from upload_invoices_body_counts [OF b] have "session w1 = Active" by simp
  from Cons.IH [OF _ this Cons.prems(3), where result=r1] Cons.prems(1)
  obtain invs' r' w' where "upload_invoices_loop E tok cid rest r1 w1 = (None, invs', r', w')" by auto
  with b show ?case by simp
qed

lemma upload_invoices_counts:
  "upload_invoices E invs tok cid w = (Inr r, invs', w') \<Longrightarrow>
   total r = length invs \<and> successful r + failed r = length invs \<and> length (details r) = length invs
   \<and> (invs \<noteq> [] \<longrightarrow> session w' = Active)"
  by (auto simp: upload_invoices_def split: prod.splits option.splits dest!: upload_invoices_loop_counts)

lemma upload_invoices_present:
  assumes "\<forall>iv\<in>set invs. amount iv \<noteq> None" and "session w = Active"
    and "\<forall>n m. commit_error E n \<noteq> Some (Flush_error m)"
  shows "\<exists>r invs' w'. upload_invoices E invs tok cid w = (Inr r, invs', w')"
proof -
  from upload_invoices_loop_present [OF assms]
  obtain invs' r' w' where
    "upload_invoices_loop E tok cid invs
       \<lparr>total = length invs, successful = 0, failed = 0, details = []\<rparr> w = (None, invs', r', w')"
    by blast
  then show ?thesis by (simp add: upload_invoices_def)
qed

lemma upload_bills_try_present:
  assumes "amount bl = Some a"
  shows "\<exists>x bl' r' w'. upload_bills_try E tok cid bl result w = (x, bl', r', w') \<and>
     amount bl' = Some a \<and> total r' = total result \<and> session w' = session w \<and> commits w' = commits w \<and>
     (case x of
        None \<Rightarrow> successful r' = Suc (successful result) \<and> failed r' = failed result
                  \<and> length (details r') = Suc (length (details result))
      | Some e \<Rightarrow> r' = result \<and> bl' = bl)"
  using assms
  by (auto simp: upload_bills_try_def Bill_to_quickbooks_json_def read_clock_def logger_def Let_def
           split: sum.splits prod.splits option.splits)

lemma upload_bills_except_present:
  assumes "amount bl = Some a" and "row_read E w = None"
  shows "\<exists>bl' r' w'. upload_bills_except E e bl result w = (None, bl', r', w') \<and>
     total r' = total result \<and> session w' = session w \<and> commits w' = commits w \<and>
     successful r' = successful result \<and> failed r' = Suc (failed result)
     \<and> length (details r') = Suc (length (details result))"
  using assms by (simp add: upload_bills_except_def logger_def Let_def)

lemma upload_bills_try_session:
  "upload_bills_try E tok cid bl result w = (x, bl', r', w') \<Longrightarrow>
   session w' = session w \<and> commits w' = commits w"
  by (auto simp: upload_bills_try_def read_clock_def logger_def Let_def
           split: sum.splits prod.splits option.splits)

lemma upload_bills_except_session:
  "upload_bills_except E e bl result w = (x, bl', r', w') \<Longrightarrow>
   session w' = session w \<and> commits w' = commits w"
  by (auto simp: upload_bills_except_def logger_def Let_def split: sum.splits option.splits)

lemma commit_bill_None:
  "commit_bill E b bl w = (None, bl', w') \<Longrightarrow> session w' = Active"
  by (auto simp: commit_bill_def session_commit_def session_rollback_def logger_def row_read_def
           split: session_state.splits option.splits commit_failure.splits)

lemma commit_bill_no_flush_error:
  assumes "session w = Active" and "\<forall>m. commit_error E (commits w) \<noteq> Some (Flush_error m)"
  shows "\<exists>bl' w'. commit_bill E b bl w = (None, bl', w') \<and> session w' = Active"
proof (cases "commit_error E (commits w)")
  case None
  with assms(1) show ?thesis by (simp add: commit_bill_def session_commit_def)
next
  case (Some f)
  with assms(2) obtain m where "f = Commit_error m" by (cases f) auto
  with Some assms(1) show ?thesis
    by (simp add: commit_bill_def session_commit_def row_read_def session_rollback_def logger_def)
qed

lemma upload_bills_body_counts:
  assumes "upload_bills_body E tok cid bl result w = (None, bl', r', w')"
  shows "total r' = total result \<and> successful r' + failed r' = Suc (successful result + failed result)
     \<and> length (details r') = Suc (length (details result)) \<and> session w' = Active"
proof -
  obtain x bl1 r1 w1 where t: "upload_bills_try E tok cid bl result w = (x, bl1, r1, w1)"
    by (cases "upload_bills_try E tok cid bl result w") auto
  show ?thesis
  proof (cases "amount bl")
    case None
    then have j: "Bill_to_quickbooks_json bl = Inl (TypeError (''float() argument must be a string or a real number, not ''
                 @ quoted ''NoneType''))"
      by (simp add: Bill_to_quickbooks_json_def py_float_def)
    from None j assms show ?thesis
      by (auto simp: upload_bills_body_def upload_bills_try_def upload_bills_except_def Let_def py_float_def
               split: option.splits)
  next
    case (Some a)
    from upload_bills_try_present [OF Some, where E=E and tok=tok and cid=cid and result=result and w=w] t
    have a1: "amount bl1 = Some a" and tot: "total r1 = total result"
      and c: "case x of
        None \<Rightarrow> successful r1 = Suc (successful result) \<and> failed r1 = failed result
                  \<and> length (details r1) = Suc (length (details result))
      | Some e \<Rightarrow> r1 = result \<and> bl1 = bl" by auto
    show ?thesis
    proof (cases x)
      case None
      with t assms c tot show ?thesis
        by (auto simp: upload_bills_body_def split: prod.splits dest: commit_bill_None)
    next
      case (Some e)
      show ?thesis
      proof (cases "row_read E w1")
        case None
        from upload_bills_except_present [OF a1 None, where e=e and result=r1]
        obtain bl2 r2 w2 where x: "upload_bills_except E e bl1 r1 w1 = (None, bl2, r2, w2)"
          and "total r2 = total r1" and "successful r2 = successful r1" and "failed r2 = Suc (failed r1)"
          and "length (details r2) = Suc (length (details r1))" by blast
        with Some t assms c tot show ?thesis
          by (auto simp: upload_bills_body_def split: prod.splits dest: commit_bill_None)
      next
        case (Some e')
        with \<open>x = Some e\<close> t assms show ?thesis
          by (simp add: upload_bills_body_def upload_bills_except_def)
      qed
    qed
  qed
qed

lemma upload_bills_body_present:
  assumes "amount bl = Some a" and "session w = Active"
    and "\<forall>n m. commit_error E n \<noteq> Some (Flush_error m)"
  shows "\<exists>bl' r' w'. upload_bills_body E tok cid bl result w = (None, bl', r', w')"
proof -
  obtain x bl1 r1 w1 where t: "upload_bills_try E tok cid bl result w = (x, bl1, r1, w1)"
    by (cases "upload_bills_try E tok cid bl result w") auto
  from upload_bills_try_present [OF assms(1), where E=E and tok=tok and cid=cid and result=result and w=w] t
  have a1: "amount bl1 = Some a" and s1: "session w1 = session w" by auto
  have "\<exists>bl2 r2 w2. (case upload_bills_try E tok cid bl result w of
              (None, bl1, result1, w1) \<Rightarrow> (None, bl1, result1, w1)
            | (Some e, bl1, result1, w1) \<Rightarrow> upload_bills_except E e bl1 result1 w1) = (None, bl2, r2, w2)
          \<and> session w2 = Active"
  proof (cases x)
    case None
    with t s1 assms(2) show ?thesis by simp
  next
    case (Some e)
    from s1 assms(2) have "row_read E w1 = None" by simp
    from upload_bills_except_present [OF a1 this, where e=e and result=r1] Some t s1 assms(2)
    show ?thesis by auto
  qed
  then obtain bl2 r2 w2 where m: "(case upload_bills_try E tok cid bl result w of
              (None, bl1, result1, w1) \<Rightarrow> (None, bl1, result1, w1)
            | (Some e, bl1, result1, w1) \<Rightarrow> upload_bills_except E e bl1 result1 w1) = (None, bl2, r2, w2)"
    and s2: "session w2 = Active" by blast
  from assms(3) have "\<forall>m. commit_error E (commits w2) \<noteq> Some (Flush_error m)" by simp
  from commit_bill_no_flush_error [OF s2 this, where b=bl and bl=bl2]
  obtain bl3 w3 where "commit_bill E bl bl2 w2 = (None, bl3, w3)" by blast
  with m show ?thesis by (simp add: upload_bills_body_def)
qed

lemma upload_bills_loop_counts:
  "upload_bills_loop E tok cid bls result w = (None, bls', r', w') \<Longrightarrow>
   total r' = total result \<and> successful r' + failed r' = successful result + failed result + length bls
     \<and> length (details r') = length (details result) + length bls
     \<and> (bls \<noteq> [] \<longrightarrow> session w' = Active) \<and> (bls = [] \<longrightarrow> w' = w)"
proof (induction bls arbitrary: result w bls' r' w')
  case Nil
  then show ?case by simp
next
  case (Cons bl rest)
  from Cons.prems obtain bl1 r1 w1 rest1 where
    b: "upload_bills_body E tok cid bl result w = (None, bl1, r1, w1)"
    and l: "upload_bills_loop E tok cid rest r1 w1 = (None, rest1, r', w')"
    by (auto split: prod.splits option.splits)
  from upload_bills_body_counts [OF b] Cons.IH [OF l] show ?case by (cases rest) auto
qed

lemma upload_bills_loop_present:
  "\<forall>bl\<in>set bls. amount bl \<noteq> None \<Longrightarrow> session w = Active \<Longrightarrow>
   \<forall>n m. commit_error E n \<noteq> Some (Flush_error m) \<Longrightarrow>
   \<exists>bls' r' w'. upload_bills_loop E tok cid bls result w = (None, bls', r', w')"
proof (induction bls arbitrary: result w)
  case Nil
  then show ?case by simp
next
  case (Cons bl rest)
  then obtain a where "amount bl = Some a" by auto
  from upload_bills_body_present [OF this Cons.prems(2,3), where tok=tok and cid=cid and result=result]
  obtain bl1 r1 w1 where b: "upload_bills_body E tok cid bl result w = (None, bl1, r1, w1)" by blast
  from upload_bills_body_counts [OF b] have "session w1 = Active" by simp
  from Cons.IH [OF _ this Cons.prems(3), where result=r1] Cons.prems(1)
  obtain bls' r' w' where "upload_bills_loop E tok cid rest r1 w1 = (None, bls', r', w')" by auto
  with b show ?case by simp
qed

lemma upload_bills_counts:
  "upload_bills E bls tok cid w = (Inr r, bls', w') \<Longrightarrow>
   total r = length bls \<and> successful r + failed r = length bls \<and> length (details r) = length bls
   \<and> (bls \<noteq> [] \<longrightarrow> session w' = Active)"
  by (auto simp: upload_bills_def split: prod.splits option.splits dest!: upload_bills_loop_counts)

lemma upload_bills_present:
  assumes "\<forall>bl\<in>set bls. amount bl \<noteq> None" and "session w = Active"
    and "\<forall>n m. commit_error E n \<noteq> Some (Flush_error m)"
  shows "\<exists>r bls' w'. upload_bills E bls tok cid w = (Inr r, bls', w')"
proof -
  from upload_bills_loop_present [OF assms]
  obtain bls' r' w' where
    "upload_bills_loop E tok cid bls
       \<lparr>total = length bls, successful = 0, failed = 0, details = []\<rparr> w = (None, bls', r', w')"
    by blast
  then show ?thesis by (simp add: upload_bills_def)
qed

lemma upload_all_Inr:
  assumes "upload_all E invs bls tok cid w = (Inr rep, invs', bls', w')"
  shows "total_processed (summary rep) = length invs + length bls
     \<and> total_successful (summary rep) = successful (invoices rep) + successful (bills rep)
     \<and> total_failed (summary rep) = failed (invoices rep) + failed (bills rep)
     \<and> total (invoices rep) = length invs \<and> total (bills rep) = length bls
     \<and> successful (invoices rep) + failed (invoices rep) = length invs
     \<and> successful (bills rep) + failed (bills rep) = length bls
     \<and> length (details (invoices rep)) = length invs
     \<and> length (details (bills rep)) = length bls"
  using assms
  by (auto simp: upload_all_def read_clock_def Let_def
           split: prod.splits sum.splits if_splits
           dest!: upload_invoices_counts upload_bills_counts)

subsection \<open>Runs on the concrete inputs\<close>

text \<open>
  The runs that the examples below refer to, evaluated once each. The answers of the scripted
  platform depend on the number of requests sent before only, so a second run can start from
  any world that has seen as many.
\<close>

lemma upper_GET: "upper ''GET'' = ''GET''"
  by code_simp

lemma upper_POST: "upper ''POST'' = ''POST''"
  by code_simp

lemma isoformat_example: "isoformat (Date 2024 3 7) = ''2024-03-07''"
  by code_simp

lemma isoformat_example': "isoformat (Date 2024 4 1) = ''2024-04-01''"
  by code_simp

lemmas api_run =
  make_request_def request_url_def request_headers_def request_outcome_def created_object_def
  and_then_def reraise_def py_str_def quoted_def Let_def upper_GET upper_POST
  scripted_def example_env_def example_clock_def example_pending_def never_fails_def
  flush_fails_first_def commit_raises_first_def

lemmas invoice_run =
  Invoice_to_quickbooks_json_def py_float_def isoformat_or_none_def isoformat_example
  create_invoice_def get_or_create_customer_def read_clock_def session_commit_def row_read_def
  session_rollback_def logger_def

lemmas bill_run =
  Bill_to_quickbooks_json_def py_float_def isoformat_or_none_def isoformat_example isoformat_example'
  create_bill_def get_or_create_vendor_def get_or_create_account_def store_lines_def
  read_clock_def session_commit_def row_read_def session_rollback_def logger_def

lemma payload_acme_eq: "Invoice_to_quickbooks_json invoice_acme = Inr payload_acme"
  by (simp add: invoice_run invoice_acme_def payload_acme_def)

lemma create_no_id:
  "fst (create_invoice env_no_id payload_acme ''tok'' ''c1'' (sent fresh_world))
     = Inr (JObj [(''DocNumber'', JStr ''INV-1'')])"
  by (simp add: api_run invoice_run env_no_id_def payload_acme_def fresh_world_def found_customer_def
        created_invoice_no_id_def)

lemma single_no_id:
  "\<exists>w'. upload_single_invoice env_no_id invoice_acme ''tok'' ''c1'' fresh_world =
     (Inr (JObj [(''status'', JStr ''success''), (''quickbooks_id'', JNull),
                 (''message'', JStr ''Successfully uploaded to QuickBooks'')]),
      invoice_acme\<lparr>quickbooks_id := JNull, uploaded_at := Some 1000, upload_error := None\<rparr>, w')"
  by (simp add: upload_single_invoice_def api_run invoice_run env_no_id_def invoice_acme_def fresh_world_def
        found_customer_def created_invoice_no_id_def)

lemma batch_no_id:
  "\<exists>r w'. upload_invoices env_no_id [invoice_acme] ''tok'' ''c1'' fresh_world =
     (r, [invoice_acme\<lparr>quickbooks_id := JNull, uploaded_at := Some 1000, upload_error := None\<rparr>], w')"
  by (simp add: upload_invoices_def upload_invoices_body_def upload_invoices_try_def commit_invoice_def
        api_run invoice_run env_no_id_def invoice_acme_def fresh_world_def
        found_customer_def created_invoice_no_id_def)











lemma bill_remote_id_offline:
  "bill_remote_id env_offline bill_rent ''tok'' ''c1'' w =
     Inl (Exception (''Bill creation failed: Vendor operation failed: Request timeout: query?query=SELECT * FROM Vendor WHERE Name = '' @ quoted ''Landlord''))"
  by (simp add: bill_remote_id_def api_run bill_run env_offline_def bill_rent_def)

lemma remote_id_no_id:
  "invoice_remote_id env_no_id invoice_acme ''tok'' ''c1'' fresh_world = Inr JNull"
  by (simp add: invoice_remote_id_def api_run invoice_run env_no_id_def invoice_acme_def fresh_world_def
        found_customer_def created_invoice_no_id_def)

lemma remote_id_created:
  "invoice_remote_id env_retry (invoice_acme\<lparr>upload_error := Some ''earlier error''\<rparr>) ''tok'' ''c1'' fresh_world
     = Inr (JStr ''101'')"
  by (simp add: invoice_remote_id_def api_run invoice_run env_retry_def invoice_acme_def fresh_world_def
        found_customer_def created_invoice_101_def)

lemma remote_id_retry_offline:
  "invoice_remote_id env_offline (invoice_acme\<lparr>quickbooks_id := JStr ''101''\<rparr>) ''tok'' ''c1'' w =
     Inl (Exception (''Invoice creation failed: Customer operation failed: Request timeout: query?query=SELECT * FROM Customer WHERE Name = '' @ quoted ''Acme''))"
  by (simp add: invoice_remote_id_def api_run invoice_run env_offline_def invoice_acme_def)

lemma batch_flush_fails:
  "\<exists>w'. upload_all env_flush_fails [invoice_acme, invoice_acme] [bill_rent] ''tok'' ''c1'' fresh_world =
     (Inl (PendingRollbackError ''rollback pending after: database is locked''),
      [invoice_acme, invoice_acme], [bill_rent], w')
     \<and> length (sent w') = 2 \<and> commits w' = 1 \<and> rollbacks w' = 0
     \<and> session w' = Needs_rollback (Flush_error ''database is locked'')
     \<and> log w' = [(''INFO'', ''Starting bulk upload of 2 invoices''),
                  (''INFO'', ''Successfully uploaded invoice INV-1'')]"
  by (simp add: upload_all_def upload_invoices_def upload_invoices_body_def upload_invoices_try_def
        commit_invoice_def api_run invoice_run env_flush_fails_def invoice_acme_def fresh_world_def
        found_customer_def created_invoice_101_def str_nat.simps digit_char_def)

lemma batch_commit_raises:
  "\<exists>d rep w'. upload_all env_commit_raises [invoice_acme, invoice_acme] [] ''tok'' ''c1'' fresh_world =
     (Inr rep, [invoice_acme, invoice_acme\<lparr>upload_error := Some d\<rparr>], [], w')
     \<and> successful (invoices rep) = 1 \<and> failed (invoices rep) = 1
     \<and> length (details (invoices rep)) = 2
     \<and> commits w' = 2 \<and> rollbacks w' = 1 \<and> session w' = Active
     \<and> (''ERROR'', ''Database commit error for invoice INV-1: connection lost'') \<in> set (log w')"
  by (simp add: upload_all_def upload_invoices_def upload_invoices_body_def upload_invoices_try_def
        upload_invoices_except_def
        commit_invoice_def api_run invoice_run env_commit_raises_def invoice_acme_def fresh_world_def
        found_customer_def created_invoice_101_def str_nat.simps digit_char_def)

lemma bill_remote_id_created:
  "bill_remote_id env_bill (bill_rent\<lparr>upload_error := Some ''earlier error''\<rparr>) ''tok'' ''c1'' fresh_world
     = Inr (JStr ''55'')"
  by (simp add: bill_remote_id_def api_run bill_run env_bill_def bill_rent_def fresh_world_def
        found_vendor_def found_account_def created_bill_55_def)

subsection \<open>What a pass and a single attempt do\<close>

text \<open>
  A pass is the attempt followed by the commit of what the attempt has assigned; the
  outcome of the attempt is decided by the translation, the resolution and the remote call.
\<close>

lemma commit_invoice_ok:
  "session w = Active \<Longrightarrow> commit_error E (commits w) = None \<Longrightarrow>
   commit_invoice E b iv w = (None, iv, w\<lparr>commits := commits w + 1\<rparr>)"
  by (simp add: commit_invoice_def session_commit_def)

lemma commit_invoice_doc:
  "commit_invoice E b iv w = (x, iv', w') \<Longrightarrow> iv' = iv \<or> iv' = b"
  by (auto simp: commit_invoice_def split: prod.splits option.splits)

lemma commit_invoice_flush_error:
  "session w = Active \<Longrightarrow> commit_error E (commits w) = Some (Flush_error m) \<Longrightarrow>
   commit_invoice E b iv w =
     (Some (PendingRollbackError (pending_rollback_text E m)), b,
      w\<lparr>commits := commits w + 1, session := Needs_rollback (Flush_error m)\<rparr>)"
  by (simp add: commit_invoice_def session_commit_def row_read_def)

lemma commit_invoice_commit_error:
  "session w = Active \<Longrightarrow> commit_error E (commits w) = Some (Commit_error m) \<Longrightarrow>
   commit_invoice E b iv w =
     (None, b,
      w\<lparr>commits := commits w + 1, rollbacks := rollbacks w + 1, session := Active,
        log := log w @ [(''ERROR'', ''Database commit error for invoice '' @ invoice_number iv @ '': '' @ m)]\<rparr>)"
  by (simp add: commit_invoice_def session_commit_def row_read_def session_rollback_def logger_def)

lemma upload_invoices_try_failed:
  assumes "session w = Active" and "invoice_remote_id E iv tok cid w = Inl e"
  shows "\<exists>w1. upload_invoices_try E tok cid iv result w = (Some e, iv, result, w1)
     \<and> session w1 = Active \<and> commits w1 = commits w"
  using assms
  by (auto simp: upload_invoices_try_def invoice_remote_id_def and_then_def split: sum.splits prod.splits)

lemma upload_invoices_try_succeeded:
  assumes "session w = Active" and "invoice_remote_id E iv tok cid w = Inr remote_id"
  shows "\<exists>w1 a. amount iv = Some a \<and> session w1 = Active \<and> commits w1 = commits w \<and>
     upload_invoices_try E tok cid iv result w =
       (None,
        iv\<lparr>quickbooks_id := remote_id, uploaded_at := Some (utcnow E (clock_reads w)),
            upload_error := None\<rparr>,
        result\<lparr>successful := successful result + 1,
               details := details result @ [JObj [
                 (''id'', JInt (row_id iv)),
                 (''invoice_number'', JStr (invoice_number iv)),
                 (''customer_name'', JStr (customer_name iv)),
                 (''amount'', JFloat a),
                 (''status'', JStr ''success''),
                 (''quickbooks_id'', remote_id),
                 (''message'', JStr ''Successfully uploaded to QuickBooks'')]]\<rparr>,
        w1)"
proof -
  from assms(2) obtain a where a: "amount iv = Some a"
    by (cases "amount iv") (auto simp: invoice_remote_id_def Invoice_to_quickbooks_json_def py_float_def and_then_def)
  with assms show ?thesis
    by (auto simp: upload_invoices_try_def invoice_remote_id_def read_clock_def Let_def and_then_def logger_def
        split: sum.splits prod.splits)
qed

lemma upload_invoices_body_failed:
  assumes "amount iv = Some a" and "session w = Active" and "invoice_remote_id E iv tok cid w = Inl e"
  shows "\<exists>w2. session w2 = Active \<and> commits w2 = commits w \<and>
     upload_invoices_body E tok cid iv result w =
       (let c = commit_invoice E iv (iv\<lparr>upload_error := Some (str_exc e)\<rparr>) w2 in
            (fst c, fst (snd c),
             result\<lparr>failed := failed result + 1,
                    details := details result @ [JObj [
                      (''id'', JInt (row_id iv)),
                      (''invoice_number'', JStr (invoice_number iv)),
                      (''customer_name'', JStr (customer_name iv)),
                      (''amount'', JFloat a),
                      (''status'', JStr ''failed''),
                      (''quickbooks_id'', JNull),
                      (''message'', JStr (str_exc e)),
                      (''error'', JStr (str_exc e))]]\<rparr>,
             snd (snd c)))"
proof -
  from upload_invoices_try_failed [OF assms(2,3), where result=result]
  obtain w1 where t: "upload_invoices_try E tok cid iv result w = (Some e, iv, result, w1)"
    and s: "session w1 = Active" and c: "commits w1 = commits w" by blast
  let ?w2 = "logger ''ERROR'' (''Failed to upload invoice '' @ invoice_number iv @ '': '' @ str_exc e) w1"
  have "session ?w2 = Active \<and> commits ?w2 = commits w" using s c by (simp add: logger_def)
  moreover have "upload_invoices_body E tok cid iv result w =
       (let c = commit_invoice E iv (iv\<lparr>upload_error := Some (str_exc e)\<rparr>) ?w2 in
            (fst c, fst (snd c),
             result\<lparr>failed := failed result + 1,
                    details := details result @ [JObj [
                      (''id'', JInt (row_id iv)),
                      (''invoice_number'', JStr (invoice_number iv)),
                      (''customer_name'', JStr (customer_name iv)),
                      (''amount'', JFloat a),
                      (''status'', JStr ''failed''),
                      (''quickbooks_id'', JNull),
                      (''message'', JStr (str_exc e)),
                      (''error'', JStr (str_exc e))]]\<rparr>,
             snd (snd c)))"
    using t s assms(1)
    by (simp add: upload_invoices_body_def upload_invoices_except_def Let_def case_prod_beta)
  ultimately show ?thesis by blast
qed

lemma upload_invoices_body_succeeded:
  assumes "session w = Active" and "invoice_remote_id E iv tok cid w = Inr remote_id"
  shows "\<exists>w2 a. session w2 = Active \<and> commits w2 = commits w \<and> amount iv = Some a \<and>
     upload_invoices_body E tok cid iv result w =
       (let c = commit_invoice E iv (iv\<lparr>quickbooks_id := remote_id,
                                uploaded_at := Some (utcnow E (clock_reads w)),
                                upload_error := None\<rparr>) w2 in
            (fst c, fst (snd c),
             result\<lparr>successful := successful result + 1,
                    details := details result @ [JObj [
                      (''id'', JInt (row_id iv)),
                      (''invoice_number'', JStr (invoice_number iv)),
                      (''customer_name'', JStr (customer_name iv)),
                      (''amount'', JFloat a),
                      (''status'', JStr ''success''),
                      (''quickbooks_id'', remote_id),
                      (''message'', JStr ''Successfully uploaded to QuickBooks'')]]\<rparr>,
             snd (snd c)))"
proof -
  from upload_invoices_try_succeeded [OF assms, where result=result]
  obtain w1 a where a: "amount iv = Some a" and s: "session w1 = Active" and c: "commits w1 = commits w"
    and t: "upload_invoices_try E tok cid iv result w =
       (None,
        iv\<lparr>quickbooks_id := remote_id, uploaded_at := Some (utcnow E (clock_reads w)),
            upload_error := None\<rparr>,
        result\<lparr>successful := successful result + 1,
               details := details result @ [JObj [
                 (''id'', JInt (row_id iv)),
                 (''invoice_number'', JStr (invoice_number iv)),
                 (''customer_name'', JStr (customer_name iv)),
                 (''amount'', JFloat a),
                 (''status'', JStr ''success''),
                 (''quickbooks_id'', remote_id),
                 (''message'', JStr ''Successfully uploaded to QuickBooks'')]]\<rparr>,
        w1)" by blast
  have "upload_invoices_body E tok cid iv result w =
       (let c = commit_invoice E iv (iv\<lparr>quickbooks_id := remote_id,
                                uploaded_at := Some (utcnow E (clock_reads w)),
                                upload_error := None\<rparr>) w1 in
            (fst c, fst (snd c),
             result\<lparr>successful := successful result + 1,
                    details := details result @ [JObj [
                      (''id'', JInt (row_id iv)),
                      (''invoice_number'', JStr (invoice_number iv)),
                      (''customer_name'', JStr (customer_name iv)),
                      (''amount'', JFloat a),
                      (''status'', JStr ''success''),
                      (''quickbooks_id'', remote_id),
                      (''message'', JStr ''Successfully uploaded to QuickBooks'')]]\<rparr>,
             snd (snd c)))"
    using t by (simp add: upload_invoices_body_def Let_def case_prod_beta)
  with a s c show ?thesis by blast
qed

lemma upload_single_invoice_failed:
  assumes "session w = Active" and "invoice_remote_id E iv tok cid w = Inl e"
    and "commit_error E (commits w) = None"
  shows "\<exists>w'. upload_single_invoice E iv tok cid w =
     (Inr (JObj [(''status'', JStr ''failed''),
                 (''error'', JStr (str_exc e)),
                 (''message'', JStr (''Upload failed: '' @ str_exc e))]),
      iv\<lparr>upload_error := Some (str_exc e)\<rparr>, w')"
  using assms
  by (auto simp: upload_single_invoice_def session_commit_def invoice_remote_id_def
        Let_def and_then_def
      split: sum.splits prod.splits)

lemma upload_single_invoice_succeeded:
  assumes "session w = Active" and "invoice_remote_id E iv tok cid w = Inr remote_id"
    and "commit_error E (commits w) = None"
  shows "\<exists>w'. upload_single_invoice E iv tok cid w =
     (Inr (JObj [(''status'', JStr ''success''),
                 (''quickbooks_id'', remote_id),
                 (''message'', JStr ''Successfully uploaded to QuickBooks'')]),
      iv\<lparr>quickbooks_id := remote_id, uploaded_at := Some (utcnow E (clock_reads w)),
          upload_error := None\<rparr>, w')"
  using assms
  by (auto simp: upload_single_invoice_def session_commit_def invoice_remote_id_def
        read_clock_def Let_def and_then_def
      split: sum.splits prod.splits)

lemma upload_invoices_body_remote_id:
  "upload_invoices_body E tok cid iv result w = (x, iv', r', w') \<Longrightarrow>
   quickbooks_id iv' = quickbooks_id iv \<or> invoice_remote_id E iv tok cid w = Inr (quickbooks_id iv')"
proof -
  assume b: "upload_invoices_body E tok cid iv result w = (x, iv', r', w')"
  obtain y iv1 r1 w1 where t: "upload_invoices_try E tok cid iv result w = (y, iv1, r1, w1)"
    by (cases "upload_invoices_try E tok cid iv result w") auto
  then have t1: "(y \<noteq> None \<and> iv1 = iv)
      \<or> (y = None \<and> upload_error iv1 = None \<and> invoice_remote_id E iv tok cid w = Inr (quickbooks_id iv1))"
    by (auto simp: upload_invoices_try_def invoice_remote_id_def Invoice_to_quickbooks_json_def py_float_def
          read_clock_def Let_def and_then_def
        split: sum.splits prod.splits option.splits)
  have e1: "\<And>e z iv2 r2 w2. upload_invoices_except E e iv r1 w1 = (z, iv2, r2, w2) \<Longrightarrow>
      quickbooks_id iv2 = quickbooks_id iv"
    by (auto simp: upload_invoices_except_def Let_def split: sum.splits option.splits)
  from b t t1 show ?thesis
    by (auto simp: upload_invoices_body_def split: prod.splits option.splits
             dest!: e1 commit_invoice_doc)
qed


lemma upload_single_invoice_remote_id:
  "upload_single_invoice E iv tok cid w = (j, iv', w') \<Longrightarrow>
   quickbooks_id iv' = quickbooks_id iv \<or> invoice_remote_id E iv tok cid w = Inr (quickbooks_id iv')"
  by (auto simp: upload_single_invoice_def invoice_remote_id_def read_clock_def Let_def and_then_def
      split: sum.splits prod.splits option.splits)


lemma commit_bill_ok:
  "session w = Active \<Longrightarrow> commit_error E (commits w) = None \<Longrightarrow>
   commit_bill E b bl w = (None, bl, w\<lparr>commits := commits w + 1\<rparr>)"
  by (simp add: commit_bill_def session_commit_def)

lemma commit_bill_doc:
  "commit_bill E b bl w = (x, bl', w') \<Longrightarrow> bl' = bl \<or> bl' = b"
  by (auto simp: commit_bill_def split: prod.splits option.splits)

lemma commit_bill_flush_error:
  "session w = Active \<Longrightarrow> commit_error E (commits w) = Some (Flush_error m) \<Longrightarrow>
   commit_bill E b bl w =
     (Some (PendingRollbackError (pending_rollback_text E m)), b,
      w\<lparr>commits := commits w + 1, session := Needs_rollback (Flush_error m)\<rparr>)"
  by (simp add: commit_bill_def session_commit_def row_read_def)

lemma commit_bill_commit_error:
  "session w = Active \<Longrightarrow> commit_error E (commits w) = Some (Commit_error m) \<Longrightarrow>
   commit_bill E b bl w =
     (None, b,
      w\<lparr>commits := commits w + 1, rollbacks := rollbacks w + 1, session := Active,
        log := log w @ [(''ERROR'', ''Database commit error for bill '' @ bill_number bl @ '': '' @ m)]\<rparr>)"
  by (simp add: commit_bill_def session_commit_def row_read_def session_rollback_def logger_def)

lemma upload_bills_try_failed:
  assumes "session w = Active" and "bill_remote_id E bl tok cid w = Inl e"
  shows "\<exists>w1. upload_bills_try E tok cid bl result w = (Some e, bl, result, w1)
     \<and> session w1 = Active \<and> commits w1 = commits w"
  using assms
  by (auto simp: upload_bills_try_def bill_remote_id_def and_then_def split: sum.splits prod.splits)

lemma upload_bills_try_succeeded:
  assumes "session w = Active" and "bill_remote_id E bl tok cid w = Inr remote_id"
  shows "\<exists>w1 a. amount bl = Some a \<and> session w1 = Active \<and> commits w1 = commits w \<and>
     upload_bills_try E tok cid bl result w =
       (None,
        bl\<lparr>quickbooks_id := remote_id, uploaded_at := Some (utcnow E (clock_reads w)),
            upload_error := None\<rparr>,
        result\<lparr>successful := successful result + 1,
               details := details result @ [JObj [
                 (''id'', JInt (row_id bl)),
                 (''bill_number'', JStr (bill_number bl)),
                 (''vendor_name'', JStr (vendor_name bl)),
                 (''amount'', JFloat a),
                 (''status'', JStr ''success''),
                 (''quickbooks_id'', remote_id),
                 (''message'', JStr ''Successfully uploaded to QuickBooks'')]]\<rparr>,
        w1)"
proof -
  from assms(2) obtain a where a: "amount bl = Some a"
    by (cases "amount bl") (auto simp: bill_remote_id_def Bill_to_quickbooks_json_def py_float_def and_then_def)
  with assms show ?thesis
    by (auto simp: upload_bills_try_def bill_remote_id_def read_clock_def Let_def and_then_def logger_def
        split: sum.splits prod.splits)
qed

lemma upload_bills_body_failed:
  assumes "amount bl = Some a" and "session w = Active" and "bill_remote_id E bl tok cid w = Inl e"
  shows "\<exists>w2. session w2 = Active \<and> commits w2 = commits w \<and>
     upload_bills_body E tok cid bl result w =
       (let c = commit_bill E bl (bl\<lparr>upload_error := Some (str_exc e)\<rparr>) w2 in
            (fst c, fst (snd c),
             result\<lparr>failed := failed result + 1,
                    details := details result @ [JObj [
                      (''id'', JInt (row_id bl)),
                      (''bill_number'', JStr (bill_number bl)),
                      (''vendor_name'', JStr (vendor_name bl)),
                      (''amount'', JFloat a),
                      (''status'', JStr ''failed''),
                      (''quickbooks_id'', JNull),
                      (''message'', JStr (str_exc e)),
                      (''error'', JStr (str_exc e))]]\<rparr>,
             snd (snd c)))"
proof -
  from upload_bills_try_failed [OF assms(2,3), where result=result]
  obtain w1 where t: "upload_bills_try E tok cid bl result w = (Some e, bl, result, w1)"
    and s: "session w1 = Active" and c: "commits w1 = commits w" by blast
  let ?w2 = "logger ''ERROR'' (''Failed to upload bill '' @ bill_number bl @ '': '' @ str_exc e) w1"
  have "session ?w2 = Active \<and> commits ?w2 = commits w" using s c by (simp add: logger_def)
  moreover have "upload_bills_body E tok cid bl result w =
       (let c = commit_bill E bl (bl\<lparr>upload_error := Some (str_exc e)\<rparr>) ?w2 in
            (fst c, fst (snd c),
             result\<lparr>failed := failed result + 1,
                    details := details result @ [JObj [
                      (''id'', JInt (row_id bl)),
                      (''bill_number'', JStr (bill_number bl)),
                      (''vendor_name'', JStr (vendor_name bl)),
                      (''amount'', JFloat a),
                      (''status'', JStr ''failed''),
                      (''quickbooks_id'', JNull),
                      (''message'', JStr (str_exc e)),
                      (''error'', JStr (str_exc e))]]\<rparr>,
             snd (snd c)))"
    using t s assms(1)
    by (simp add: upload_bills_body_def upload_bills_except_def Let_def case_prod_beta)
  ultimately show ?thesis by blast
qed

lemma upload_bills_body_succeeded:
  assumes "session w = Active" and "bill_remote_id E bl tok cid w = Inr remote_id"
  shows "\<exists>w2 a. session w2 = Active \<and> commits w2 = commits w \<and> amount bl = Some a \<and>
     upload_bills_body E tok cid bl result w =
       (let c = commit_bill E bl (bl\<lparr>quickbooks_id := remote_id,
                                uploaded_at := Some (utcnow E (clock_reads w)),
                                upload_error := None\<rparr>) w2 in
            (fst c, fst (snd c),
             result\<lparr>successful := successful result + 1,
                    details := details result @ [JObj [
                      (''id'', JInt (row_id bl)),
                      (''bill_number'', JStr (bill_number bl)),
                      (''vendor_name'', JStr (vendor_name bl)),
                      (''amount'', JFloat a),
                      (''status'', JStr ''success''),
                      (''quickbooks_id'', remote_id),
                      (''message'', JStr ''Successfully uploaded to QuickBooks'')]]\<rparr>,
             snd (snd c)))"
proof -
  from upload_bills_try_succeeded [OF assms, where result=result]
  obtain w1 a where a: "amount bl = Some a" and s: "session w1 = Active" and c: "commits w1 = commits w"
    and t: "upload_bills_try E tok cid bl result w =
       (None,
        bl\<lparr>quickbooks_id := remote_id, uploaded_at := Some (utcnow E (clock_reads w)),
            upload_error := None\<rparr>,
        result\<lparr>successful := successful result + 1,
               details := details result @ [JObj [
                 (''id'', JInt (row_id bl)),
                 (''bill_number'', JStr (bill_number bl)),
                 (''vendor_name'', JStr (vendor_name bl)),
                 (''amount'', JFloat a),
                 (''status'', JStr ''success''),
                 (''quickbooks_id'', remote_id),
                 (''message'', JStr ''Successfully uploaded to QuickBooks'')]]\<rparr>,
        w1)" by blast
  have "upload_bills_body E tok cid bl result w =
       (let c = commit_bill E bl (bl\<lparr>quickbooks_id := remote_id,
                                uploaded_at := Some (utcnow E (clock_reads w)),
                                upload_error := None\<rparr>) w1 in
            (fst c, fst (snd c),
             result\<lparr>successful := successful result + 1,
                    details := details result @ [JObj [
                      (''id'', JInt (row_id bl)),
                      (''bill_number'', JStr (bill_number bl)),
                      (''vendor_name'', JStr (vendor_name bl)),
                      (''amount'', JFloat a),
                      (''status'', JStr ''success''),
                      (''quickbooks_id'', remote_id),
                      (''message'', JStr ''Successfully uploaded to QuickBooks'')]]\<rparr>,
             snd (snd c)))"
    using t by (simp add: upload_bills_body_def Let_def case_prod_beta)
  with a s c show ?thesis by blast
qed

lemma upload_single_bill_failed:
  assumes "session w = Active" and "bill_remote_id E bl tok cid w = Inl e"
    and "commit_error E (commits w) = None"
  shows "\<exists>w'. upload_single_bill E bl tok cid w =
     (Inr (JObj [(''status'', JStr ''failed''),
                 (''error'', JStr (str_exc e)),
                 (''message'', JStr (''Upload failed: '' @ str_exc e))]),
      bl\<lparr>upload_error := Some (str_exc e)\<rparr>, w')"
  using assms
  by (auto simp: upload_single_bill_def session_commit_def bill_remote_id_def
        Let_def and_then_def
      split: sum.splits prod.splits)

lemma upload_single_bill_succeeded:
  assumes "session w = Active" and "bill_remote_id E bl tok cid w = Inr remote_id"
    and "commit_error E (commits w) = None"
  shows "\<exists>w'. upload_single_bill E bl tok cid w =
     (Inr (JObj [(''status'', JStr ''success''),
                 (''quickbooks_id'', remote_id),
                 (''message'', JStr ''Successfully uploaded to QuickBooks'')]),
      bl\<lparr>quickbooks_id := remote_id, uploaded_at := Some (utcnow E (clock_reads w)),
          upload_error := None\<rparr>, w')"
  using assms
  by (auto simp: upload_single_bill_def session_commit_def bill_remote_id_def
        read_clock_def Let_def and_then_def
      split: sum.splits prod.splits)

lemma upload_bills_body_remote_id:
  "upload_bills_body E tok cid bl result w = (x, bl', r', w') \<Longrightarrow>
   quickbooks_id bl' = quickbooks_id bl \<or> bill_remote_id E bl tok cid w = Inr (quickbooks_id bl')"
proof -
  assume b: "upload_bills_body E tok cid bl result w = (x, bl', r', w')"
  obtain y bl1 r1 w1 where t: "upload_bills_try E tok cid bl result w = (y, bl1, r1, w1)"
    by (cases "upload_bills_try E tok cid bl result w") auto
  then have t1: "(y \<noteq> None \<and> bl1 = bl)
      \<or> (y = None \<and> upload_error bl1 = None \<and> bill_remote_id E bl tok cid w = Inr (quickbooks_id bl1))"
    by (auto simp: upload_bills_try_def bill_remote_id_def Bill_to_quickbooks_json_def py_float_def
          read_clock_def Let_def and_then_def
        split: sum.splits prod.splits option.splits)
  have e1: "\<And>e z bl2 r2 w2. upload_bills_except E e bl r1 w1 = (z, bl2, r2, w2) \<Longrightarrow>
      quickbooks_id bl2 = quickbooks_id bl"
    by (auto simp: upload_bills_except_def Let_def split: sum.splits option.splits)
  from b t t1 show ?thesis
    by (auto simp: upload_bills_body_def split: prod.splits option.splits
             dest!: e1 commit_bill_doc)
qed


lemma upload_single_bill_remote_id:
  "upload_single_bill E bl tok cid w = (j, bl', w') \<Longrightarrow>
   quickbooks_id bl' = quickbooks_id bl \<or> bill_remote_id E bl tok cid w = Inr (quickbooks_id bl')"
  by (auto simp: upload_single_bill_def bill_remote_id_def read_clock_def Let_def and_then_def
      split: sum.splits prod.splits option.splits)


subsection \<open>The report of a batch\<close>

lemma upload_all_present:
  assumes "\<forall>iv\<in>set invs. amount iv \<noteq> None" and "\<forall>bl\<in>set bls. amount bl \<noteq> None"
    and "session w = Active" and "\<forall>n m. commit_error E n \<noteq> Some (Flush_error m)"
  shows "\<exists>rep invs' bls' w'. upload_all E invs bls tok cid w = (Inr rep, invs', bls', w')"
proof -
  obtain now w0 where c: "read_clock E w = (now, w0)" and s0: "session w0 = Active"
    using assms(3) by (simp add: read_clock_def)
  let ?wi = "logger ''INFO'' (''Starting bulk upload of '' @ str_nat (length invs) @ '' invoices'') w0"
  have si: "session ?wi = Active" using s0 by (simp add: logger_def)
  have "\<exists>r1 invs1 w1. session w1 = Active \<and> (invs = [] \<longrightarrow> w1 = w0) \<and>
      (invs \<noteq> [] \<longrightarrow> upload_invoices E invs tok cid ?wi = (Inr r1, invs1, w1))"
  proof (cases "invs = []")
    case True
    with s0 show ?thesis by simp
  next
    case False
    from upload_invoices_present [OF assms(1) si assms(4), where tok=tok and cid=cid]
    obtain r1 invs1 w1 where u: "upload_invoices E invs tok cid ?wi = (Inr r1, invs1, w1)" by blast
    from upload_invoices_counts [OF u] False have "session w1 = Active" by simp
    with u False show ?thesis by blast
  qed
  then obtain r1 invs1 w1 where s1: "session w1 = Active" and e1: "invs = [] \<longrightarrow> w1 = w0"
    and u1: "invs \<noteq> [] \<longrightarrow> upload_invoices E invs tok cid ?wi = (Inr r1, invs1, w1)" by blast
  let ?wb = "logger ''INFO'' (''Starting bulk upload of '' @ str_nat (length bls) @ '' bills'') w1"
  have sb: "session ?wb = Active" using s1 by (simp add: logger_def)
  have "bls \<noteq> [] \<longrightarrow> (\<exists>r2 bls2 w2. upload_bills E bls tok cid ?wb = (Inr r2, bls2, w2))"
    using upload_bills_present [OF assms(2) sb assms(4), where tok=tok and cid=cid] by blast
  then obtain r2 bls2 w2 where
    u2: "bls \<noteq> [] \<longrightarrow> upload_bills E bls tok cid ?wb = (Inr r2, bls2, w2)" by blast
  show ?thesis
  proof (cases "invs = []")
    case True
    with e1 have w: "w1 = w0" by simp
    show ?thesis
      using c True u2 w by (cases "bls = []") (simp_all add: upload_all_def Let_def)
  next
    case False
    with u1 have "upload_invoices E invs tok cid ?wi = (Inr r1, invs1, w1)" by simp
    then show ?thesis
      using c False u2 by (cases "bls = []") (simp_all add: upload_all_def Let_def)
  qed
qed

text \<open>
  C3. Whenever \<^verbatim>\<open>upload_all\<close> returns a report, its summary has
  \<open>total_processed = len(invoices) + len(bills)\<close> and
  \<open>total_successful + total_failed = total_processed\<close>, the two counts being the sums of the
  per-variant counts. It does return a report when every document carries an amount, the
  session is usable and no commit fails in its flush.
\<close>

theorem upload_all_summary_counts:
  "(\<forall>rep. fst (upload_all E invs bls tok cid w) = Inr rep \<longrightarrow>
      total_processed (summary rep) = length invs + length bls
    \<and> total_successful (summary rep) + total_failed (summary rep) = total_processed (summary rep)
    \<and> total_successful (summary rep) = successful (invoices rep) + successful (bills rep)
    \<and> total_failed (summary rep) = failed (invoices rep) + failed (bills rep))
   \<and> ((\<forall>iv\<in>set invs. amount iv \<noteq> None) \<and> (\<forall>bl\<in>set bls. amount bl \<noteq> None)
        \<and> session w = Active \<and> (\<forall>n m. commit_error E n \<noteq> Some (Flush_error m)) \<longrightarrow>
        (\<exists>rep. fst (upload_all E invs bls tok cid w) = Inr rep))"
proof (intro conjI allI impI)
  fix rep
  assume "fst (upload_all E invs bls tok cid w) = Inr rep"
  then obtain invs' bls' w' where "upload_all E invs bls tok cid w = (Inr rep, invs', bls', w')"
    by (cases "upload_all E invs bls tok cid w") auto
  from upload_all_Inr [OF this]
  show "total_processed (summary rep) = length invs + length bls"
    and "total_successful (summary rep) + total_failed (summary rep) = total_processed (summary rep)"
    and "total_successful (summary rep) = successful (invoices rep) + successful (bills rep)"
    and "total_failed (summary rep) = failed (invoices rep) + failed (bills rep)"
    by simp_all
next
  assume h: "(\<forall>iv\<in>set invs. amount iv \<noteq> None) \<and> (\<forall>bl\<in>set bls. amount bl \<noteq> None)
        \<and> session w = Active \<and> (\<forall>n m. commit_error E n \<noteq> Some (Flush_error m))"
  then have "\<exists>rep invs' bls' w'. upload_all E invs bls tok cid w = (Inr rep, invs', bls', w')"
    by (intro upload_all_present) simp_all
  then show "\<exists>rep. fst (upload_all E invs bls tok cid w) = Inr rep" by auto
qed

theorem upload_all_summary_counts_witness:
  "amount invoice_acme \<noteq> None \<and> amount bill_rent \<noteq> None \<and> session fresh_world = Active
   \<and> (\<forall>n m. commit_error env_offline n \<noteq> Some (Flush_error m))
   \<and> (\<exists>rep. fst (upload_all env_offline [invoice_acme, invoice_acme] [bill_rent] ''tok'' ''c1'' fresh_world) = Inr rep
        \<and> total_processed (summary rep) = 3
        \<and> total_successful (summary rep) + total_failed (summary rep) = 3)"
proof -
  have a: "amount invoice_acme \<noteq> None" "amount bill_rent \<noteq> None" "session fresh_world = Active"
    "\<forall>n m. commit_error env_offline n \<noteq> Some (Flush_error m)"
    by (simp_all add: invoice_acme_def bill_rent_def fresh_world_def env_offline_def example_env_def
          never_fails_def)
  then have h: "(\<forall>iv\<in>set [invoice_acme, invoice_acme]. amount iv \<noteq> None) \<and> (\<forall>bl\<in>set [bill_rent]. amount bl \<noteq> None)
      \<and> session fresh_world = Active \<and> (\<forall>n m. commit_error env_offline n \<noteq> Some (Flush_error m))"
    by simp
  note t = upload_all_summary_counts [of env_offline "[invoice_acme, invoice_acme]" "[bill_rent]" "''tok''" "''c1''" fresh_world]
  from t h obtain rep where
    r: "fst (upload_all env_offline [invoice_acme, invoice_acme] [bill_rent] ''tok'' ''c1'' fresh_world) = Inr rep"
    by blast
  with t have "total_processed (summary rep) = 3"
    and "total_successful (summary rep) + total_failed (summary rep) = total_processed (summary rep)"
    by auto
  with r a show ?thesis by auto
qed

text \<open>
  C9. With both lists empty, \<^verbatim>\<open>upload_all\<close> sends no request, raises nothing and
  returns a report whose counts are all zero and whose details are empty: it reads the clock
  once and writes its closing log line.
\<close>

theorem upload_all_empty:
  "upload_all E [] [] tok cid w =
     (Inr \<lparr>invoices = \<lparr>total = 0, successful = 0, failed = 0, details = []\<rparr>,
           bills = \<lparr>total = 0, successful = 0, failed = 0, details = []\<rparr>,
           summary = \<lparr>total_processed = 0, total_successful = 0, total_failed = 0,
                      upload_timestamp = utcnow E (clock_reads w)\<rparr>\<rparr>,
      [], [],
      w\<lparr>clock_reads := clock_reads w + 1,
        log := log w @ [(''INFO'', ''Bulk upload completed: 0 successful, 0 failed out of 0 total'')]\<rparr>)
   \<and> sent (snd (snd (snd (upload_all E [] [] tok cid w)))) = sent w"
  by (simp add: upload_all_def read_clock_def Let_def logger_def str_nat.simps digit_char_def)

subsection \<open>An error of the attempt\<close>



subsection \<open>A commit that fails\<close>

text \<open>
  When the commit of a pass raises with the rows still loaded, the handler of the commit
  does what it is written for: the line is logged, the session is rolled back, the pass
  ends without an exception and the result is the one the attempt left. The invoice is given
  back as the database has it.
\<close>

lemma commit_failure_with_loaded_rows:
  assumes "session w = Active" and "commit_error E (commits w) = Some (Commit_error m)"
    and "invoice_remote_id E iv tok cid w = Inr remote_id"
  shows "\<exists>r' w'. upload_invoices_body E tok cid iv result w = (None, iv, r', w')
     \<and> successful r' = successful result + 1 \<and> failed r' = failed result
     \<and> length (details r') = length (details result) + 1
     \<and> session w' = Active
     \<and> (''ERROR'', ''Database commit error for invoice '' @ invoice_number iv @ '': '' @ m) \<in> set (log w')"
proof -
  from upload_invoices_body_succeeded [OF assms(1,3), where result=result]
  obtain w2 a where s: "session w2 = Active" and c: "commits w2 = commits w"
    and b: "upload_invoices_body E tok cid iv result w =
       (let c = commit_invoice E iv (iv\<lparr>quickbooks_id := remote_id,
                                uploaded_at := Some (utcnow E (clock_reads w)),
                                upload_error := None\<rparr>) w2 in
            (fst c, fst (snd c),
             result\<lparr>successful := successful result + 1,
                    details := details result @ [JObj [
                      (''id'', JInt (row_id iv)),
                      (''invoice_number'', JStr (invoice_number iv)),
                      (''customer_name'', JStr (customer_name iv)),
                      (''amount'', JFloat a),
                      (''status'', JStr ''success''),
                      (''quickbooks_id'', remote_id),
                      (''message'', JStr ''Successfully uploaded to QuickBooks'')]]\<rparr>,
             snd (snd c)))" by blast
  from assms(2) c have "commit_error E (commits w2) = Some (Commit_error m)" by simp
  from commit_invoice_commit_error [OF s this] b show ?thesis
    by (simp add: Let_def)
qed

text \<open>
  C6, at a failing input. The first invoice of a batch is created on the remote platform,
  and the flush of its commit fails. The handler of the commit formats its log line first;
  that reads \<^verbatim>\<open>invoice.invoice_number\<close> on a row the failed flush has expired, so the
  session raises \<open>PendingRollbackError\<close> inside the handler. The exception leaves the loop
  and \<^verbatim>\<open>upload_all\<close>: no report is returned, the commit error is not logged, the
  session is not rolled back, and the second invoice and the bill are never attempted (the
  two requests sent are those of the first invoice).
\<close>

theorem commit_flush_failure_aborts_batch:
  "fst (upload_all env_flush_fails [invoice_acme, invoice_acme] [bill_rent] ''tok'' ''c1'' fresh_world)
     = Inl (PendingRollbackError ''rollback pending after: database is locked'')
   \<and> commit_error env_flush_fails 0 = Some (Flush_error ''database is locked'')
   \<and> length (sent (snd (snd (snd
        (upload_all env_flush_fails [invoice_acme, invoice_acme] [bill_rent] ''tok'' ''c1'' fresh_world))))) = 2
   \<and> commits (snd (snd (snd
        (upload_all env_flush_fails [invoice_acme, invoice_acme] [bill_rent] ''tok'' ''c1'' fresh_world)))) = 1
   \<and> rollbacks (snd (snd (snd
        (upload_all env_flush_fails [invoice_acme, invoice_acme] [bill_rent] ''tok'' ''c1'' fresh_world)))) = 0
   \<and> log (snd (snd (snd
        (upload_all env_flush_fails [invoice_acme, invoice_acme] [bill_rent] ''tok'' ''c1'' fresh_world))))
       = [(''INFO'', ''Starting bulk upload of 2 invoices''),
          (''INFO'', ''Successfully uploaded invoice INV-1'')]"
proof -
  from batch_flush_fails obtain w' where
    u: "upload_all env_flush_fails [invoice_acme, invoice_acme] [bill_rent] ''tok'' ''c1'' fresh_world =
     (Inl (PendingRollbackError ''rollback pending after: database is locked''),
      [invoice_acme, invoice_acme], [bill_rent], w')"
    and w: "length (sent w') = 2" "commits w' = 1" "rollbacks w' = 0"
      "log w' = [(''INFO'', ''Starting bulk upload of 2 invoices''),
                  (''INFO'', ''Successfully uploaded invoice INV-1'')]"
    by blast
  have "commit_error env_flush_fails 0 = Some (Flush_error ''database is locked'')"
    by (simp add: env_flush_fails_def example_env_def flush_fails_first_def)
  with w show ?thesis unfolding u by simp
qed

subsection \<open>What an attempt does to the document\<close>

lemma branches_exclusive: "success_branch b a i n \<Longrightarrow> \<not> failure_branch b a m"
  by (auto simp: success_branch_def failure_branch_def dest: arg_cong [where f = upload_error])

text \<open>
  C2, as stated, fails where the created object has no \<^verbatim>\<open>Id\<close>: the attempt counts as a
  success, and afterwards \<open>quickbooks_id\<close> is null and \<open>upload_error\<close> is null, so
  neither of the two conditions holds.
\<close>

theorem sync_attempt_neither_condition:
  "fst (upload_single_invoice env_no_id invoice_acme ''tok'' ''c1'' fresh_world)
     = Inr (JObj [(''status'', JStr ''success''), (''quickbooks_id'', JNull),
                  (''message'', JStr ''Successfully uploaded to QuickBooks'')])
   \<and> quickbooks_id (fst (snd (upload_single_invoice env_no_id invoice_acme ''tok'' ''c1'' fresh_world))) = JNull
   \<and> upload_error (fst (snd (upload_single_invoice env_no_id invoice_acme ''tok'' ''c1'' fresh_world))) = None
   \<and> map quickbooks_id (fst (snd (upload_invoices env_no_id [invoice_acme] ''tok'' ''c1'' fresh_world))) = [JNull]
   \<and> map upload_error (fst (snd (upload_invoices env_no_id [invoice_acme] ''tok'' ''c1'' fresh_world))) = [None]"
proof -
  from single_no_id obtain w' where
    s: "upload_single_invoice env_no_id invoice_acme ''tok'' ''c1'' fresh_world =
     (Inr (JObj [(''status'', JStr ''success''), (''quickbooks_id'', JNull),
                 (''message'', JStr ''Successfully uploaded to QuickBooks'')]),
      invoice_acme\<lparr>quickbooks_id := JNull, uploaded_at := Some 1000, upload_error := None\<rparr>, w')"
    by blast
  from batch_no_id obtain r v' where
    b: "upload_invoices env_no_id [invoice_acme] ''tok'' ''c1'' fresh_world =
     (r, [invoice_acme\<lparr>quickbooks_id := JNull, uploaded_at := Some 1000, upload_error := None\<rparr>], v')"
    by blast
  show ?thesis unfolding s b by simp
qed

text \<open>
  C2, amended. On a usable session whose commit goes through, a pass of the batch loop over
  a document that carries its amount, and a single attempt, end without an exception and
  have applied exactly one branch to the document. If the translation, the resolution and
  the remote call returned, \<open>quickbooks_id\<close> is the \<^verbatim>\<open>Id\<close> of the created object (null
  when it has none), \<open>uploaded_at\<close> is the time read and \<open>upload_error\<close> is null, and
  the document is not that of the other branch for any message. If one of them raised,
  \<open>upload_error\<close> is the message of that error and nothing else on the document has
  changed, and the document is not that of the other branch for any id and time.
\<close>

theorem sync_attempt_one_branch:
  "(amount iv = Some a \<and> session w = Active \<and> commit_error E (commits w) = None \<longrightarrow>
      (\<exists>iv' r' w'. upload_invoices_body E tok cid iv result w = (None, iv', r', w') \<and>
         (case invoice_remote_id E iv tok cid w of
            Inr remote_id \<Rightarrow>
              success_branch iv iv' remote_id (utcnow E (clock_reads w))
              \<and> (\<forall>msg. \<not> failure_branch iv iv' msg)
          | Inl e \<Rightarrow>
              failure_branch iv iv' (str_exc e)
              \<and> (\<forall>remote_id now. \<not> success_branch iv iv' remote_id now))))
   \<and> (amount bl = Some b \<and> session w = Active \<and> commit_error E (commits w) = None \<longrightarrow>
      (\<exists>bl' r' w'. upload_bills_body E tok cid bl result w = (None, bl', r', w') \<and>
         (case bill_remote_id E bl tok cid w of
            Inr remote_id \<Rightarrow>
              success_branch bl bl' remote_id (utcnow E (clock_reads w))
              \<and> (\<forall>msg. \<not> failure_branch bl bl' msg)
          | Inl e \<Rightarrow>
              failure_branch bl bl' (str_exc e)
              \<and> (\<forall>remote_id now. \<not> success_branch bl bl' remote_id now))))
   \<and> (session w = Active \<and> commit_error E (commits w) = None \<longrightarrow>
      (\<exists>j iv' w'. upload_single_invoice E iv tok cid w = (Inr j, iv', w') \<and>
         (case invoice_remote_id E iv tok cid w of
            Inr remote_id \<Rightarrow>
              success_branch iv iv' remote_id (utcnow E (clock_reads w))
              \<and> (\<forall>msg. \<not> failure_branch iv iv' msg)
          | Inl e \<Rightarrow>
              failure_branch iv iv' (str_exc e)
              \<and> (\<forall>remote_id now. \<not> success_branch iv iv' remote_id now))))
   \<and> (session w = Active \<and> commit_error E (commits w) = None \<longrightarrow>
      (\<exists>j bl' w'. upload_single_bill E bl tok cid w = (Inr j, bl', w') \<and>
         (case bill_remote_id E bl tok cid w of
            Inr remote_id \<Rightarrow>
              success_branch bl bl' remote_id (utcnow E (clock_reads w))
              \<and> (\<forall>msg. \<not> failure_branch bl bl' msg)
          | Inl e \<Rightarrow>
              failure_branch bl bl' (str_exc e)
              \<and> (\<forall>remote_id now. \<not> success_branch bl bl' remote_id now))))"
proof (intro conjI impI)
  assume "amount iv = Some a \<and> session w = Active \<and> commit_error E (commits w) = None"
  then have a: "amount iv = Some a" and s: "session w = Active" and ce: "commit_error E (commits w) = None"
    by simp_all
  show "(\<exists>iv' r' w'. upload_invoices_body E tok cid iv result w = (None, iv', r', w') \<and>
         (case invoice_remote_id E iv tok cid w of
            Inr remote_id \<Rightarrow>
              success_branch iv iv' remote_id (utcnow E (clock_reads w))
              \<and> (\<forall>msg. \<not> failure_branch iv iv' msg)
          | Inl e \<Rightarrow>
              failure_branch iv iv' (str_exc e)
              \<and> (\<forall>remote_id now. \<not> success_branch iv iv' remote_id now)))"
  proof (cases "invoice_remote_id E iv tok cid w")
    case (Inl e)
    from upload_invoices_body_failed [OF a s Inl, where result=result]
    obtain w2 r' where s2: "session w2 = Active" and c2: "commits w2 = commits w"
      and b: "upload_invoices_body E tok cid iv result w =
       (let c = commit_invoice E iv (iv\<lparr>upload_error := Some (str_exc e)\<rparr>) w2 in
            (fst c, fst (snd c), r', snd (snd c)))" by blast
    from ce c2 have "commit_error E (commits w2) = None" by simp
    from commit_invoice_ok [OF s2 this] b
    have "upload_invoices_body E tok cid iv result w =
        (None, iv\<lparr>upload_error := Some (str_exc e)\<rparr>, r', w2\<lparr>commits := commits w2 + 1\<rparr>)"
      by (simp add: Let_def)
    moreover have "failure_branch iv (iv\<lparr>upload_error := Some (str_exc e)\<rparr>) (str_exc e)"
      by (simp add: failure_branch_def)
    moreover from this have
      "\<forall>remote_id now. \<not> success_branch iv (iv\<lparr>upload_error := Some (str_exc e)\<rparr>) remote_id now"
      using branches_exclusive by blast
    ultimately show ?thesis using Inl by simp
  next
    case (Inr remote_id)
    from upload_invoices_body_succeeded [OF s Inr, where result=result]
    obtain w2 r' where s2: "session w2 = Active" and c2: "commits w2 = commits w"
      and b: "upload_invoices_body E tok cid iv result w =
       (let c = commit_invoice E iv (iv\<lparr>quickbooks_id := remote_id,
                                uploaded_at := Some (utcnow E (clock_reads w)),
                                upload_error := None\<rparr>) w2 in
            (fst c, fst (snd c), r', snd (snd c)))" by blast
    from ce c2 have "commit_error E (commits w2) = None" by simp
    from commit_invoice_ok [OF s2 this] b
    have "upload_invoices_body E tok cid iv result w =
        (None, iv\<lparr>quickbooks_id := remote_id, uploaded_at := Some (utcnow E (clock_reads w)),
                     upload_error := None\<rparr>, r', w2\<lparr>commits := commits w2 + 1\<rparr>)"
      by (simp add: Let_def)
    moreover have sb: "success_branch iv (iv\<lparr>quickbooks_id := remote_id,
        uploaded_at := Some (utcnow E (clock_reads w)), upload_error := None\<rparr>) remote_id (utcnow E (clock_reads w))"
      by (simp add: success_branch_def)
    moreover from sb have "\<forall>msg. \<not> failure_branch iv (iv\<lparr>quickbooks_id := remote_id,
        uploaded_at := Some (utcnow E (clock_reads w)), upload_error := None\<rparr>) msg"
      using branches_exclusive by blast
    ultimately show ?thesis using Inr by simp
  qed
next
  assume "amount bl = Some b \<and> session w = Active \<and> commit_error E (commits w) = None"
  then have a: "amount bl = Some b" and s: "session w = Active" and ce: "commit_error E (commits w) = None"
    by simp_all
  show "(\<exists>bl' r' w'. upload_bills_body E tok cid bl result w = (None, bl', r', w') \<and>
         (case bill_remote_id E bl tok cid w of
            Inr remote_id \<Rightarrow>
              success_branch bl bl' remote_id (utcnow E (clock_reads w))
              \<and> (\<forall>msg. \<not> failure_branch bl bl' msg)
          | Inl e \<Rightarrow>
              failure_branch bl bl' (str_exc e)
              \<and> (\<forall>remote_id now. \<not> success_branch bl bl' remote_id now)))"
  proof (cases "bill_remote_id E bl tok cid w")
    case (Inl e)
    from upload_bills_body_failed [OF a s Inl, where result=result]
    obtain w2 r' where s2: "session w2 = Active" and c2: "commits w2 = commits w"
      and b: "upload_bills_body E tok cid bl result w =
       (let c = commit_bill E bl (bl\<lparr>upload_error := Some (str_exc e)\<rparr>) w2 in
            (fst c, fst (snd c), r', snd (snd c)))" by blast
    from ce c2 have "commit_error E (commits w2) = None" by simp
    from commit_bill_ok [OF s2 this] b
    have "upload_bills_body E tok cid bl result w =
        (None, bl\<lparr>upload_error := Some (str_exc e)\<rparr>, r', w2\<lparr>commits := commits w2 + 1\<rparr>)"
      by (simp add: Let_def)
    moreover have "failure_branch bl (bl\<lparr>upload_error := Some (str_exc e)\<rparr>) (str_exc e)"
      by (simp add: failure_branch_def)
    moreover from this have
      "\<forall>remote_id now. \<not> success_branch bl (bl\<lparr>upload_error := Some (str_exc e)\<rparr>) remote_id now"
      using branches_exclusive by blast
    ultimately show ?thesis using Inl by simp
  next
    case (Inr remote_id)
    from upload_bills_body_succeeded [OF s Inr, where result=result]
    obtain w2 r' where s2: "session w2 = Active" and c2: "commits w2 = commits w"
      and b: "upload_bills_body E tok cid bl result w =
       (let c = commit_bill E bl (bl\<lparr>quickbooks_id := remote_id,
                                uploaded_at := Some (utcnow E (clock_reads w)),
                                upload_error := None\<rparr>) w2 in
            (fst c, fst (snd c), r', snd (snd c)))" by blast
    from ce c2 have "commit_error E (commits w2) = None" by simp
    from commit_bill_ok [OF s2 this] b
    have "upload_bills_body E tok cid bl result w =
        (None, bl\<lparr>quickbooks_id := remote_id, uploaded_at := Some (utcnow E (clock_reads w)),
                     upload_error := None\<rparr>, r', w2\<lparr>commits := commits w2 + 1\<rparr>)"
      by (simp add: Let_def)
    moreover have sb: "success_branch bl (bl\<lparr>quickbooks_id := remote_id,
        uploaded_at := Some (utcnow E (clock_reads w)), upload_error := None\<rparr>) remote_id (utcnow E (clock_reads w))"
      by (simp add: success_branch_def)
    moreover from sb have "\<forall>msg. \<not> failure_branch bl (bl\<lparr>quickbooks_id := remote_id,
        uploaded_at := Some (utcnow E (clock_reads w)), upload_error := None\<rparr>) msg"
      using branches_exclusive by blast
    ultimately show ?thesis using Inr by simp
  qed
next
  assume "session w = Active \<and> commit_error E (commits w) = None"
  then have s: "session w = Active" and ce: "commit_error E (commits w) = None" by simp_all
  show "(\<exists>j iv' w'. upload_single_invoice E iv tok cid w = (Inr j, iv', w') \<and>
         (case invoice_remote_id E iv tok cid w of
            Inr remote_id \<Rightarrow>
              success_branch iv iv' remote_id (utcnow E (clock_reads w))
              \<and> (\<forall>msg. \<not> failure_branch iv iv' msg)
          | Inl e \<Rightarrow>
              failure_branch iv iv' (str_exc e)
              \<and> (\<forall>remote_id now. \<not> success_branch iv iv' remote_id now)))"
  proof (cases "invoice_remote_id E iv tok cid w")
    case (Inl e)
    from upload_single_invoice_failed [OF s Inl ce]
    obtain w' where "upload_single_invoice E iv tok cid w =
     (Inr (JObj [(''status'', JStr ''failed''),
                 (''error'', JStr (str_exc e)),
                 (''message'', JStr (''Upload failed: '' @ str_exc e))]),
      iv\<lparr>upload_error := Some (str_exc e)\<rparr>, w')" by blast
    moreover have "failure_branch iv (iv\<lparr>upload_error := Some (str_exc e)\<rparr>) (str_exc e)"
      by (simp add: failure_branch_def)
    moreover from this have
      "\<forall>remote_id now. \<not> success_branch iv (iv\<lparr>upload_error := Some (str_exc e)\<rparr>) remote_id now"
      using branches_exclusive by blast
    ultimately show ?thesis using Inl by simp
  next
    case (Inr remote_id)
    from upload_single_invoice_succeeded [OF s Inr ce]
    obtain w' where "upload_single_invoice E iv tok cid w =
     (Inr (JObj [(''status'', JStr ''success''),
                 (''quickbooks_id'', remote_id),
                 (''message'', JStr ''Successfully uploaded to QuickBooks'')]),
      iv\<lparr>quickbooks_id := remote_id, uploaded_at := Some (utcnow E (clock_reads w)),
          upload_error := None\<rparr>, w')" by blast
    moreover have sb: "success_branch iv (iv\<lparr>quickbooks_id := remote_id,
        uploaded_at := Some (utcnow E (clock_reads w)), upload_error := None\<rparr>) remote_id (utcnow E (clock_reads w))"
      by (simp add: success_branch_def)
    moreover from sb have "\<forall>msg. \<not> failure_branch iv (iv\<lparr>quickbooks_id := remote_id,
        uploaded_at := Some (utcnow E (clock_reads w)), upload_error := None\<rparr>) msg"
      using branches_exclusive by blast
    ultimately show ?thesis using Inr by simp
  qed
next
  assume "session w = Active \<and> commit_error E (commits w) = None"
  then have s: "session w = Active" and ce: "commit_error E (commits w) = None" by simp_all
  show "(\<exists>j bl' w'. upload_single_bill E bl tok cid w = (Inr j, bl', w') \<and>
         (case bill_remote_id E bl tok cid w of
            Inr remote_id \<Rightarrow>
              success_branch bl bl' remote_id (utcnow E (clock_reads w))
              \<and> (\<forall>msg. \<not> failure_branch bl bl' msg)
          | Inl e \<Rightarrow>
              failure_branch bl bl' (str_exc e)
              \<and> (\<forall>remote_id now. \<not> success_branch bl bl' remote_id now)))"
  proof (cases "bill_remote_id E bl tok cid w")
    case (Inl e)
    from upload_single_bill_failed [OF s Inl ce]
    obtain w' where "upload_single_bill E bl tok cid w =
     (Inr (JObj [(''status'', JStr ''failed''),
                 (''error'', JStr (str_exc e)),
                 (''message'', JStr (''Upload failed: '' @ str_exc e))]),
      bl\<lparr>upload_error := Some (str_exc e)\<rparr>, w')" by blast
    moreover have "failure_branch bl (bl\<lparr>upload_error := Some (str_exc e)\<rparr>) (str_exc e)"
      by (simp add: failure_branch_def)
    moreover from this have
      "\<forall>remote_id now. \<not> success_branch bl (bl\<lparr>upload_error := Some (str_exc e)\<rparr>) remote_id now"
      using branches_exclusive by blast
    ultimately show ?thesis using Inl by simp
  next
    case (Inr remote_id)
    from upload_single_bill_succeeded [OF s Inr ce]
    obtain w' where "upload_single_bill E bl tok cid w =
     (Inr (JObj [(''status'', JStr ''success''),
                 (''quickbooks_id'', remote_id),
                 (''message'', JStr ''Successfully uploaded to QuickBooks'')]),
      bl\<lparr>quickbooks_id := remote_id, uploaded_at := Some (utcnow E (clock_reads w)),
          upload_error := None\<rparr>, w')" by blast
    moreover have sb: "success_branch bl (bl\<lparr>quickbooks_id := remote_id,
        uploaded_at := Some (utcnow E (clock_reads w)), upload_error := None\<rparr>) remote_id (utcnow E (clock_reads w))"
      by (simp add: success_branch_def)
    moreover from sb have "\<forall>msg. \<not> failure_branch bl (bl\<lparr>quickbooks_id := remote_id,
        uploaded_at := Some (utcnow E (clock_reads w)), upload_error := None\<rparr>) msg"
      using branches_exclusive by blast
    ultimately show ?thesis using Inr by simp
  qed
qed

theorem sync_attempt_one_branch_witness:
  "amount invoice_acme = Some 100 \<and> session fresh_world = Active
   \<and> commit_error env_no_id (commits fresh_world) = None
   \<and> commit_error env_offline (commits fresh_world) = None
   \<and> invoice_remote_id env_no_id invoice_acme ''tok'' ''c1'' fresh_world = Inr JNull
   \<and> bill_remote_id env_offline bill_rent ''tok'' ''c1'' fresh_world = Inl (Exception (''Bill creation failed: Vendor operation failed: Request timeout: query?query=SELECT * FROM Vendor WHERE Name = '' @ quoted ''Landlord''))
   \<and> (\<exists>iv' r' w'. upload_invoices_body env_no_id ''tok'' ''c1'' invoice_acme \<lparr>total = 1, successful = 0, failed = 0, details = []\<rparr> fresh_world
          = (None, iv', r', w')
        \<and> success_branch invoice_acme iv' JNull (utcnow env_no_id (clock_reads fresh_world))
        \<and> (\<forall>msg. \<not> failure_branch invoice_acme iv' msg))
   \<and> (\<exists>j bl' w'. upload_single_bill env_offline bill_rent ''tok'' ''c1'' fresh_world = (Inr j, bl', w')
        \<and> failure_branch bill_rent bl' (str_exc (Exception (''Bill creation failed: Vendor operation failed: Request timeout: query?query=SELECT * FROM Vendor WHERE Name = '' @ quoted ''Landlord'')))
        \<and> (\<forall>remote_id now. \<not> success_branch bill_rent bl' remote_id now))"
proof -
  have a: "amount invoice_acme = Some 100" "session fresh_world = Active"
    "commit_error env_no_id (commits fresh_world) = None"
    "commit_error env_offline (commits fresh_world) = None"
    by (simp_all add: invoice_acme_def fresh_world_def env_no_id_def env_offline_def example_env_def
          never_fails_def)
  have ri: "invoice_remote_id env_no_id invoice_acme ''tok'' ''c1'' fresh_world = Inr JNull"
    by (rule remote_id_no_id)
  have rb: "bill_remote_id env_offline bill_rent ''tok'' ''c1'' fresh_world = Inl (Exception (''Bill creation failed: Vendor operation failed: Request timeout: query?query=SELECT * FROM Vendor WHERE Name = '' @ quoted ''Landlord''))"
    by (rule bill_remote_id_offline)
  have h1: "amount invoice_acme = Some 100 \<and> session fresh_world = Active
      \<and> commit_error env_no_id (commits fresh_world) = None" using a by simp
  have h2: "session fresh_world = Active \<and> commit_error env_offline (commits fresh_world) = None"
    using a by simp
  note t1 = sync_attempt_one_branch [where E=env_no_id and tok="''tok''" and cid="''c1''" and w=fresh_world
      and iv=invoice_acme and a=100 and result="\<lparr>total = 1, successful = 0, failed = 0, details = []\<rparr>"]
  note t2 = sync_attempt_one_branch [where E=env_offline and tok="''tok''" and cid="''c1''" and w=fresh_world
      and bl=bill_rent]
  have c1: "\<exists>iv' r' w'. upload_invoices_body env_no_id ''tok'' ''c1'' invoice_acme \<lparr>total = 1, successful = 0, failed = 0, details = []\<rparr> fresh_world
          = (None, iv', r', w')
        \<and> success_branch invoice_acme iv' JNull (utcnow env_no_id (clock_reads fresh_world))
        \<and> (\<forall>msg. \<not> failure_branch invoice_acme iv' msg)"
    using mp [OF conjunct1 [OF t1] h1] unfolding ri by simp
  have c2: "\<exists>j bl' w'. upload_single_bill env_offline bill_rent ''tok'' ''c1'' fresh_world = (Inr j, bl', w')
        \<and> failure_branch bill_rent bl' (str_exc (Exception (''Bill creation failed: Vendor operation failed: Request timeout: query?query=SELECT * FROM Vendor WHERE Name = '' @ quoted ''Landlord'')))
        \<and> (\<forall>remote_id now. \<not> success_branch bill_rent bl' remote_id now)"
    using mp [OF conjunct2 [OF conjunct2 [OF conjunct2 [OF t2]]] h2] unfolding rb by simp
  from a ri rb c1 c2 show ?thesis by (intro conjI)
qed

subsection \<open>The error annotation and the remote id\<close>











text \<open>
  C8. A pass or a single attempt whose translation, resolution or remote call raises leaves
  \<open>quickbooks_id\<close> as it was, so an id from an earlier success stays. Whatever the
  platform and the database do, \<open>quickbooks_id\<close> after a pass or a single attempt is
  either what it was or the \<^verbatim>\<open>Id\<close> that the remote call of this attempt returned. An
  attempt that succeeds on a usable session whose commit goes through leaves the document
  with that id, the time read and \<open>upload_error\<close> null, whatever error it carried before.
\<close>

theorem remote_id_only_from_remote_response:
  "(invoice_remote_id E iv tok cid w = Inl e \<longrightarrow>
        quickbooks_id (fst (snd (upload_invoices_body E tok cid iv result w))) = quickbooks_id iv
      \<and> quickbooks_id (fst (snd (upload_single_invoice E iv tok cid w))) = quickbooks_id iv)
   \<and> (quickbooks_id (fst (snd (upload_invoices_body E tok cid iv result w))) = quickbooks_id iv
        \<or> invoice_remote_id E iv tok cid w = Inr (quickbooks_id (fst (snd (upload_invoices_body E tok cid iv result w)))))
   \<and> (quickbooks_id (fst (snd (upload_single_invoice E iv tok cid w))) = quickbooks_id iv
        \<or> invoice_remote_id E iv tok cid w = Inr (quickbooks_id (fst (snd (upload_single_invoice E iv tok cid w)))))
   \<and> (session w = Active \<and> commit_error E (commits w) = None
        \<and> invoice_remote_id E iv tok cid w = Inr remote_id \<longrightarrow>
        (\<exists>r' w'. upload_invoices_body E tok cid iv result w =
           (None, iv\<lparr>quickbooks_id := remote_id, uploaded_at := Some (utcnow E (clock_reads w)), upload_error := None\<rparr>, r', w'))
      \<and> (\<exists>j w'. upload_single_invoice E iv tok cid w =
           (Inr j, iv\<lparr>quickbooks_id := remote_id, uploaded_at := Some (utcnow E (clock_reads w)), upload_error := None\<rparr>, w')))
   \<and> (bill_remote_id E bl tok cid w = Inl e' \<longrightarrow>
        quickbooks_id (fst (snd (upload_bills_body E tok cid bl result w))) = quickbooks_id bl
      \<and> quickbooks_id (fst (snd (upload_single_bill E bl tok cid w))) = quickbooks_id bl)
   \<and> (quickbooks_id (fst (snd (upload_bills_body E tok cid bl result w))) = quickbooks_id bl
        \<or> bill_remote_id E bl tok cid w = Inr (quickbooks_id (fst (snd (upload_bills_body E tok cid bl result w)))))
   \<and> (quickbooks_id (fst (snd (upload_single_bill E bl tok cid w))) = quickbooks_id bl
        \<or> bill_remote_id E bl tok cid w = Inr (quickbooks_id (fst (snd (upload_single_bill E bl tok cid w)))))
   \<and> (session w = Active \<and> commit_error E (commits w) = None
        \<and> bill_remote_id E bl tok cid w = Inr remote_id_b \<longrightarrow>
        (\<exists>r' w'. upload_bills_body E tok cid bl result w =
           (None, bl\<lparr>quickbooks_id := remote_id_b, uploaded_at := Some (utcnow E (clock_reads w)), upload_error := None\<rparr>, r', w'))
      \<and> (\<exists>j w'. upload_single_bill E bl tok cid w =
           (Inr j, bl\<lparr>quickbooks_id := remote_id_b, uploaded_at := Some (utcnow E (clock_reads w)), upload_error := None\<rparr>, w')))"
proof (intro conjI impI)
  assume r: "invoice_remote_id E iv tok cid w = Inl e"
  obtain x d r' w' where b: "upload_invoices_body E tok cid iv result w = (x, d, r', w')"
    by (cases "upload_invoices_body E tok cid iv result w") auto
  from upload_invoices_body_remote_id [OF b] r b
  show "quickbooks_id (fst (snd (upload_invoices_body E tok cid iv result w))) = quickbooks_id iv" by simp
next
  assume r: "invoice_remote_id E iv tok cid w = Inl e"
  obtain j d w' where b: "upload_single_invoice E iv tok cid w = (j, d, w')"
    by (cases "upload_single_invoice E iv tok cid w") auto
  from upload_single_invoice_remote_id [OF b] r b
  show "quickbooks_id (fst (snd (upload_single_invoice E iv tok cid w))) = quickbooks_id iv" by simp
next
  obtain x d r' w' where b: "upload_invoices_body E tok cid iv result w = (x, d, r', w')"
    by (cases "upload_invoices_body E tok cid iv result w") auto
  from upload_invoices_body_remote_id [OF b] b
  show "quickbooks_id (fst (snd (upload_invoices_body E tok cid iv result w))) = quickbooks_id iv
        \<or> invoice_remote_id E iv tok cid w = Inr (quickbooks_id (fst (snd (upload_invoices_body E tok cid iv result w))))" by simp
next
  obtain j d w' where b: "upload_single_invoice E iv tok cid w = (j, d, w')"
    by (cases "upload_single_invoice E iv tok cid w") auto
  from upload_single_invoice_remote_id [OF b] b
  show "quickbooks_id (fst (snd (upload_single_invoice E iv tok cid w))) = quickbooks_id iv
        \<or> invoice_remote_id E iv tok cid w = Inr (quickbooks_id (fst (snd (upload_single_invoice E iv tok cid w))))" by simp
next
  assume "session w = Active \<and> commit_error E (commits w) = None
        \<and> invoice_remote_id E iv tok cid w = Inr remote_id"
  then have s: "session w = Active" and ce: "commit_error E (commits w) = None"
    and r: "invoice_remote_id E iv tok cid w = Inr remote_id" by simp_all
  from upload_invoices_body_succeeded [OF s r, where result=result]
  obtain w2 r' where s2: "session w2 = Active" and c2: "commits w2 = commits w"
    and b: "upload_invoices_body E tok cid iv result w =
       (let c = commit_invoice E iv (iv\<lparr>quickbooks_id := remote_id, uploaded_at := Some (utcnow E (clock_reads w)), upload_error := None\<rparr>) w2 in
            (fst c, fst (snd c), r', snd (snd c)))" by blast
  from ce c2 have "commit_error E (commits w2) = None" by simp
  from commit_invoice_ok [OF s2 this] b
  show "\<exists>r' w'. upload_invoices_body E tok cid iv result w =
           (None, iv\<lparr>quickbooks_id := remote_id, uploaded_at := Some (utcnow E (clock_reads w)), upload_error := None\<rparr>, r', w')"
    by (simp add: Let_def)
next
  assume "session w = Active \<and> commit_error E (commits w) = None
        \<and> invoice_remote_id E iv tok cid w = Inr remote_id"
  then have s: "session w = Active" and ce: "commit_error E (commits w) = None"
    and r: "invoice_remote_id E iv tok cid w = Inr remote_id" by simp_all
  from upload_single_invoice_succeeded [OF s r ce]
  show "\<exists>j w'. upload_single_invoice E iv tok cid w =
           (Inr j, iv\<lparr>quickbooks_id := remote_id, uploaded_at := Some (utcnow E (clock_reads w)), upload_error := None\<rparr>, w')"
    by blast
next
  assume r: "bill_remote_id E bl tok cid w = Inl e'"
  obtain x d r' w' where b: "upload_bills_body E tok cid bl result w = (x, d, r', w')"
    by (cases "upload_bills_body E tok cid bl result w") auto
  from upload_bills_body_remote_id [OF b] r b
  show "quickbooks_id (fst (snd (upload_bills_body E tok cid bl result w))) = quickbooks_id bl" by simp
next
  assume r: "bill_remote_id E bl tok cid w = Inl e'"
  obtain j d w' where b: "upload_single_bill E bl tok cid w = (j, d, w')"
    by (cases "upload_single_bill E bl tok cid w") auto
  from upload_single_bill_remote_id [OF b] r b
  show "quickbooks_id (fst (snd (upload_single_bill E bl tok cid w))) = quickbooks_id bl" by simp
next
  obtain x d r' w' where b: "upload_bills_body E tok cid bl result w = (x, d, r', w')"
    by (cases "upload_bills_body E tok cid bl result w") auto
  from upload_bills_body_remote_id [OF b] b
  show "quickbooks_id (fst (snd (upload_bills_body E tok cid bl result w))) = quickbooks_id bl
        \<or> bill_remote_id E bl tok cid w = Inr (quickbooks_id (fst (snd (upload_bills_body E tok cid bl result w))))" by simp
next
  obtain j d w' where b: "upload_single_bill E bl tok cid w = (j, d, w')"
    by (cases "upload_single_bill E bl tok cid w") auto
  from upload_single_bill_remote_id [OF b] b
  show "quickbooks_id (fst (snd (upload_single_bill E bl tok cid w))) = quickbooks_id bl
        \<or> bill_remote_id E bl tok cid w = Inr (quickbooks_id (fst (snd (upload_single_bill E bl tok cid w))))" by simp
next
  assume "session w = Active \<and> commit_error E (commits w) = None
        \<and> bill_remote_id E bl tok cid w = Inr remote_id_b"
  then have s: "session w = Active" and ce: "commit_error E (commits w) = None"
    and r: "bill_remote_id E bl tok cid w = Inr remote_id_b" by simp_all
  from upload_bills_body_succeeded [OF s r, where result=result]
  obtain w2 r' where s2: "session w2 = Active" and c2: "commits w2 = commits w"
    and b: "upload_bills_body E tok cid bl result w =
       (let c = commit_bill E bl (bl\<lparr>quickbooks_id := remote_id_b, uploaded_at := Some (utcnow E (clock_reads w)), upload_error := None\<rparr>) w2 in
            (fst c, fst (snd c), r', snd (snd c)))" by blast
  from ce c2 have "commit_error E (commits w2) = None" by simp
  from commit_bill_ok [OF s2 this] b
  show "\<exists>r' w'. upload_bills_body E tok cid bl result w =
           (None, bl\<lparr>quickbooks_id := remote_id_b, uploaded_at := Some (utcnow E (clock_reads w)), upload_error := None\<rparr>, r', w')"
    by (simp add: Let_def)
next
  assume "session w = Active \<and> commit_error E (commits w) = None
        \<and> bill_remote_id E bl tok cid w = Inr remote_id_b"
  then have s: "session w = Active" and ce: "commit_error E (commits w) = None"
    and r: "bill_remote_id E bl tok cid w = Inr remote_id_b" by simp_all
  from upload_single_bill_succeeded [OF s r ce]
  show "\<exists>j w'. upload_single_bill E bl tok cid w =
           (Inr j, bl\<lparr>quickbooks_id := remote_id_b, uploaded_at := Some (utcnow E (clock_reads w)), upload_error := None\<rparr>, w')"
    by blast
qed

theorem remote_id_only_from_remote_response_witness:
  "invoice_remote_id env_offline (invoice_acme\<lparr>quickbooks_id := JStr ''101''\<rparr>) ''tok'' ''c1'' fresh_world = Inl (Exception (''Invoice creation failed: Customer operation failed: Request timeout: query?query=SELECT * FROM Customer WHERE Name = '' @ quoted ''Acme''))
   \<and> quickbooks_id (fst (snd (upload_invoices_body env_offline ''tok'' ''c1'' (invoice_acme\<lparr>quickbooks_id := JStr ''101''\<rparr>) \<lparr>total = 1, successful = 0, failed = 0, details = []\<rparr> fresh_world))) = JStr ''101''
   \<and> quickbooks_id (fst (snd (upload_single_invoice env_offline (invoice_acme\<lparr>quickbooks_id := JStr ''101''\<rparr>) ''tok'' ''c1'' fresh_world))) = JStr ''101''
   \<and> session fresh_world = Active \<and> commit_error env_retry (commits fresh_world) = None
   \<and> invoice_remote_id env_retry (invoice_acme\<lparr>upload_error := Some ''earlier error''\<rparr>) ''tok'' ''c1'' fresh_world = Inr (JStr ''101'')
   \<and> (\<exists>r' w'. upload_invoices_body env_retry ''tok'' ''c1'' (invoice_acme\<lparr>upload_error := Some ''earlier error''\<rparr>) \<lparr>total = 1, successful = 0, failed = 0, details = []\<rparr> fresh_world =
           (None, (invoice_acme\<lparr>upload_error := Some ''earlier error''\<rparr>)\<lparr>quickbooks_id := JStr ''101'', uploaded_at := Some 1000, upload_error := None\<rparr>, r', w'))
   \<and> (\<exists>j w'. upload_single_invoice env_retry (invoice_acme\<lparr>upload_error := Some ''earlier error''\<rparr>) ''tok'' ''c1'' fresh_world =
           (Inr j, (invoice_acme\<lparr>upload_error := Some ''earlier error''\<rparr>)\<lparr>quickbooks_id := JStr ''101'', uploaded_at := Some 1000, upload_error := None\<rparr>, w'))
   \<and> commit_error env_bill (commits fresh_world) = None
   \<and> bill_remote_id env_bill (bill_rent\<lparr>upload_error := Some ''earlier error''\<rparr>) ''tok'' ''c1'' fresh_world = Inr (JStr ''55'')
   \<and> (\<exists>r' w'. upload_bills_body env_bill ''tok'' ''c1'' (bill_rent\<lparr>upload_error := Some ''earlier error''\<rparr>) \<lparr>total = 1, successful = 0, failed = 0, details = []\<rparr> fresh_world =
           (None, (bill_rent\<lparr>upload_error := Some ''earlier error''\<rparr>)\<lparr>quickbooks_id := JStr ''55'', uploaded_at := Some 1000, upload_error := None\<rparr>, r', w'))
   \<and> (\<exists>j w'. upload_single_bill env_bill (bill_rent\<lparr>upload_error := Some ''earlier error''\<rparr>) ''tok'' ''c1'' fresh_world =
           (Inr j, (bill_rent\<lparr>upload_error := Some ''earlier error''\<rparr>)\<lparr>quickbooks_id := JStr ''55'', uploaded_at := Some 1000, upload_error := None\<rparr>, w'))"
proof -
  have r1: "invoice_remote_id env_offline (invoice_acme\<lparr>quickbooks_id := JStr ''101''\<rparr>) ''tok'' ''c1'' fresh_world = Inl (Exception (''Invoice creation failed: Customer operation failed: Request timeout: query?query=SELECT * FROM Customer WHERE Name = '' @ quoted ''Acme''))"
    by (rule remote_id_retry_offline)
  have s: "session fresh_world = Active" by (simp add: fresh_world_def)
  have ce: "commit_error env_retry (commits fresh_world) = None"
    "commit_error env_bill (commits fresh_world) = None"
    by (simp_all add: env_retry_def env_bill_def example_env_def never_fails_def)
  have r2: "invoice_remote_id env_retry (invoice_acme\<lparr>upload_error := Some ''earlier error''\<rparr>) ''tok'' ''c1'' fresh_world = Inr (JStr ''101'')"
    by (rule remote_id_created)
  have r3: "bill_remote_id env_bill (bill_rent\<lparr>upload_error := Some ''earlier error''\<rparr>) ''tok'' ''c1'' fresh_world = Inr (JStr ''55'')"
    by (rule bill_remote_id_created)
  have u: "utcnow env_retry (clock_reads fresh_world) = 1000" "utcnow env_bill (clock_reads fresh_world) = 1000"
    by (simp_all add: env_retry_def env_bill_def example_env_def example_clock_def fresh_world_def)
  have q: "quickbooks_id (invoice_acme\<lparr>quickbooks_id := JStr ''101''\<rparr>) = JStr ''101''" by simp
  note t1 = remote_id_only_from_remote_response [where E=env_offline and tok="''tok''" and cid="''c1''"
      and w=fresh_world and result="\<lparr>total = 1, successful = 0, failed = 0, details = []\<rparr>"
      and iv="invoice_acme\<lparr>quickbooks_id := JStr ''101''\<rparr>" and e="Exception (''Invoice creation failed: Customer operation failed: Request timeout: query?query=SELECT * FROM Customer WHERE Name = '' @ quoted ''Acme'')"]
  note t2 = remote_id_only_from_remote_response [where E=env_retry and tok="''tok''" and cid="''c1''"
      and w=fresh_world and result="\<lparr>total = 1, successful = 0, failed = 0, details = []\<rparr>"
      and iv="invoice_acme\<lparr>upload_error := Some ''earlier error''\<rparr>" and remote_id="JStr ''101''"]
  note t3 = remote_id_only_from_remote_response [where E=env_bill and tok="''tok''" and cid="''c1''"
      and w=fresh_world and result="\<lparr>total = 1, successful = 0, failed = 0, details = []\<rparr>"
      and bl="bill_rent\<lparr>upload_error := Some ''earlier error''\<rparr>" and remote_id_b="JStr ''55''"]
  from mp [OF conjunct1 [OF t1] r1] q
  have c1: "quickbooks_id (fst (snd (upload_invoices_body env_offline ''tok'' ''c1'' (invoice_acme\<lparr>quickbooks_id := JStr ''101''\<rparr>) \<lparr>total = 1, successful = 0, failed = 0, details = []\<rparr> fresh_world))) = JStr ''101''"
    and c2: "quickbooks_id (fst (snd (upload_single_invoice env_offline (invoice_acme\<lparr>quickbooks_id := JStr ''101''\<rparr>) ''tok'' ''c1'' fresh_world))) = JStr ''101''"
    by simp_all
  have h2: "session fresh_world = Active \<and> commit_error env_retry (commits fresh_world) = None
        \<and> invoice_remote_id env_retry (invoice_acme\<lparr>upload_error := Some ''earlier error''\<rparr>) ''tok'' ''c1'' fresh_world = Inr (JStr ''101'')"
    using s ce r2 by simp
  have h3: "session fresh_world = Active \<and> commit_error env_bill (commits fresh_world) = None
        \<and> bill_remote_id env_bill (bill_rent\<lparr>upload_error := Some ''earlier error''\<rparr>) ''tok'' ''c1'' fresh_world = Inr (JStr ''55'')"
    using s ce r3 by simp
  note d2 = mp [OF conjunct1 [OF conjunct2 [OF conjunct2 [OF conjunct2 [OF t2]]]] h2]
  note d3 = mp [OF conjunct2 [OF conjunct2 [OF conjunct2 [OF conjunct2 [OF conjunct2 [OF conjunct2 [OF conjunct2 [OF t3]]]]]]] h3]
  from d2 u have c3: "\<exists>r' w'. upload_invoices_body env_retry ''tok'' ''c1'' (invoice_acme\<lparr>upload_error := Some ''earlier error''\<rparr>) \<lparr>total = 1, successful = 0, failed = 0, details = []\<rparr> fresh_world =
           (None, (invoice_acme\<lparr>upload_error := Some ''earlier error''\<rparr>)\<lparr>quickbooks_id := JStr ''101'', uploaded_at := Some 1000, upload_error := None\<rparr>, r', w')"
    and c4: "\<exists>j w'. upload_single_invoice env_retry (invoice_acme\<lparr>upload_error := Some ''earlier error''\<rparr>) ''tok'' ''c1'' fresh_world =
           (Inr j, (invoice_acme\<lparr>upload_error := Some ''earlier error''\<rparr>)\<lparr>quickbooks_id := JStr ''101'', uploaded_at := Some 1000, upload_error := None\<rparr>, w')"
    by simp_all
  from d3 u have c5: "\<exists>r' w'. upload_bills_body env_bill ''tok'' ''c1'' (bill_rent\<lparr>upload_error := Some ''earlier error''\<rparr>) \<lparr>total = 1, successful = 0, failed = 0, details = []\<rparr> fresh_world =
           (None, (bill_rent\<lparr>upload_error := Some ''earlier error''\<rparr>)\<lparr>quickbooks_id := JStr ''55'', uploaded_at := Some 1000, upload_error := None\<rparr>, r', w')"
    and c6: "\<exists>j w'. upload_single_bill env_bill (bill_rent\<lparr>upload_error := Some ''earlier error''\<rparr>) ''tok'' ''c1'' fresh_world =
           (Inr j, (bill_rent\<lparr>upload_error := Some ''earlier error''\<rparr>)\<lparr>quickbooks_id := JStr ''55'', uploaded_at := Some 1000, upload_error := None\<rparr>, w')"
    by simp_all
  from r1 c1 c2 s ce(1) r2 c3 c4 ce(2) r3 c5 c6 show ?thesis by (intro conjI)
qed

subsection \<open>A created object without an id\<close>

text \<open>
  C10. When \<^verbatim>\<open>create_invoice\<close> returns an object without an \<^verbatim>\<open>'Id'\<close> key, on a
  usable session whose commit goes through, the pass of the batch loop still takes the
  success branch: \<open>quickbooks_id\<close> becomes \<^verbatim>\<open>None\<close>,
  \<open>uploaded_at\<close> is set, \<open>upload_error\<close> is cleared, \<open>successful\<close> goes up by one and
  the detail entry has status \<^verbatim>\<open>'success'\<close> and \<open>quickbooks_id\<close> \<^verbatim>\<open>None\<close>; in the
  statistics query the row counts as pending, not as uploaded.
\<close>

theorem success_without_remote_id:
  assumes "Invoice_to_quickbooks_json iv = Inr payload"
    and "fst (create_invoice E payload tok cid (sent w)) = Inr (JObj kvs)"
    and "map_of kvs ''Id'' = None"
    and "session w = Active" and "commit_error E (commits w) = None"
  shows "\<exists>iv' r' w' amt. upload_invoices_body E tok cid iv result w = (None, iv', r', w')
     \<and> iv' = iv\<lparr>quickbooks_id := JNull, uploaded_at := Some (utcnow E (clock_reads w)), upload_error := None\<rparr>
     \<and> successful r' = successful result + 1 \<and> failed r' = failed result
     \<and> details r' = details result @ [JObj [
           (''id'', JInt (row_id iv)),
           (''invoice_number'', JStr (invoice_number iv)),
           (''customer_name'', JStr (customer_name iv)),
           (''amount'', amt),
           (''status'', JStr ''success''),
           (''quickbooks_id'', JNull),
           (''message'', JStr ''Successfully uploaded to QuickBooks'')]]
     \<and> get_upload_statistics [iv'] [] =
         JObj [(''invoices'', JObj [(''total'', JInt 1), (''uploaded'', JInt 0), (''pending'', JInt 1), (''failed'', JInt 0)]),
               (''bills'', JObj [(''total'', JInt 0), (''uploaded'', JInt 0), (''pending'', JInt 0), (''failed'', JInt 0)]),
               (''overall'', JObj [(''total'', JInt 1), (''uploaded'', JInt 0), (''pending'', JInt 1), (''failed'', JInt 0)])]"
proof -
  from assms(1) obtain a where a: "amount iv = Some a"
    by (cases "amount iv") (auto simp: Invoice_to_quickbooks_json_def py_float_def)
  obtain s1 where c: "create_invoice E payload tok cid (sent w) = (Inr (JObj kvs), s1)"
    using assms(2) by (cases "create_invoice E payload tok cid (sent w)") auto
  show ?thesis
    using assms(1,3,4,5) a c
    by (simp add: upload_invoices_body_def upload_invoices_try_def read_clock_def Let_def
          commit_invoice_def session_commit_def logger_def get_upload_statistics_def)
qed

theorem success_without_remote_id_witness:
  "Invoice_to_quickbooks_json invoice_acme = Inr payload_acme
   \<and> fst (create_invoice env_no_id payload_acme ''tok'' ''c1'' (sent fresh_world))
        = Inr (JObj [(''DocNumber'', JStr ''INV-1'')])
   \<and> map_of [(''DocNumber'', JStr ''INV-1'')] ''Id'' = None
   \<and> session fresh_world = Active \<and> commit_error env_no_id (commits fresh_world) = None
   \<and> (\<exists>iv' r' w'. upload_invoices_body env_no_id ''tok'' ''c1'' invoice_acme
            \<lparr>total = 1, successful = 0, failed = 0, details = []\<rparr> fresh_world = (None, iv', r', w')
        \<and> quickbooks_id iv' = JNull \<and> uploaded_at iv' = Some 1000 \<and> upload_error iv' = None
        \<and> successful r' = 1 \<and> failed r' = 0)"
proof -
  have h1: "Invoice_to_quickbooks_json invoice_acme = Inr payload_acme" by (rule payload_acme_eq)
  have h2: "fst (create_invoice env_no_id payload_acme ''tok'' ''c1'' (sent fresh_world))
        = Inr (JObj [(''DocNumber'', JStr ''INV-1'')])" by (rule create_no_id)
  have h3: "map_of [(''DocNumber'', JStr ''INV-1'')] ''Id'' = None" by simp
  have h4: "session fresh_world = Active" by (simp add: fresh_world_def)
  have h5: "commit_error env_no_id (commits fresh_world) = None"
    by (simp add: env_no_id_def example_env_def never_fails_def)
  have u: "utcnow env_no_id (clock_reads fresh_world) = 1000"
    by (simp add: env_no_id_def example_env_def example_clock_def fresh_world_def)
  from success_without_remote_id [OF h1 h2 h3 h4 h5, where result="\<lparr>total = 1, successful = 0, failed = 0, details = []\<rparr>"]
  obtain iv' r' w' where "upload_invoices_body env_no_id ''tok'' ''c1'' invoice_acme
            \<lparr>total = 1, successful = 0, failed = 0, details = []\<rparr> fresh_world = (None, iv', r', w')"
    and "iv' = invoice_acme\<lparr>quickbooks_id := JNull, uploaded_at := Some (utcnow env_no_id (clock_reads fresh_world)),
            upload_error := None\<rparr>"
    and "successful r' = successful \<lparr>total = 1, successful = 0, failed = 0, details = []\<rparr> + 1"
    and "failed r' = failed \<lparr>total = 1, successful = 0, failed = 0, details = []\<rparr>"
    by blast
  with h1 h2 h3 h4 h5 u show ?thesis by simp
qed


subsection \<open>Resolving an entity by name\<close>

lemma make_request_GET:
  "make_request E ''GET'' endpoint tok cid data s =
     (request_outcome endpoint (transport E s (Http_request ''GET'' (request_url E cid endpoint) (request_headers tok) JNull)),
      s @ [Http_request ''GET'' (request_url E cid endpoint) (request_headers tok) JNull])"
  by (simp add: make_request_def upper_GET Let_def)

lemma make_request_POST:
  "make_request E ''POST'' endpoint tok cid data s =
     (request_outcome endpoint (transport E s (Http_request ''POST'' (request_url E cid endpoint) (request_headers tok) data)),
      s @ [Http_request ''POST'' (request_url E cid endpoint) (request_headers tok) data])"
  by (simp add: make_request_def upper_GET upper_POST Let_def)

lemma get_or_create_customer_found:
  assumes "transport E s (lookup_request E ''Customer'' name tok cid) = Json response"
    and "query_matches ''Customer'' response = Inr (JArr (m # rest))"
  shows "get_or_create_customer E name tok cid s = (Inr m, s @ [lookup_request E ''Customer'' name tok cid])"
  using assms
  by (simp add: get_or_create_customer_def make_request_GET lookup_request_def query_matches_def
        request_outcome_def reraise_def)

lemma get_or_create_customer_create:
  assumes "transport E s (lookup_request E ''Customer'' name tok cid) = Json response"
    and "query_matches ''Customer'' response = Inr (JArr [])"
  shows "get_or_create_customer E name tok cid s =
     reraise ''Customer operation failed: ''
       (and_then (request_outcome ''customer'' (transport E (s @ [lookup_request E ''Customer'' name tok cid])
            (create_request E ''customer'' (JObj [(''Name'', name), (''CompanyName'', name)]) tok cid)))
          (\<lambda>r. py_getitem r ''Customer''),
        s @ [lookup_request E ''Customer'' name tok cid,
             create_request E ''customer'' (JObj [(''Name'', name), (''CompanyName'', name)]) tok cid])"
  using assms
  by (simp add: get_or_create_customer_def make_request_GET make_request_POST lookup_request_def
        create_request_def query_matches_def request_outcome_def and_then_def split: sum.splits)


lemma get_or_create_vendor_found:
  assumes "transport E s (lookup_request E ''Vendor'' name tok cid) = Json response"
    and "query_matches ''Vendor'' response = Inr (JArr (m # rest))"
  shows "get_or_create_vendor E name tok cid s = (Inr m, s @ [lookup_request E ''Vendor'' name tok cid])"
  using assms
  by (simp add: get_or_create_vendor_def make_request_GET lookup_request_def query_matches_def
        request_outcome_def reraise_def)

lemma get_or_create_vendor_create:
  assumes "transport E s (lookup_request E ''Vendor'' name tok cid) = Json response"
    and "query_matches ''Vendor'' response = Inr (JArr [])"
  shows "get_or_create_vendor E name tok cid s =
     reraise ''Vendor operation failed: ''
       (and_then (request_outcome ''vendor'' (transport E (s @ [lookup_request E ''Vendor'' name tok cid])
            (create_request E ''vendor'' (JObj [(''Name'', name), (''CompanyName'', name)]) tok cid)))
          (\<lambda>r. py_getitem r ''Vendor''),
        s @ [lookup_request E ''Vendor'' name tok cid,
             create_request E ''vendor'' (JObj [(''Name'', name), (''CompanyName'', name)]) tok cid])"
  using assms
  by (simp add: get_or_create_vendor_def make_request_GET make_request_POST lookup_request_def
        create_request_def query_matches_def request_outcome_def and_then_def split: sum.splits)


lemma get_or_create_account_found:
  assumes "transport E s (lookup_request E ''Account'' name tok cid) = Json response"
    and "query_matches ''Account'' response = Inr (JArr (m # rest))"
  shows "get_or_create_account E name tok cid s = (Inr m, s @ [lookup_request E ''Account'' name tok cid])"
  using assms
  by (simp add: get_or_create_account_def make_request_GET lookup_request_def query_matches_def
        request_outcome_def reraise_def)

lemma get_or_create_account_create:
  assumes "transport E s (lookup_request E ''Account'' name tok cid) = Json response"
    and "query_matches ''Account'' response = Inr (JArr [])"
  shows "get_or_create_account E name tok cid s =
     reraise ''Account operation failed: ''
       (and_then (request_outcome ''account'' (transport E (s @ [lookup_request E ''Account'' name tok cid])
            (create_request E ''account'' (JObj [(''Name'', name), (''AccountType'', JStr ''Expense''),
               (''AccountSubType'', JStr ''OtherMiscellaneousServiceCost'')]) tok cid)))
          (\<lambda>r. py_getitem r ''Account''),
        s @ [lookup_request E ''Account'' name tok cid,
             create_request E ''account'' (JObj [(''Name'', name), (''AccountType'', JStr ''Expense''),
               (''AccountSubType'', JStr ''OtherMiscellaneousServiceCost'')]) tok cid])"
  using assms
  by (simp add: get_or_create_account_def make_request_GET make_request_POST lookup_request_def
        create_request_def query_matches_def request_outcome_def and_then_def split: sum.splits)


lemma get_or_create_customer_resolution:
  assumes h: "transport E s (lookup_request E ''Customer'' name tok cid) = Json response"
    "query_matches ''Customer'' response = Inr (JArr ms)"
  shows "(ms \<noteq> [] \<longrightarrow>
         get_or_create_customer E name tok cid s = (Inr (hd ms), s @ [lookup_request E ''Customer'' name tok cid]))
      \<and> (ms = [] \<longrightarrow>
         snd (get_or_create_customer E name tok cid s) =
           s @ [lookup_request E ''Customer'' name tok cid,
                create_request E ''customer'' (JObj [(''Name'', name), (''CompanyName'', name)]) tok cid]
         \<and> (\<forall>response' ref.
               transport E (s @ [lookup_request E ''Customer'' name tok cid])
                 (create_request E ''customer'' (JObj [(''Name'', name), (''CompanyName'', name)]) tok cid) = Json response'
               \<and> py_getitem response' ''Customer'' = Inr ref \<longrightarrow>
               fst (get_or_create_customer E name tok cid s) = Inr ref))"
proof (intro conjI impI allI)
  assume "ms \<noteq> []"
  then obtain m rest where "ms = m # rest" by (cases ms) auto
  with h show "get_or_create_customer E name tok cid s = (Inr (hd ms), s @ [lookup_request E ''Customer'' name tok cid])"
    using get_or_create_customer_found by simp
next
  assume e: "ms = []"
  with h show "snd (get_or_create_customer E name tok cid s) =
           s @ [lookup_request E ''Customer'' name tok cid,
                create_request E ''customer'' (JObj [(''Name'', name), (''CompanyName'', name)]) tok cid]"
    using get_or_create_customer_create [where E=E and s=s and name=name and tok=tok and cid=cid and response=response]
    by (simp add: reraise_def split: prod.splits sum.splits)
  fix response' ref
  assume "transport E (s @ [lookup_request E ''Customer'' name tok cid])
                 (create_request E ''customer'' (JObj [(''Name'', name), (''CompanyName'', name)]) tok cid) = Json response'
               \<and> py_getitem response' ''Customer'' = Inr ref"
  with h e show "fst (get_or_create_customer E name tok cid s) = Inr ref"
    using get_or_create_customer_create [where E=E and s=s and name=name and tok=tok and cid=cid and response=response]
    by (simp add: reraise_def request_outcome_def and_then_def)
qed

lemma get_or_create_vendor_resolution:
  assumes h: "transport E s (lookup_request E ''Vendor'' name tok cid) = Json response"
    "query_matches ''Vendor'' response = Inr (JArr ms)"
  shows "(ms \<noteq> [] \<longrightarrow>
         get_or_create_vendor E name tok cid s = (Inr (hd ms), s @ [lookup_request E ''Vendor'' name tok cid]))
      \<and> (ms = [] \<longrightarrow>
         snd (get_or_create_vendor E name tok cid s) =
           s @ [lookup_request E ''Vendor'' name tok cid,
                create_request E ''vendor'' (JObj [(''Name'', name), (''CompanyName'', name)]) tok cid]
         \<and> (\<forall>response' ref.
               transport E (s @ [lookup_request E ''Vendor'' name tok cid])
                 (create_request E ''vendor'' (JObj [(''Name'', name), (''CompanyName'', name)]) tok cid) = Json response'
               \<and> py_getitem response' ''Vendor'' = Inr ref \<longrightarrow>
               fst (get_or_create_vendor E name tok cid s) = Inr ref))"
proof (intro conjI impI allI)
  assume "ms \<noteq> []"
  then obtain m rest where "ms = m # rest" by (cases ms) auto
  with h show "get_or_create_vendor E name tok cid s = (Inr (hd ms), s @ [lookup_request E ''Vendor'' name tok cid])"
    using get_or_create_vendor_found by simp
next
  assume e: "ms = []"
  with h show "snd (get_or_create_vendor E name tok cid s) =
           s @ [lookup_request E ''Vendor'' name tok cid,
                create_request E ''vendor'' (JObj [(''Name'', name), (''CompanyName'', name)]) tok cid]"
    using get_or_create_vendor_create [where E=E and s=s and name=name and tok=tok and cid=cid and response=response]
    by (simp add: reraise_def split: prod.splits sum.splits)
  fix response' ref
  assume "transport E (s @ [lookup_request E ''Vendor'' name tok cid])
                 (create_request E ''vendor'' (JObj [(''Name'', name), (''CompanyName'', name)]) tok cid) = Json response'
               \<and> py_getitem response' ''Vendor'' = Inr ref"
  with h e show "fst (get_or_create_vendor E name tok cid s) = Inr ref"
    using get_or_create_vendor_create [where E=E and s=s and name=name and tok=tok and cid=cid and response=response]
    by (simp add: reraise_def request_outcome_def and_then_def)
qed

lemma get_or_create_account_resolution:
  assumes h: "transport E s (lookup_request E ''Account'' name tok cid) = Json response"
    "query_matches ''Account'' response = Inr (JArr ms)"
  shows "(ms \<noteq> [] \<longrightarrow>
         get_or_create_account E name tok cid s = (Inr (hd ms), s @ [lookup_request E ''Account'' name tok cid]))
      \<and> (ms = [] \<longrightarrow>
         snd (get_or_create_account E name tok cid s) =
           s @ [lookup_request E ''Account'' name tok cid,
                create_request E ''account'' (JObj [(''Name'', name), (''AccountType'', JStr ''Expense''),
               (''AccountSubType'', JStr ''OtherMiscellaneousServiceCost'')]) tok cid]
         \<and> (\<forall>response' ref.
               transport E (s @ [lookup_request E ''Account'' name tok cid])
                 (create_request E ''account'' (JObj [(''Name'', name), (''AccountType'', JStr ''Expense''),
               (''AccountSubType'', JStr ''OtherMiscellaneousServiceCost'')]) tok cid) = Json response'
               \<and> py_getitem response' ''Account'' = Inr ref \<longrightarrow>
               fst (get_or_create_account E name tok cid s) = Inr ref))"
proof (intro conjI impI allI)
  assume "ms \<noteq> []"
  then obtain m rest where "ms = m # rest" by (cases ms) auto
  with h show "get_or_create_account E name tok cid s = (Inr (hd ms), s @ [lookup_request E ''Account'' name tok cid])"
    using get_or_create_account_found by simp
next
  assume e: "ms = []"
  with h show "snd (get_or_create_account E name tok cid s) =
           s @ [lookup_request E ''Account'' name tok cid,
                create_request E ''account'' (JObj [(''Name'', name), (''AccountType'', JStr ''Expense''),
               (''AccountSubType'', JStr ''OtherMiscellaneousServiceCost'')]) tok cid]"
    using get_or_create_account_create [where E=E and s=s and name=name and tok=tok and cid=cid and response=response]
    by (simp add: reraise_def split: prod.splits sum.splits)
  fix response' ref
  assume "transport E (s @ [lookup_request E ''Account'' name tok cid])
                 (create_request E ''account'' (JObj [(''Name'', name), (''AccountType'', JStr ''Expense''),
               (''AccountSubType'', JStr ''OtherMiscellaneousServiceCost'')]) tok cid) = Json response'
               \<and> py_getitem response' ''Account'' = Inr ref"
  with h e show "fst (get_or_create_account E name tok cid s) = Inr ref"
    using get_or_create_account_create [where E=E and s=s and name=name and tok=tok and cid=cid and response=response]
    by (simp add: reraise_def request_outcome_def and_then_def)
qed

text \<open>
  C4. For customers, vendors and accounts alike: the resolver first sends the lookup for the
  exact name. When the lookup answers with a list of matches, a non-empty list makes it return
  the first match and send nothing more; an empty list makes it send exactly one create
  request with that name (for an account with \<^verbatim>\<open>AccountType\<close> \<^verbatim>\<open>'Expense'\<close> and
  \<^verbatim>\<open>AccountSubType\<close> \<^verbatim>\<open>'OtherMiscellaneousServiceCost'\<close>) and return the object the
  answer holds under the name of the kind.
\<close>

theorem resolver_lookup_then_create:
  "(transport E s (lookup_request E ''Customer'' name tok cid) = Json response
      \<and> query_matches ''Customer'' response = Inr (JArr ms) \<longrightarrow>
      (ms \<noteq> [] \<longrightarrow>
         get_or_create_customer E name tok cid s = (Inr (hd ms), s @ [lookup_request E ''Customer'' name tok cid]))
      \<and> (ms = [] \<longrightarrow>
         snd (get_or_create_customer E name tok cid s) =
           s @ [lookup_request E ''Customer'' name tok cid,
                create_request E ''customer'' (JObj [(''Name'', name), (''CompanyName'', name)]) tok cid]
         \<and> (\<forall>response' ref.
               transport E (s @ [lookup_request E ''Customer'' name tok cid])
                 (create_request E ''customer'' (JObj [(''Name'', name), (''CompanyName'', name)]) tok cid) = Json response'
               \<and> py_getitem response' ''Customer'' = Inr ref \<longrightarrow>
               fst (get_or_create_customer E name tok cid s) = Inr ref)))
   \<and> (transport E s (lookup_request E ''Vendor'' name tok cid) = Json response
      \<and> query_matches ''Vendor'' response = Inr (JArr ms) \<longrightarrow>
      (ms \<noteq> [] \<longrightarrow>
         get_or_create_vendor E name tok cid s = (Inr (hd ms), s @ [lookup_request E ''Vendor'' name tok cid]))
      \<and> (ms = [] \<longrightarrow>
         snd (get_or_create_vendor E name tok cid s) =
           s @ [lookup_request E ''Vendor'' name tok cid,
                create_request E ''vendor'' (JObj [(''Name'', name), (''CompanyName'', name)]) tok cid]
         \<and> (\<forall>response' ref.
               transport E (s @ [lookup_request E ''Vendor'' name tok cid])
                 (create_request E ''vendor'' (JObj [(''Name'', name), (''CompanyName'', name)]) tok cid) = Json response'
               \<and> py_getitem response' ''Vendor'' = Inr ref \<longrightarrow>
               fst (get_or_create_vendor E name tok cid s) = Inr ref)))
   \<and> (transport E s (lookup_request E ''Account'' name tok cid) = Json response
      \<and> query_matches ''Account'' response = Inr (JArr ms) \<longrightarrow>
      (ms \<noteq> [] \<longrightarrow>
         get_or_create_account E name tok cid s = (Inr (hd ms), s @ [lookup_request E ''Account'' name tok cid]))
      \<and> (ms = [] \<longrightarrow>
         snd (get_or_create_account E name tok cid s) =
           s @ [lookup_request E ''Account'' name tok cid,
                create_request E ''account'' (JObj [(''Name'', name), (''AccountType'', JStr ''Expense''),
               (''AccountSubType'', JStr ''OtherMiscellaneousServiceCost'')]) tok cid]
         \<and> (\<forall>response' ref.
               transport E (s @ [lookup_request E ''Account'' name tok cid])
                 (create_request E ''account'' (JObj [(''Name'', name), (''AccountType'', JStr ''Expense''),
               (''AccountSubType'', JStr ''OtherMiscellaneousServiceCost'')]) tok cid) = Json response'
               \<and> py_getitem response' ''Account'' = Inr ref \<longrightarrow>
               fst (get_or_create_account E name tok cid s) = Inr ref)))"
  using get_or_create_customer_resolution [where E=E and s=s and name=name and tok=tok and cid=cid
          and response=response and ms=ms]
        get_or_create_vendor_resolution [where E=E and s=s and name=name and tok=tok and cid=cid
          and response=response and ms=ms]
        get_or_create_account_resolution [where E=E and s=s and name=name and tok=tok and cid=cid
          and response=response and ms=ms]
  by blast


theorem resolver_lookup_then_create_witness:
  "transport env_found [] (lookup_request env_found ''Customer'' (JStr ''Acme'') ''tok'' ''c1'') = found_customer
   \<and> get_or_create_customer env_found (JStr ''Acme'') ''tok'' ''c1'' [] =
        (Inr (JObj [(''Id'', JStr ''7''), (''Name'', JStr ''Acme'')]),
         [lookup_request env_found ''Customer'' (JStr ''Acme'') ''tok'' ''c1''])
   \<and> transport env_create [] (lookup_request env_create ''Vendor'' (JStr ''Landlord'') ''tok'' ''c1'') = no_match
   \<and> fst (get_or_create_vendor env_create (JStr ''Landlord'') ''tok'' ''c1'' []) =
        Inr (JObj [(''Id'', JStr ''9''), (''Name'', JStr ''Landlord'')])
   \<and> snd (get_or_create_vendor env_create (JStr ''Landlord'') ''tok'' ''c1'' []) =
        [lookup_request env_create ''Vendor'' (JStr ''Landlord'') ''tok'' ''c1'',
         create_request env_create ''vendor''
           (JObj [(''Name'', JStr ''Landlord''), (''CompanyName'', JStr ''Landlord'')]) ''tok'' ''c1'']
   \<and> fst (get_or_create_account env_create_account (JStr ''Rent'') ''tok'' ''c1'' []) =
        Inr (JObj [(''Id'', JStr ''33''), (''Name'', JStr ''Rent'')])
   \<and> snd (get_or_create_account env_create_account (JStr ''Rent'') ''tok'' ''c1'' []) =
        [lookup_request env_create_account ''Account'' (JStr ''Rent'') ''tok'' ''c1'',
         create_request env_create_account ''account''
           (JObj [(''Name'', JStr ''Rent''), (''AccountType'', JStr ''Expense''),
                  (''AccountSubType'', JStr ''OtherMiscellaneousServiceCost'')]) ''tok'' ''c1'']"
proof -
  let ?c = "JObj [(''Id'', JStr ''7''), (''Name'', JStr ''Acme'')]"
  let ?v = "JObj [(''Id'', JStr ''9''), (''Name'', JStr ''Landlord'')]"
  let ?a = "JObj [(''Id'', JStr ''33''), (''Name'', JStr ''Rent'')]"
  have c1: "transport env_found [] (lookup_request env_found ''Customer'' (JStr ''Acme'') ''tok'' ''c1'')
      = Json (JObj [(''QueryResponse'', JObj [(''Customer'', JArr [?c])])])"
    by (simp add: env_found_def example_env_def scripted_def found_customer_def)
  have c2: "query_matches ''Customer'' (JObj [(''QueryResponse'', JObj [(''Customer'', JArr [?c])])]) = Inr (JArr [?c])"
    by (simp add: query_matches_def and_then_def)
  have v1: "transport env_create [] (lookup_request env_create ''Vendor'' (JStr ''Landlord'') ''tok'' ''c1'')
      = Json (JObj [(''QueryResponse'', JObj [])])"
    by (simp add: env_create_def example_env_def scripted_def no_match_def)
  have v2: "query_matches ''Vendor'' (JObj [(''QueryResponse'', JObj [])]) = Inr (JArr [])"
    by (simp add: query_matches_def and_then_def)
  have v3: "transport env_create ([] @ [lookup_request env_create ''Vendor'' (JStr ''Landlord'') ''tok'' ''c1''])
      (create_request env_create ''vendor''
           (JObj [(''Name'', JStr ''Landlord''), (''CompanyName'', JStr ''Landlord'')]) ''tok'' ''c1'')
      = Json (JObj [(''Vendor'', ?v)])
      \<and> py_getitem (JObj [(''Vendor'', ?v)]) ''Vendor'' = Inr ?v"
    by (simp add: env_create_def example_env_def scripted_def created_vendor_def)
  have a1: "transport env_create_account [] (lookup_request env_create_account ''Account'' (JStr ''Rent'') ''tok'' ''c1'')
      = Json (JObj [(''QueryResponse'', JObj [])])"
    by (simp add: env_create_account_def example_env_def scripted_def no_match_def)
  have a2: "query_matches ''Account'' (JObj [(''QueryResponse'', JObj [])]) = Inr (JArr [])"
    by (simp add: query_matches_def and_then_def)
  have a3: "transport env_create_account ([] @ [lookup_request env_create_account ''Account'' (JStr ''Rent'') ''tok'' ''c1''])
      (create_request env_create_account ''account''
           (JObj [(''Name'', JStr ''Rent''), (''AccountType'', JStr ''Expense''),
                  (''AccountSubType'', JStr ''OtherMiscellaneousServiceCost'')]) ''tok'' ''c1'')
      = Json (JObj [(''Account'', ?a)])
      \<and> py_getitem (JObj [(''Account'', ?a)]) ''Account'' = Inr ?a"
    by (simp add: env_create_account_def example_env_def scripted_def created_account_def)
  note tc = resolver_lookup_then_create [where E=env_found and s="[]" and name="JStr ''Acme''"
      and tok="''tok''" and cid="''c1''" and ms="[?c]"
      and response="JObj [(''QueryResponse'', JObj [(''Customer'', JArr [?c])])]"]
  note tv = resolver_lookup_then_create [where E=env_create and s="[]" and name="JStr ''Landlord''"
      and tok="''tok''" and cid="''c1''" and ms="[]"
      and response="JObj [(''QueryResponse'', JObj [])]"]
  note ta = resolver_lookup_then_create [where E=env_create_account and s="[]" and name="JStr ''Rent''"
      and tok="''tok''" and cid="''c1''" and ms="[]"
      and response="JObj [(''QueryResponse'', JObj [])]"]
  from tc c1 c2 have r1: "get_or_create_customer env_found (JStr ''Acme'') ''tok'' ''c1'' [] =
        (Inr ?c, [lookup_request env_found ''Customer'' (JStr ''Acme'') ''tok'' ''c1''])"
    by simp
  from tv v1 v2 have r2: "snd (get_or_create_vendor env_create (JStr ''Landlord'') ''tok'' ''c1'' []) =
        [lookup_request env_create ''Vendor'' (JStr ''Landlord'') ''tok'' ''c1'',
         create_request env_create ''vendor''
           (JObj [(''Name'', JStr ''Landlord''), (''CompanyName'', JStr ''Landlord'')]) ''tok'' ''c1'']"
    by simp
  from tv v1 v2 v3 have r3: "fst (get_or_create_vendor env_create (JStr ''Landlord'') ''tok'' ''c1'' []) = Inr ?v"
    by blast
  from ta a1 a2 have r4: "snd (get_or_create_account env_create_account (JStr ''Rent'') ''tok'' ''c1'' []) =
        [lookup_request env_create_account ''Account'' (JStr ''Rent'') ''tok'' ''c1'',
         create_request env_create_account ''account''
           (JObj [(''Name'', JStr ''Rent''), (''AccountType'', JStr ''Expense''),
                  (''AccountSubType'', JStr ''OtherMiscellaneousServiceCost'')]) ''tok'' ''c1'']"
    by simp
  from ta a1 a2 a3 have r5: "fst (get_or_create_account env_create_account (JStr ''Rent'') ''tok'' ''c1'' []) = Inr ?a"
    by blast
  from c1 v1 r1 r2 r3 r4 r5 show ?thesis
    by (simp add: found_customer_def no_match_def)
qed


subsection \<open>The translation of a document\<close>

lemma digit_char_digit: "d < 10 \<Longrightarrow> digit_char d \<in> set ''0123456789''"
  unfolding digit_char_def by (rule nth_mem) simp

lemma str_nat_digits: "set (str_nat n) \<subseteq> set ''0123456789''"
proof (induction n rule: str_nat.induct)
  case (1 n)
  show ?case
  proof (cases "n < 10")
    case True
    then show ?thesis using digit_char_digit [of n] by (subst str_nat.simps) simp
  next
    case False
    have "n mod 10 < 10" by simp
    from digit_char_digit [OF this] 1 [OF False] False show ?thesis
      by (subst str_nat.simps) simp
  qed
qed

lemma str_nat_length: "0 < k \<Longrightarrow> n < 10 ^ k \<Longrightarrow> length (str_nat n) \<le> k"
proof (induction n arbitrary: k rule: str_nat.induct)
  case (1 n)
  show ?case
  proof (cases "n < 10")
    case True
    with 1(2) show ?thesis by (subst str_nat.simps) simp
  next
    case False
    with 1(3) have k: "1 < k" by (cases "k = 1") (use 1(2) in auto)
    then obtain j where j: "k = Suc j" "0 < j" by (cases k) auto
    from 1(3) j have "n div 10 < 10 ^ j" by (simp add: less_mult_imp_div_less mult.commute)
    from 1(1) [OF False j(2) this] False j show ?thesis
      by (subst str_nat.simps) simp
  qed
qed

lemma str_nat_nonempty: "str_nat n \<noteq> []"
  by (subst str_nat.simps) simp

lemma zfill_length: "length s \<le> w \<Longrightarrow> length (zfill w s) = w"
  by (simp add: zfill_def)

lemma zfill_digits: "set s \<subseteq> set ''0123456789'' \<Longrightarrow> set (zfill w s) \<subseteq> set ''0123456789''"
  by (auto simp: zfill_def)

lemma isoformat_shape:
  assumes "year d < 10000" and "month d \<le> 12" and "day d \<le> 31"
  shows "\<exists>ys ms ds. isoformat d = ys @ ''-'' @ ms @ ''-'' @ ds
     \<and> length ys = 4 \<and> length ms = 2 \<and> length ds = 2
     \<and> set (ys @ ms @ ds) \<subseteq> set ''0123456789''"
proof -
  have y: "length (str_nat (year d)) \<le> 4" using assms(1) by (intro str_nat_length) simp_all
  have m: "length (str_nat (month d)) \<le> 2" using assms(2) by (intro str_nat_length) simp_all
  have dd: "length (str_nat (day d)) \<le> 2" using assms(3) by (intro str_nat_length) simp_all
  have "isoformat d = zfill 4 (str_nat (year d)) @ ''-'' @ zfill 2 (str_nat (month d)) @ ''-''
      @ zfill 2 (str_nat (day d))" by (simp add: isoformat_def)
  moreover have "length (zfill 4 (str_nat (year d))) = 4" "length (zfill 2 (str_nat (month d))) = 2"
    "length (zfill 2 (str_nat (day d))) = 2"
    using y m dd by (simp_all add: zfill_length)
  moreover have "set (zfill 4 (str_nat (year d)) @ zfill 2 (str_nat (month d)) @ zfill 2 (str_nat (day d)))
      \<subseteq> set ''0123456789''"
    using zfill_digits [OF str_nat_digits, of 4 "year d"] zfill_digits [OF str_nat_digits, of 2 "month d"]
      zfill_digits [OF str_nat_digits, of 2 "day d"] by simp
  ultimately show ?thesis by blast
qed

text \<open>
  C5. \<^verbatim>\<open>to_quickbooks_json\<close> reads the record and nothing else. For an invoice with an
  amount it gives one line with the amount, the placeholder \<^verbatim>\<open>ItemRef\<close>, a
  \<^verbatim>\<open>TaxCodeRef\<close> that is \<^verbatim>\<open>'NON'\<close> when the tax code is absent or empty and the tax
  code otherwise, the customer by name only, the document number, and the two dates in ISO
  form, null when absent. For a bill with an amount the line has an
  \<^verbatim>\<open>AccountBasedExpenseLineDetail\<close> with the expense account by name, and no
  \<^verbatim>\<open>ItemRef\<close> occurs anywhere. The ISO form of a calendar date is four digits, two
  digits and two digits, joined by hyphens. A record without an amount is the one input on
  which the translation raises: \<^verbatim>\<open>float(None)\<close> is a \<^verbatim>\<open>TypeError\<close>.
\<close>

theorem to_quickbooks_json_shape:
  "(amount iv = Some a \<longrightarrow>
      (\<exists>j line. Invoice_to_quickbooks_json iv = Inr j
         \<and> at_path j [''Line''] = Some (JArr [line])
         \<and> at_path line [''Amount''] = Some (JFloat a)
         \<and> at_path line [''DetailType''] = Some (JStr ''SalesItemLineDetail'')
         \<and> at_path line [''SalesItemLineDetail'', ''ItemRef'']
              = Some (JObj [(''value'', JStr ''1''), (''name'', JStr ''Services'')])
         \<and> at_path line [''SalesItemLineDetail'', ''TaxCodeRef'']
              = Some (JObj [(''value'', JStr (case tax_code iv of
                                                None \<Rightarrow> ''NON''
                                              | Some t \<Rightarrow> if t = [] then ''NON'' else t))])
         \<and> at_path line [''Description''] = Some (JStr (line_description iv))
         \<and> at_path j [''CustomerRef''] = Some (JObj [(''name'', JStr (customer_name iv))])
         \<and> at_path j [''DocNumber''] = Some (JStr (invoice_number iv))
         \<and> at_path j [''TxnDate'']
              = Some (case invoice_date iv of None \<Rightarrow> JNull | Some d \<Rightarrow> JStr (isoformat d))
         \<and> at_path j [''DueDate'']
              = Some (case due_date iv of None \<Rightarrow> JNull | Some d \<Rightarrow> JStr (isoformat d))))
   \<and> (amount bl = Some b \<longrightarrow>
      (\<exists>j line. Bill_to_quickbooks_json bl = Inr j
         \<and> at_path j [''Line''] = Some (JArr [line])
         \<and> at_path line [''Amount''] = Some (JFloat b)
         \<and> at_path line [''DetailType''] = Some (JStr ''AccountBasedExpenseLineDetail'')
         \<and> at_path line [''AccountBasedExpenseLineDetail'']
              = Some (JObj [(''AccountRef'', JObj [(''name'', JStr (expense_account bl))])])
         \<and> at_path line [''Description''] = Some (JStr (line_description bl))
         \<and> ''ItemRef'' \<notin> set (all_keys j) \<and> ''TaxCodeRef'' \<notin> set (all_keys j)
         \<and> at_path j [''VendorRef''] = Some (JObj [(''name'', JStr (vendor_name bl))])
         \<and> at_path j [''DocNumber''] = Some (JStr (bill_number bl))
         \<and> at_path j [''TxnDate'']
              = Some (case bill_date bl of None \<Rightarrow> JNull | Some d \<Rightarrow> JStr (isoformat d))
         \<and> at_path j [''DueDate'']
              = Some (case due_date bl of None \<Rightarrow> JNull | Some d \<Rightarrow> JStr (isoformat d))))
   \<and> (year d < 10000 \<and> month d \<le> 12 \<and> day d \<le> 31 \<longrightarrow>
      (\<exists>ys ms ds. isoformat d = ys @ ''-'' @ ms @ ''-'' @ ds
         \<and> length ys = 4 \<and> length ms = 2 \<and> length ds = 2
         \<and> set (ys @ ms @ ds) \<subseteq> set ''0123456789''))
   \<and> (amount iv = None \<longrightarrow> (\<exists>m. Invoice_to_quickbooks_json iv = Inl (TypeError m)))
   \<and> (amount bl = None \<longrightarrow> (\<exists>m. Bill_to_quickbooks_json bl = Inl (TypeError m)))"
proof (intro conjI impI)
  assume "amount iv = Some a"
  then show "\<exists>j line. Invoice_to_quickbooks_json iv = Inr j
         \<and> at_path j [''Line''] = Some (JArr [line])
         \<and> at_path line [''Amount''] = Some (JFloat a)
         \<and> at_path line [''DetailType''] = Some (JStr ''SalesItemLineDetail'')
         \<and> at_path line [''SalesItemLineDetail'', ''ItemRef'']
              = Some (JObj [(''value'', JStr ''1''), (''name'', JStr ''Services'')])
         \<and> at_path line [''SalesItemLineDetail'', ''TaxCodeRef'']
              = Some (JObj [(''value'', JStr (case tax_code iv of
                                                None \<Rightarrow> ''NON''
                                              | Some t \<Rightarrow> if t = [] then ''NON'' else t))])
         \<and> at_path line [''Description''] = Some (JStr (line_description iv))
         \<and> at_path j [''CustomerRef''] = Some (JObj [(''name'', JStr (customer_name iv))])
         \<and> at_path j [''DocNumber''] = Some (JStr (invoice_number iv))
         \<and> at_path j [''TxnDate'']
              = Some (case invoice_date iv of None \<Rightarrow> JNull | Some d \<Rightarrow> JStr (isoformat d))
         \<and> at_path j [''DueDate'']
              = Some (case due_date iv of None \<Rightarrow> JNull | Some d \<Rightarrow> JStr (isoformat d))"
    by (simp add: Invoice_to_quickbooks_json_def py_float_def isoformat_or_none_def split: option.splits)
next
  assume "amount bl = Some b"
  then show "\<exists>j line. Bill_to_quickbooks_json bl = Inr j
         \<and> at_path j [''Line''] = Some (JArr [line])
         \<and> at_path line [''Amount''] = Some (JFloat b)
         \<and> at_path line [''DetailType''] = Some (JStr ''AccountBasedExpenseLineDetail'')
         \<and> at_path line [''AccountBasedExpenseLineDetail'']
              = Some (JObj [(''AccountRef'', JObj [(''name'', JStr (expense_account bl))])])
         \<and> at_path line [''Description''] = Some (JStr (line_description bl))
         \<and> ''ItemRef'' \<notin> set (all_keys j) \<and> ''TaxCodeRef'' \<notin> set (all_keys j)
         \<and> at_path j [''VendorRef''] = Some (JObj [(''name'', JStr (vendor_name bl))])
         \<and> at_path j [''DocNumber''] = Some (JStr (bill_number bl))
         \<and> at_path j [''TxnDate'']
              = Some (case bill_date bl of None \<Rightarrow> JNull | Some d \<Rightarrow> JStr (isoformat d))
         \<and> at_path j [''DueDate'']
              = Some (case due_date bl of None \<Rightarrow> JNull | Some d \<Rightarrow> JStr (isoformat d))"
    by (simp add: Bill_to_quickbooks_json_def py_float_def isoformat_or_none_def split: option.splits)
next
  assume "year d < 10000 \<and> month d \<le> 12 \<and> day d \<le> 31"
  then show "\<exists>ys ms ds. isoformat d = ys @ ''-'' @ ms @ ''-'' @ ds
         \<and> length ys = 4 \<and> length ms = 2 \<and> length ds = 2
         \<and> set (ys @ ms @ ds) \<subseteq> set ''0123456789''"
    using isoformat_shape by blast
next
  assume "amount iv = None"
  then show "\<exists>m. Invoice_to_quickbooks_json iv = Inl (TypeError m)"
    by (simp add: Invoice_to_quickbooks_json_def py_float_def)
next
  assume "amount bl = None"
  then show "\<exists>m. Bill_to_quickbooks_json bl = Inl (TypeError m)"
    by (simp add: Bill_to_quickbooks_json_def py_float_def)
qed


theorem to_quickbooks_json_shape_witness:
  "amount invoice_acme = Some 100 \<and> amount bill_rent = Some 50
   \<and> year (Date 2024 3 7) < 10000 \<and> month (Date 2024 3 7) \<le> 12 \<and> day (Date 2024 3 7) \<le> 31
   \<and> (\<exists>j line. Invoice_to_quickbooks_json invoice_acme = Inr j
         \<and> at_path j [''Line''] = Some (JArr [line])
         \<and> at_path line [''Amount''] = Some (JFloat 100)
         \<and> at_path line [''SalesItemLineDetail'', ''TaxCodeRef''] = Some (JObj [(''value'', JStr ''NON'')])
         \<and> at_path j [''CustomerRef''] = Some (JObj [(''name'', JStr ''Acme'')])
         \<and> at_path j [''TxnDate''] = Some (JStr (isoformat (Date 2024 3 7)))
         \<and> at_path j [''DueDate''] = Some JNull)
   \<and> (\<exists>j line. Bill_to_quickbooks_json bill_rent = Inr j
         \<and> at_path j [''Line''] = Some (JArr [line])
         \<and> at_path line [''AccountBasedExpenseLineDetail'']
              = Some (JObj [(''AccountRef'', JObj [(''name'', JStr ''Rent'')])])
         \<and> ''ItemRef'' \<notin> set (all_keys j)
         \<and> at_path j [''VendorRef''] = Some (JObj [(''name'', JStr ''Landlord'')]))
   \<and> (\<exists>ys ms ds. isoformat (Date 2024 3 7) = ys @ ''-'' @ ms @ ''-'' @ ds
         \<and> length ys = 4 \<and> length ms = 2 \<and> length ds = 2)
   \<and> isoformat (Date 2024 3 7) = ''2024-03-07''
   \<and> amount (invoice_acme\<lparr>amount := None\<rparr>) = None
   \<and> (\<exists>m. Invoice_to_quickbooks_json (invoice_acme\<lparr>amount := None\<rparr>) = Inl (TypeError m))
   \<and> amount (bill_rent\<lparr>amount := None\<rparr>) = None
   \<and> (\<exists>m. Bill_to_quickbooks_json (bill_rent\<lparr>amount := None\<rparr>) = Inl (TypeError m))"
proof -
  have h: "amount invoice_acme = Some 100" "amount bill_rent = Some 50"
    "year (Date 2024 3 7) < 10000 \<and> month (Date 2024 3 7) \<le> 12 \<and> day (Date 2024 3 7) \<le> 31"
    by (simp_all add: invoice_acme_def bill_rent_def)
  have f: "tax_code invoice_acme = None" "customer_name invoice_acme = ''Acme''"
    "invoice_date invoice_acme = Some (Date 2024 3 7)" "due_date invoice_acme = None"
    "expense_account bill_rent = ''Rent''" "vendor_name bill_rent = ''Landlord''"
    by (simp_all add: invoice_acme_def bill_rent_def)
  have i: "isoformat (Date 2024 3 7) = ''2024-03-07''" by (rule isoformat_example)
  note t = to_quickbooks_json_shape [where iv=invoice_acme and a=100 and bl=bill_rent and b=50
      and d="Date 2024 3 7"]
  from t h(1) have "\<exists>j line. Invoice_to_quickbooks_json invoice_acme = Inr j
         \<and> at_path j [''Line''] = Some (JArr [line])
         \<and> at_path line [''Amount''] = Some (JFloat 100)
         \<and> at_path line [''DetailType''] = Some (JStr ''SalesItemLineDetail'')
         \<and> at_path line [''SalesItemLineDetail'', ''ItemRef'']
              = Some (JObj [(''value'', JStr ''1''), (''name'', JStr ''Services'')])
         \<and> at_path line [''SalesItemLineDetail'', ''TaxCodeRef'']
              = Some (JObj [(''value'', JStr (case tax_code invoice_acme of
                                                None \<Rightarrow> ''NON''
                                              | Some t \<Rightarrow> if t = [] then ''NON'' else t))])
         \<and> at_path line [''Description''] = Some (JStr (line_description invoice_acme))
         \<and> at_path j [''CustomerRef''] = Some (JObj [(''name'', JStr (customer_name invoice_acme))])
         \<and> at_path j [''DocNumber''] = Some (JStr (invoice_number invoice_acme))
         \<and> at_path j [''TxnDate'']
              = Some (case invoice_date invoice_acme of None \<Rightarrow> JNull | Some d \<Rightarrow> JStr (isoformat d))
         \<and> at_path j [''DueDate'']
              = Some (case due_date invoice_acme of None \<Rightarrow> JNull | Some d \<Rightarrow> JStr (isoformat d))"
    by (rule mp [OF conjunct1])
  then obtain j line where p: "Invoice_to_quickbooks_json invoice_acme = Inr j"
      "at_path j [''Line''] = Some (JArr [line])"
      "at_path line [''Amount''] = Some (JFloat 100)"
      "at_path line [''SalesItemLineDetail'', ''TaxCodeRef'']
              = Some (JObj [(''value'', JStr (case tax_code invoice_acme of
                                                None \<Rightarrow> ''NON''
                                              | Some t \<Rightarrow> if t = [] then ''NON'' else t))])"
      "at_path j [''CustomerRef''] = Some (JObj [(''name'', JStr (customer_name invoice_acme))])"
      "at_path j [''TxnDate'']
              = Some (case invoice_date invoice_acme of None \<Rightarrow> JNull | Some d \<Rightarrow> JStr (isoformat d))"
      "at_path j [''DueDate'']
              = Some (case due_date invoice_acme of None \<Rightarrow> JNull | Some d \<Rightarrow> JStr (isoformat d))"
    by (elim exE conjE)
  have c1: "\<exists>j line. Invoice_to_quickbooks_json invoice_acme = Inr j
         \<and> at_path j [''Line''] = Some (JArr [line])
         \<and> at_path line [''Amount''] = Some (JFloat 100)
         \<and> at_path line [''SalesItemLineDetail'', ''TaxCodeRef''] = Some (JObj [(''value'', JStr ''NON'')])
         \<and> at_path j [''CustomerRef''] = Some (JObj [(''name'', JStr ''Acme'')])
         \<and> at_path j [''TxnDate''] = Some (JStr (isoformat (Date 2024 3 7)))
         \<and> at_path j [''DueDate''] = Some JNull"
    using p unfolding f by (intro exI [of _ j] exI [of _ line]) simp
  from t h(2) have "\<exists>j line. Bill_to_quickbooks_json bill_rent = Inr j
         \<and> at_path j [''Line''] = Some (JArr [line])
         \<and> at_path line [''Amount''] = Some (JFloat 50)
         \<and> at_path line [''DetailType''] = Some (JStr ''AccountBasedExpenseLineDetail'')
         \<and> at_path line [''AccountBasedExpenseLineDetail'']
              = Some (JObj [(''AccountRef'', JObj [(''name'', JStr (expense_account bill_rent))])])
         \<and> at_path line [''Description''] = Some (JStr (line_description bill_rent))
         \<and> ''ItemRef'' \<notin> set (all_keys j) \<and> ''TaxCodeRef'' \<notin> set (all_keys j)
         \<and> at_path j [''VendorRef''] = Some (JObj [(''name'', JStr (vendor_name bill_rent))])
         \<and> at_path j [''DocNumber''] = Some (JStr (bill_number bill_rent))
         \<and> at_path j [''TxnDate'']
              = Some (case bill_date bill_rent of None \<Rightarrow> JNull | Some d \<Rightarrow> JStr (isoformat d))
         \<and> at_path j [''DueDate'']
              = Some (case due_date bill_rent of None \<Rightarrow> JNull | Some d \<Rightarrow> JStr (isoformat d))"
    by (rule mp [OF conjunct1 [OF conjunct2]])
  then obtain k kline where q: "Bill_to_quickbooks_json bill_rent = Inr k"
      "at_path k [''Line''] = Some (JArr [kline])"
      "at_path kline [''AccountBasedExpenseLineDetail'']
              = Some (JObj [(''AccountRef'', JObj [(''name'', JStr (expense_account bill_rent))])])"
      "''ItemRef'' \<notin> set (all_keys k)"
      "at_path k [''VendorRef''] = Some (JObj [(''name'', JStr (vendor_name bill_rent))])"
    by (elim exE conjE)
  have c2: "\<exists>j line. Bill_to_quickbooks_json bill_rent = Inr j
         \<and> at_path j [''Line''] = Some (JArr [line])
         \<and> at_path line [''AccountBasedExpenseLineDetail'']
              = Some (JObj [(''AccountRef'', JObj [(''name'', JStr ''Rent'')])])
         \<and> ''ItemRef'' \<notin> set (all_keys j)
         \<and> at_path j [''VendorRef''] = Some (JObj [(''name'', JStr ''Landlord'')])"
    using q unfolding f by (intro exI [of _ k] exI [of _ kline]) simp
  from t h(3) have "\<exists>ys ms ds. isoformat (Date 2024 3 7) = ys @ ''-'' @ ms @ ''-'' @ ds
         \<and> length ys = 4 \<and> length ms = 2 \<and> length ds = 2
         \<and> set (ys @ ms @ ds) \<subseteq> set ''0123456789''"
    by (rule mp [OF conjunct1 [OF conjunct2 [OF conjunct2]]])
  then obtain ys ms ds where "isoformat (Date 2024 3 7) = ys @ ''-'' @ ms @ ''-'' @ ds"
    "length ys = 4" "length ms = 2" "length ds = 2"
    by (elim exE conjE)
  then have c3: "\<exists>ys ms ds. isoformat (Date 2024 3 7) = ys @ ''-'' @ ms @ ''-'' @ ds
         \<and> length ys = 4 \<and> length ms = 2 \<and> length ds = 2"
    by (intro exI conjI)
  have g: "year (Date 2024 3 7) < 10000" "month (Date 2024 3 7) \<le> 12" "day (Date 2024 3 7) \<le> 31"
    by simp_all
  have z: "amount (invoice_acme\<lparr>amount := None\<rparr>) = None" "amount (bill_rent\<lparr>amount := None\<rparr>) = None"
    by simp_all
  note u = to_quickbooks_json_shape [where iv="invoice_acme\<lparr>amount := None\<rparr>"
      and bl="bill_rent\<lparr>amount := None\<rparr>"]
  from u z(1) have c4: "\<exists>m. Invoice_to_quickbooks_json (invoice_acme\<lparr>amount := None\<rparr>) = Inl (TypeError m)"
    by (rule mp [OF conjunct1 [OF conjunct2 [OF conjunct2 [OF conjunct2]]]])
  from u z(2) have c5: "\<exists>m. Bill_to_quickbooks_json (bill_rent\<lparr>amount := None\<rparr>) = Inl (TypeError m)"
    by (rule mp [OF conjunct2 [OF conjunct2 [OF conjunct2 [OF conjunct2]]]])
  show ?thesis
    by (intro conjI) (rule h(1) h(2) g c1 c2 c3 i z c4 c5)+
qed


end
